theory Spec2Isabelle
  imports Complex_Main
begin

section \<open>Strings and big integers\<close>

text \<open>
  The program is a TypeScript command-line tool (\<open>src/index.ts\<close>). Its strings are modelled
  as \<open>string\<close> (the UTF-8 bytes of the text), its \<open>bigint\<close> values as \<open>int\<close>, and the
  unsigned integers the chain returns (uint256, uint8) as \<open>nat\<close>.
\<close>

definition newline :: string where
  "newline = [CHR 0x0A]"

text \<open>The two emoji of the messages, as their UTF-8 bytes (U+2705 and U+274C).\<close>

definition check_mark :: string where
  "check_mark = [CHR 0xE2, CHR 0x9C, CHR 0x85]"

definition cross_mark :: string where
  "cross_mark = [CHR 0xE2, CHR 0x9D, CHR 0x8C]"

fun join_lines :: "string list \<Rightarrow> string" where
  "join_lines [] = []"
| "join_lines [l] = l"
| "join_lines (l # ls) = l @ newline @ join_lines ls"

subsection \<open>\<open>bigint.toString()\<close>\<close>

definition digit_char :: "nat \<Rightarrow> char" where
  "digit_char n = ''0123456789'' ! n"

fun nat_toString :: "nat \<Rightarrow> string" where
  "nat_toString n =
     (if n < 10 then [digit_char n]
      else nat_toString (n div 10) @ [digit_char (n mod 10)])"

declare nat_toString.simps [simp del]

definition bigint_toString :: "int \<Rightarrow> string" where
  "bigint_toString i =
     (if i < 0 then CHR ''-'' # nat_toString (nat (- i)) else nat_toString (nat i))"

subsection \<open>Reading digits\<close>

text \<open>The value of a digit character in a base up to 16; \<open>None\<close> for any other character.\<close>

definition digit_val :: "nat \<Rightarrow> char \<Rightarrow> nat option" where
  "digit_val base c =
     (let k = (of_char c :: nat);
          v = (if 48 \<le> k \<and> k \<le> 57 then Some (k - 48)
               else if 97 \<le> k \<and> k \<le> 102 then Some (k - 87)
               else if 65 \<le> k \<and> k \<le> 70 then Some (k - 55)
               else None)
      in case v of None \<Rightarrow> None | Some d \<Rightarrow> if d < base then Some d else None)"

definition is_digit :: "nat \<Rightarrow> char \<Rightarrow> bool" where
  "is_digit base c = (digit_val base c \<noteq> None)"

text \<open>Horner evaluation of a digit string (callers check the digits first).\<close>

definition read_digits :: "nat \<Rightarrow> string \<Rightarrow> nat" where
  "read_digits base s = foldl (\<lambda>a c. base * a + the (digit_val base c)) 0 s"


subsection \<open>\<open>BigInt(string)\<close>\<close>

text \<open>
  JavaScript's \<open>BigInt\<close> applied to a string: surrounding white space is dropped; the empty
  string is \<open>0n\<close>; decimal digits may carry a sign; the prefixes \<open>0x\<close>, \<open>0o\<close> and \<open>0b\<close>
  (either case, no sign) select another base; anything else is a \<open>SyntaxError\<close>, here
  \<open>Inl\<close> of its message.

  White space is the language's \<open>StrWhiteSpaceChar\<close>: tab, line feed, vertical tab, form
  feed, carriage return and space, and beyond ASCII the no-break space U+00A0, the other
  space separators (U+1680, U+2000 to U+200A, U+202F, U+205F, U+3000), the line and
  paragraph separators U+2028 and U+2029, and the byte order mark U+FEFF. A string is the
  UTF-8 bytes of its text, as the process receives its arguments, so each of these is one,
  two or three bytes.
\<close>

definition white_space :: "string list" where
  "white_space =
     [[CHR 0x09], [CHR 0x0A], [CHR 0x0B], [CHR 0x0C], [CHR 0x0D], [CHR 0x20],
      [CHR 0xC2, CHR 0xA0],
      [CHR 0xE1, CHR 0x9A, CHR 0x80],
      [CHR 0xE2, CHR 0x80, CHR 0x80], [CHR 0xE2, CHR 0x80, CHR 0x81],
      [CHR 0xE2, CHR 0x80, CHR 0x82], [CHR 0xE2, CHR 0x80, CHR 0x83],
      [CHR 0xE2, CHR 0x80, CHR 0x84], [CHR 0xE2, CHR 0x80, CHR 0x85],
      [CHR 0xE2, CHR 0x80, CHR 0x86], [CHR 0xE2, CHR 0x80, CHR 0x87],
      [CHR 0xE2, CHR 0x80, CHR 0x88], [CHR 0xE2, CHR 0x80, CHR 0x89],
      [CHR 0xE2, CHR 0x80, CHR 0x8A],
      [CHR 0xE2, CHR 0x80, CHR 0xA8], [CHR 0xE2, CHR 0x80, CHR 0xA9],
      [CHR 0xE2, CHR 0x80, CHR 0xAF],
      [CHR 0xE2, CHR 0x81, CHR 0x9F],
      [CHR 0xE3, CHR 0x80, CHR 0x80],
      [CHR 0xEF, CHR 0xBB, CHR 0xBF]]"

text \<open>Dropping from the front of \<open>s\<close> every leading occurrence of one of the sequences \<open>ws\<close>.\<close>

function skip_space :: "string list \<Rightarrow> string \<Rightarrow> string" where
  "skip_space ws s =
     (case find (\<lambda>w. w \<noteq> [] \<and> take (length w) s = w) ws of
        None \<Rightarrow> s
      | Some w \<Rightarrow> skip_space ws (drop (length w) s))"
  by pat_completeness auto

termination
proof (relation "measure (\<lambda>(ws, s). length s)")
  show "wf (measure (\<lambda>(ws :: string list, s :: string). length s))" by simp
next
  fix ws :: "string list" and s w :: string
  assume "find (\<lambda>w. w \<noteq> [] \<and> take (length w) s = w) ws = Some w"
  then have w: "w \<noteq> []" "take (length w) s = w" by (auto simp: find_Some_iff)
  from w(2) have "length (take (length w) s) = length w" by simp
  then have "length w \<le> length s" by simp
  with w(1) show "((ws, drop (length w) s), (ws, s)) \<in> measure (\<lambda>(ws, s). length s)"
    by (cases w) simp_all
qed

declare skip_space.simps [simp del]

definition trim :: "string \<Rightarrow> string" where
  "trim s = rev (skip_space (map rev white_space) (rev (skip_space white_space s)))"

definition all_digits :: "nat \<Rightarrow> string \<Rightarrow> bool" where
  "all_digits base s = (s \<noteq> [] \<and> list_all (is_digit base) s)"

definition prefixed :: "string \<Rightarrow> (nat \<times> string) option" where
  "prefixed t =
     (case t of
        z # x # r \<Rightarrow>
          if z \<noteq> CHR ''0'' then None
          else if x = CHR ''x'' \<or> x = CHR ''X'' then Some (16, r)
          else if x = CHR ''o'' \<or> x = CHR ''O'' then Some (8, r)
          else if x = CHR ''b'' \<or> x = CHR ''B'' then Some (2, r)
          else None
      | _ \<Rightarrow> None)"

definition BigInt :: "string \<Rightarrow> string + int" where
  "BigInt s =
     (let t = trim s;
          bad = Inl (''Cannot convert '' @ s @ '' to a BigInt'')
      in if t = [] then Inr 0
         else if all_digits 10 t then Inr (int (read_digits 10 t))
         else if hd t = CHR ''-'' then
           (if all_digits 10 (tl t) then Inr (- int (read_digits 10 (tl t))) else bad)
         else if hd t = CHR ''+'' then
           (if all_digits 10 (tl t) then Inr (int (read_digits 10 (tl t))) else bad)
         else (case prefixed t of
                 Some (base, r) \<Rightarrow>
                   if all_digits base r then Inr (int (read_digits base r)) else bad
               | None \<Rightarrow> bad))"

subsection \<open>\<open>ethers.formatUnits\<close> and \<open>ethers.parseUnits\<close>\<close>

fun strip_trailing_zeros :: "string \<Rightarrow> string" where
  "strip_trailing_zeros s =
     (if 1 < length s \<and> last s = CHR ''0'' then strip_trailing_zeros (butlast s) else s)"

declare strip_trailing_zeros.simps [simp del]

definition pad_left :: "nat \<Rightarrow> string \<Rightarrow> string" where
  "pad_left n s = replicate (n - length s) (CHR ''0'') @ s"

definition pad_right :: "nat \<Rightarrow> string \<Rightarrow> string" where
  "pad_right n s = s @ replicate (n - length s) (CHR ''0'')"

text \<open>
  Modelled from the spec: \<open>ethers.formatUnits\<close>, a function of the client library, which is
  not part of the repository. The spec (4.4) describes it as the total conversion
  "smallest-unit integer \<rightarrow> human decimal string", parameterised by the decimal count: the
  integer is split at \<open>10 ^ decimals\<close>, the fraction is padded to \<open>decimals\<close> digits and its
  trailing zeros are dropped down to one digit; with no decimals there is no point.
\<close>

definition formatUnits :: "int \<Rightarrow> nat \<Rightarrow> string" where
  "formatUnits amount decimals =
     (let m = nat \<bar>amount\<bar>;
          whole = nat_toString (m div 10 ^ decimals);
          frac = strip_trailing_zeros (pad_left decimals (nat_toString (m mod 10 ^ decimals)))
      in (if amount < 0 then ''-'' else [])
         @ (if decimals = 0 then whole else whole @ ''.'' @ frac))"

text \<open>
  Modelled from the spec: \<open>ethers.parseUnits\<close>, of the same library: "human decimal string
  \<rightarrow> smallest-unit integer", total "other than malformed numeric-string input, which is an
  error condition surfaced to the caller". A well-formed input is an optional minus sign,
  digits, and optionally a point and digits, with at least one digit; digits of the fraction
  beyond \<open>decimals\<close> must be zeros.
\<close>

definition parseUnits :: "string \<Rightarrow> nat \<Rightarrow> string + int" where
  "parseUnits s decimals =
     (let neg = (s \<noteq> [] \<and> hd s = CHR ''-'');
          body = (if neg then tl s else s);
          whole = takeWhile (\<lambda>c. c \<noteq> CHR ''.'') body;
          frac = drop 1 (dropWhile (\<lambda>c. c \<noteq> CHR ''.'') body)
      in if whole @ frac = [] then Inl ''invalid FixedNumber string value''
         else if list_all (is_digit 10) whole \<and> list_all (is_digit 10) frac then
           (if list_all (\<lambda>c. c = CHR ''0'') (drop decimals frac) then
              let v = int (read_digits 10 whole * 10 ^ decimals
                           + read_digits 10 (take decimals (pad_right decimals frac)))
              in Inr (if neg then - v else v)
            else Inl ''too many decimals for format'')
         else Inl ''invalid FixedNumber string value'')"


section \<open>The outside world\<close>

text \<open>
  Everything the program does to the outside goes through the client library: it builds a
  provider, a wallet and contract proxies, reads ABI files, and calls the node. Each such
  operation is a \<open>request\<close>; the world answers with a \<open>resp\<close> or with the message of
  the error the library throws. A contract proxy is identified by the address it is bound
  to; a method call carries the method's name and its arguments in order.
\<close>

datatype arg = Str string | Big int

record overrides =
  gasLimit :: nat
  gasPrice :: "nat option"

datatype request =
    NewProvider string
  | NewWallet string
  | NewContract string string
  | ReadABI string
  | GetBalance string
  | GetFeeData
  | Call string string "arg list"
  | EstimateGas string string "arg list"
  | Send string string "arg list" overrides
  | Wait string

datatype resp =
    Done
  | Address string
  | Abi string
  | Uint nat
  | Text string
  | FeeData "nat option"
  | TxResponse string
  | Receipt nat nat
  | Shares nat "nat list"

datatype out = Stdout string | Stderr string

text \<open>A run ends early by a thrown error (its message) or by \<open>process.exit\<close> (its code).\<close>

datatype abort = Throw string | Exit nat

record 'w state =
  world :: 'w
  trace :: "(request \<times> (string + resp)) list"
  console :: "out list"

type_synonym 'w rpc = "'w \<Rightarrow> request \<Rightarrow> (string + resp) \<times> 'w"

type_synonym ('w, 'a) io = "'w state \<Rightarrow> (abort + 'a) \<times> 'w state"

definition io_return :: "'a \<Rightarrow> ('w, 'a) io" where
  "io_return x st = (Inr x, st)"

definition io_bind :: "('w, 'a) io \<Rightarrow> ('a \<Rightarrow> ('w, 'b) io) \<Rightarrow> ('w, 'b) io" where
  "io_bind m f st = (case m st of (Inl e, st') \<Rightarrow> (Inl e, st') | (Inr x, st') \<Rightarrow> f x st')"

definition io_then :: "('w, 'a) io \<Rightarrow> ('w, 'b) io \<Rightarrow> ('w, 'b) io" where
  "io_then m k = io_bind m (\<lambda>_. k)"

definition io_throw :: "string \<Rightarrow> ('w, 'a) io" where
  "io_throw msg st = (Inl (Throw msg), st)"

definition process_exit :: "nat \<Rightarrow> ('w, 'a) io" where
  "process_exit n st = (Inl (Exit n), st)"

text \<open>\<open>try { m } catch (error) { h error.message }\<close>: \<open>process.exit\<close> is not caught.\<close>

definition try_catch :: "('w, 'a) io \<Rightarrow> (string \<Rightarrow> ('w, 'a) io) \<Rightarrow> ('w, 'a) io" where
  "try_catch m h st =
     (case m st of
        (Inl (Throw msg), st') \<Rightarrow> h msg st'
      | (Inl (Exit n), st') \<Rightarrow> (Inl (Exit n), st')
      | (Inr x, st') \<Rightarrow> (Inr x, st'))"

text \<open>A promise that is started and settles: its rejection becomes a value.\<close>

definition io_settle :: "('w, 'a) io \<Rightarrow> ('w, string + 'a) io" where
  "io_settle m st =
     (case m st of
        (Inl (Throw msg), st') \<Rightarrow> (Inr (Inl msg), st')
      | (Inl (Exit n), st') \<Rightarrow> (Inl (Exit n), st')
      | (Inr x, st') \<Rightarrow> (Inr (Inr x), st'))"

definition console_log :: "string \<Rightarrow> ('w, unit) io" where
  "console_log s st = (Inr (), st\<lparr>console := console st @ [Stdout s]\<rparr>)"

definition console_error :: "string \<Rightarrow> ('w, unit) io" where
  "console_error s st = (Inr (), st\<lparr>console := console st @ [Stderr s]\<rparr>)"

text \<open>One request to the world: the answer is recorded in the trace, an error is thrown.\<close>

definition perform :: "'w rpc \<Rightarrow> request \<Rightarrow> ('w, resp) io" where
  "perform rpc rq st =
     (case rpc (world st) rq of
        (r, w') \<Rightarrow>
          (case r of Inl msg \<Rightarrow> Inl (Throw msg) | Inr v \<Rightarrow> Inr v,
           st\<lparr>world := w', trace := trace st @ [(rq, r)]\<rparr>))"

text \<open>
  The library decodes an answer by the ABI; an answer of another shape is a failure of the
  call, thrown like any other.
\<close>

definition bad_data :: string where
  "bad_data = ''could not decode result data''"

definition as_uint :: "resp \<Rightarrow> ('w, nat) io" where
  "as_uint r = (case r of Uint n \<Rightarrow> io_return n | _ \<Rightarrow> io_throw bad_data)"

definition as_text :: "resp \<Rightarrow> ('w, string) io" where
  "as_text r = (case r of Text s \<Rightarrow> io_return s | _ \<Rightarrow> io_throw bad_data)"

definition as_address :: "resp \<Rightarrow> ('w, string) io" where
  "as_address r = (case r of Address s \<Rightarrow> io_return s | _ \<Rightarrow> io_throw bad_data)"

definition as_abi :: "resp \<Rightarrow> ('w, string) io" where
  "as_abi r = (case r of Abi s \<Rightarrow> io_return s | _ \<Rightarrow> io_throw bad_data)"

definition as_fee :: "resp \<Rightarrow> ('w, nat option) io" where
  "as_fee r = (case r of FeeData p \<Rightarrow> io_return p | _ \<Rightarrow> io_throw bad_data)"

definition as_tx :: "resp \<Rightarrow> ('w, string) io" where
  "as_tx r = (case r of TxResponse h \<Rightarrow> io_return h | _ \<Rightarrow> io_throw bad_data)"

definition as_receipt :: "resp \<Rightarrow> ('w, nat \<times> nat) io" where
  "as_receipt r = (case r of Receipt b g \<Rightarrow> io_return (b, g) | _ \<Rightarrow> io_throw bad_data)"

definition as_shares :: "resp \<Rightarrow> ('w, nat \<times> nat list) io" where
  "as_shares r = (case r of Shares l ss \<Rightarrow> io_return (l, ss) | _ \<Rightarrow> io_throw bad_data)"

section \<open>The program\<close>

subsection \<open>Token amounts\<close>

definition formatTokenAmount :: "int \<Rightarrow> nat \<Rightarrow> string" where
  "formatTokenAmount amount decimals = formatUnits amount decimals"

definition parseTokenAmount :: "string \<Rightarrow> nat \<Rightarrow> string + int" where
  "parseTokenAmount amount decimals = parseUnits amount decimals"

subsection \<open>Connection and contract proxies\<close>

datatype Wallet = Wallet (address: string)

record TokenInfo =
  decimals :: nat
  symbol :: string
  name :: string

record UserShares =
  liquidity :: nat
  shares :: "nat list"

definition lift :: "string + 'a \<Rightarrow> ('w, 'a) io" where
  "lift r = (case r of Inl msg \<Rightarrow> io_throw msg | Inr x \<Rightarrow> io_return x)"

text \<open>\<open>ethers.formatEther\<close> is \<open>formatUnits\<close> at 18 decimals, the unit \<open>'gwei'\<close> is 9.\<close>

definition setupEthers :: "'w rpc \<Rightarrow> string \<Rightarrow> string \<Rightarrow> ('w, string \<times> Wallet) io" where
  "setupEthers rpc privateKey rpcUrl =
     try_catch
       (io_bind (perform rpc (NewProvider rpcUrl)) (\<lambda>_.
        io_bind (io_bind (perform rpc (NewWallet privateKey)) as_address) (\<lambda>signer_address.
        io_then (console_log (''Connected to: '' @ rpcUrl))
       (io_then (console_log (''Wallet address: '' @ signer_address))
       (io_bind (io_bind (perform rpc (GetBalance signer_address)) as_uint) (\<lambda>balance.
        io_then (console_log (''Wallet balance: '' @ formatUnits (int balance) 18 @ '' ETH'' @ newline))
       (io_return (rpcUrl, Wallet signer_address))))))))
       (\<lambda>msg. io_then (console_error (''Error setting up ethers: '' @ msg)) (process_exit 1))"

text \<open>The proxy that \<open>createContract\<close> returns is identified by its address.\<close>

definition createContract :: "'w rpc \<Rightarrow> string \<Rightarrow> string \<Rightarrow> Wallet \<Rightarrow> ('w, string) io" where
  "createContract rpc contractAddress abi signer =
     try_catch
       (io_then (perform rpc (NewContract contractAddress abi)) (io_return contractAddress))
       (\<lambda>msg. io_then (console_error (''Error creating contract instance: '' @ msg)) (process_exit 1))"

text \<open>
  \<open>Promise.all\<close> over three reads: all three are started, in this order, whatever the
  others answer; the first rejection (here by position) is the one thrown.
\<close>

definition getTokenInfo :: "'w rpc \<Rightarrow> string \<Rightarrow> ('w, TokenInfo) io" where
  "getTokenInfo rpc tokenContract =
     try_catch
       (io_bind (io_settle (io_bind (perform rpc (Call tokenContract ''decimals'' [])) as_uint)) (\<lambda>d.
        io_bind (io_settle (io_bind (perform rpc (Call tokenContract ''symbol'' [])) as_text)) (\<lambda>s.
        io_bind (io_settle (io_bind (perform rpc (Call tokenContract ''name'' [])) as_text)) (\<lambda>n.
        io_bind (lift d) (\<lambda>decimals.
        io_bind (lift s) (\<lambda>symbol.
        io_bind (lift n) (\<lambda>name.
        io_return \<lparr>decimals = decimals, symbol = symbol, name = name\<rparr>)))))))
       (\<lambda>msg. io_then (console_error (''Error getting token info: '' @ msg)) (io_throw msg))"

text \<open>The three addresses of the configuration (resolved below).\<close>

record config =
  RPC_URL :: string
  CONTRACT_ADDRESS :: string
  ERC20_TOKEN_ADDRESS :: string

subsection \<open>Allowance\<close>

definition or_zero :: "nat option \<Rightarrow> int" where
  "or_zero p = (case p of None \<Rightarrow> 0 | Some g \<Rightarrow> int g)"

definition checkAndApprove ::
  "'w rpc \<Rightarrow> string \<Rightarrow> string \<Rightarrow> int \<Rightarrow> string \<Rightarrow> TokenInfo \<Rightarrow> ('w, unit) io" where
  "checkAndApprove rpc tokenContract spenderAddress amount userAddress tokenInfo =
     try_catch
       (io_then (console_log (''Checking '' @ symbol tokenInfo @ '' allowance...''))
       (io_bind (io_bind (perform rpc
                   (Call tokenContract ''allowance'' [Str userAddress, Str spenderAddress])) as_uint)
          (\<lambda>currentAllowance.
        io_then (console_log (''Current allowance: ''
                   @ formatTokenAmount (int currentAllowance) (decimals tokenInfo)
                   @ '' '' @ symbol tokenInfo))
       (io_then (console_log (''Required amount: ''
                   @ formatTokenAmount amount (decimals tokenInfo) @ '' '' @ symbol tokenInfo))
       (if int currentAllowance < amount then
          io_then (console_log (newline @ ''Insufficient allowance. Approving ''
                     @ formatTokenAmount amount (decimals tokenInfo)
                     @ '' '' @ symbol tokenInfo @ ''...''))
         (io_bind (io_bind (perform rpc
                     (EstimateGas tokenContract ''approve'' [Str spenderAddress, Big amount])) as_uint)
            (\<lambda>gasEstimate.
          io_bind (io_bind (perform rpc GetFeeData) as_fee) (\<lambda>gasPrice.
          io_then (console_log (''Approval gas estimate: '' @ nat_toString gasEstimate))
         (io_then (console_log (''Gas price: '' @ formatUnits (or_zero gasPrice) 9 @ '' gwei''))
         (io_bind (io_bind (perform rpc
                     (Send tokenContract ''approve'' [Str spenderAddress, Big amount]
                        \<lparr>gasLimit = gasEstimate * 120 div 100, gasPrice = gasPrice\<rparr>)) as_tx)
            (\<lambda>approveTx.
          io_then (console_log (''Approval transaction sent: '' @ approveTx))
         (io_bind (io_bind (perform rpc (Wait approveTx)) as_receipt) (\<lambda>approveReceipt.
          io_then (console_log (''Approval confirmed in block: '' @ nat_toString (fst approveReceipt)))
                  (console_log (check_mark @ '' Approval successful!'' @ newline))))))))))
        else console_log (check_mark @ '' Sufficient allowance already exists.'' @ newline))))))
       (\<lambda>msg. io_then (console_error (''Error checking/approving allowance: '' @ msg))
                 (io_throw msg))"

subsection \<open>Actions\<close>

text \<open>
  \<open>executeBuy\<close> reads the module-level constant \<open>CONTRACT_ADDRESS\<close>; here it is passed
  with the configuration.
\<close>

definition executeBuy ::
  "'w rpc \<Rightarrow> config \<Rightarrow> string \<Rightarrow> string \<Rightarrow> TokenInfo \<Rightarrow> string \<Rightarrow> string \<Rightarrow> string \<Rightarrow> string
     \<Rightarrow> string \<Rightarrow> ('w, nat \<times> nat) io" where
  "executeBuy rpc cfg contract tokenContract tokenInfo marketId outcomeId value minShares userAddress =
     try_catch
       (io_then (console_log ''Executing buy:'')
       (io_then (console_log (''  Market ID: '' @ marketId))
       (io_then (console_log (''  Outcome ID: '' @ outcomeId))
       (io_bind (lift (BigInt value)) (\<lambda>amount.
        io_then (console_log (''  Value: '' @ formatTokenAmount amount (decimals tokenInfo)
                   @ '' '' @ symbol tokenInfo))
       (io_then (console_log (''  Min Shares: '' @ minShares @ newline))
       (io_bind (io_bind (perform rpc (Call tokenContract ''balanceOf'' [Str userAddress])) as_uint)
          (\<lambda>balance.
        io_then (console_log (symbol tokenInfo @ '' balance: ''
                   @ formatTokenAmount (int balance) (decimals tokenInfo)
                   @ '' '' @ symbol tokenInfo))
       (io_then (if int balance < amount then
                   io_throw (''Insufficient '' @ symbol tokenInfo @ '' balance. Required: ''
                     @ formatTokenAmount amount (decimals tokenInfo) @ '', Available: ''
                     @ formatTokenAmount (int balance) (decimals tokenInfo))
                 else io_return ())
       (io_then (checkAndApprove rpc tokenContract (CONTRACT_ADDRESS cfg) amount userAddress tokenInfo)
       (io_bind (io_bind (perform rpc
                   (EstimateGas contract ''buy''
                      [Str marketId, Str outcomeId, Str minShares, Str value])) as_uint)
          (\<lambda>gasEstimate.
        io_bind (io_bind (perform rpc GetFeeData) as_fee) (\<lambda>gasPrice.
        io_then (console_log (''Estimated gas: '' @ nat_toString gasEstimate))
       (io_then (console_log (''Gas price: '' @ formatUnits (or_zero gasPrice) 9 @ '' gwei''))
       (io_bind (io_bind (perform rpc
                   (Send contract ''buy'' [Str marketId, Str outcomeId, Str minShares, Str value]
                      \<lparr>gasLimit = gasEstimate * 120 div 100, gasPrice = gasPrice\<rparr>)) as_tx)
          (\<lambda>tx.
        io_then (console_log (''Transaction sent: '' @ tx))
       (io_bind (io_bind (perform rpc (Wait tx)) as_receipt) (\<lambda>receipt.
        io_then (console_log (''Transaction confirmed in block: '' @ nat_toString (fst receipt)))
       (io_then (console_log (''Gas used: '' @ nat_toString (snd receipt)))
       (io_return receipt))))))))))))))))))))
       (\<lambda>msg. io_then (console_error (''Error executing buy: '' @ msg)) (io_throw msg))"

definition executeSell ::
  "'w rpc \<Rightarrow> string \<Rightarrow> TokenInfo \<Rightarrow> string \<Rightarrow> string \<Rightarrow> string \<Rightarrow> string \<Rightarrow> ('w, nat \<times> nat) io" where
  "executeSell rpc contract tokenInfo marketId outcomeId value maxShares =
     try_catch
       (io_then (console_log ''Executing sell:'')
       (io_then (console_log (''  Market ID: '' @ marketId))
       (io_then (console_log (''  Outcome ID: '' @ outcomeId))
       (io_bind (lift (BigInt value)) (\<lambda>amount.
        io_then (console_log (''  Value: '' @ formatTokenAmount amount (decimals tokenInfo)
                   @ '' '' @ symbol tokenInfo))
       (io_then (console_log (''  Max Shares: '' @ maxShares @ newline))
       (io_bind (io_bind (perform rpc
                   (EstimateGas contract ''sell''
                      [Str marketId, Str outcomeId, Str value, Str maxShares])) as_uint)
          (\<lambda>gasEstimate.
        io_bind (io_bind (perform rpc GetFeeData) as_fee) (\<lambda>gasPrice.
        io_then (console_log (''Estimated gas: '' @ nat_toString gasEstimate))
       (io_then (console_log (''Gas price: '' @ formatUnits (or_zero gasPrice) 9 @ '' gwei''))
       (io_bind (io_bind (perform rpc
                   (Send contract ''sell'' [Str marketId, Str outcomeId, Str value, Str maxShares]
                      \<lparr>gasLimit = gasEstimate * 120 div 100, gasPrice = gasPrice\<rparr>)) as_tx)
          (\<lambda>tx.
        io_then (console_log (''Transaction sent: '' @ tx))
       (io_bind (io_bind (perform rpc (Wait tx)) as_receipt) (\<lambda>receipt.
        io_then (console_log (''Transaction confirmed in block: '' @ nat_toString (fst receipt)))
       (io_then (console_log (''Gas used: '' @ nat_toString (snd receipt)))
       (io_return receipt))))))))))))))))
       (\<lambda>msg. io_then (console_error (''Error executing sell: '' @ msg)) (io_throw msg))"

definition executeClaimWinnings :: "'w rpc \<Rightarrow> string \<Rightarrow> string \<Rightarrow> ('w, nat \<times> nat) io" where
  "executeClaimWinnings rpc contract marketId =
     try_catch
       (io_then (console_log ''Executing claimWinnings:'')
       (io_then (console_log (''  Market ID: '' @ marketId @ newline))
       (io_bind (io_bind (perform rpc (EstimateGas contract ''claimWinnings'' [Str marketId])) as_uint)
          (\<lambda>gasEstimate.
        io_bind (io_bind (perform rpc GetFeeData) as_fee) (\<lambda>gasPrice.
        io_then (console_log (''Estimated gas: '' @ nat_toString gasEstimate))
       (io_then (console_log (''Gas price: '' @ formatUnits (or_zero gasPrice) 9 @ '' gwei''))
       (io_bind (io_bind (perform rpc
                   (Send contract ''claimWinnings'' [Str marketId]
                      \<lparr>gasLimit = gasEstimate * 120 div 100, gasPrice = gasPrice\<rparr>)) as_tx)
          (\<lambda>tx.
        io_then (console_log (''Transaction sent: '' @ tx))
       (io_bind (io_bind (perform rpc (Wait tx)) as_receipt) (\<lambda>receipt.
        io_then (console_log (''Transaction confirmed in block: '' @ nat_toString (fst receipt)))
       (io_then (console_log (''Gas used: '' @ nat_toString (snd receipt)))
       (io_return receipt))))))))))))
       (\<lambda>msg. io_then (console_error (''Error executing claimWinnings: '' @ msg)) (io_throw msg))"

subsection \<open>Position report\<close>

fun join_with :: "string \<Rightarrow> string list \<Rightarrow> string" where
  "join_with sep [] = []"
| "join_with sep [x] = x"
| "join_with sep (x # xs) = x @ sep @ join_with sep xs"

definition getUserShares ::
  "'w rpc \<Rightarrow> string \<Rightarrow> TokenInfo \<Rightarrow> string \<Rightarrow> string \<Rightarrow> ('w, UserShares option) io" where
  "getUserShares rpc contract tokenInfo marketId userAddress =
     try_catch
       (io_bind (io_bind (perform rpc
                   (Call contract ''getUserMarketShares'' [Str marketId, Str userAddress])) as_shares)
          (\<lambda>(liquidity, shares).
        io_then (console_log (''User shares for market '' @ marketId @ '':''))
       (io_then (console_log (''  Liquidity: ''
                   @ formatTokenAmount (int liquidity) (decimals tokenInfo)
                   @ '' '' @ symbol tokenInfo))
       (io_then (console_log (''  Outcome shares: ''
                   @ join_with '', ''
                       (map (\<lambda>s. formatTokenAmount (int s) (decimals tokenInfo)) shares)))
       (io_return (Some \<lparr>liquidity = liquidity, shares = shares\<rparr>))))))
       (\<lambda>msg. io_then (console_error (''Error getting user shares: '' @ msg)) (io_return None))"

subsection \<open>Configuration\<close>

text \<open>
  The three module-level constants: \<open>process.env.X || (() => { ...; process.exit(1) })()\<close>.
  A variable that is unset or empty ends the process with code 1.
\<close>

definition dquote :: string where
  "dquote = [CHR 0x22]"

definition require_env :: "(string \<Rightarrow> string option) \<Rightarrow> string \<Rightarrow> string \<Rightarrow> ('w, string) io" where
  "require_env env var example =
     (let missing =
        io_then (console_error (cross_mark @ '' Error: '' @ var @ '' environment variable is required''))
       (io_then (console_error (''Set it with: export '' @ var @ ''='' @ dquote @ example @ dquote))
         (process_exit 1))
      in case env var of
           None \<Rightarrow> missing
         | Some v \<Rightarrow> if v = [] then missing else io_return v)"

definition load_config :: "(string \<Rightarrow> string option) \<Rightarrow> ('w, config) io" where
  "load_config env =
     io_bind (require_env env ''RPC_URL'' ''https://your-rpc-endpoint.com'') (\<lambda>r.
     io_bind (require_env env ''CONTRACT_ADDRESS'' ''0xYourContractAddress...'') (\<lambda>c.
     io_bind (require_env env ''ERC20_TOKEN_ADDRESS'' ''0xYourTokenAddress...'') (\<lambda>t.
     io_return \<lparr>RPC_URL = r, CONTRACT_ADDRESS = c, ERC20_TOKEN_ADDRESS = t\<rparr>)))"

subsection \<open>ABI files\<close>

definition readABI :: "'w rpc \<Rightarrow> ('w, string) io" where
  "readABI rpc =
     try_catch
       (io_bind (perform rpc (ReadABI ''../contracts/PredictionMarketV3_4.json'')) as_abi)
       (\<lambda>msg. io_then (console_error (''Error reading ABI file: '' @ msg)) (process_exit 1))"

definition readERC20ABI :: "'w rpc \<Rightarrow> ('w, string) io" where
  "readERC20ABI rpc =
     try_catch
       (io_bind (perform rpc (ReadABI ''../contracts/ERC20.json'')) as_abi)
       (\<lambda>msg. io_then (console_error (''Error reading ERC20 ABI file: '' @ msg)) (process_exit 1))"

subsection \<open>Command-line arguments\<close>

record ParsedArguments =
  action :: string
  privateKey :: string
  marketId :: "string option"
  outcomeId :: "string option"
  value' :: "string option"
  minShares :: "string option"
  maxShares :: "string option"

definition usage_text :: string where
  "usage_text = join_lines
     [[],
      ''Usage: yarn dev <action> <privateKey>'',
      [],
      ''Required Environment Variables:'',
      ''  RPC_URL              RPC endpoint (e.g. https://polygon-rpc.com)'',
      ''  CONTRACT_ADDRESS     Smart contract address'',
      ''  ERC20_TOKEN_ADDRESS  ERC20 token address (for payments)'',
      [],
      ''Actions:'',
      ''  buy <marketId> <outcomeId> <value> [minShares]'',
      ''  sell <marketId> <outcomeId> <value> [maxShares]'',
      ''  claimWinnings <marketId>'',
      [],
      ''Examples:'',
      ''  yarn dev buy 0x1234... 1 0 1000000000000000000'',
      ''  yarn dev sell 0x1234... 1 0 500000000000000000'',
      ''  yarn dev claimWinnings 0x1234... 1'',
      ''    '']"

text \<open>\<open>ethers.MaxUint256\<close>, a constant of the library: the largest unsigned 256-bit value.\<close>

definition MaxUint256 :: int where
  "MaxUint256 = 2 ^ 256 - 1"

text \<open>
  \<open>args[i] || d\<close>: an index past the end reads \<open>undefined\<close>, and \<open>undefined\<close> and the
  empty string are both falsy.
\<close>

definition or_default :: "string list \<Rightarrow> nat \<Rightarrow> string \<Rightarrow> string" where
  "or_default args i d = (if i < length args \<and> args ! i \<noteq> [] then args ! i else d)"

text \<open>\<open>args\<close> is \<open>process.argv.slice(2)\<close>.\<close>

definition parseArguments :: "string list \<Rightarrow> ('w, ParsedArguments) io" where
  "parseArguments args =
     (if length args < 2 then io_then (console_log usage_text) (process_exit 1)
      else
        let action = args ! 0;
            privateKey = args ! 1;
            parsedArgs = \<lparr>action = action, privateKey = privateKey, marketId = None,
                          outcomeId = None, value' = None, minShares = None, maxShares = None\<rparr>
        in
        if action = ''buy'' then
          (if length args < 5 then
             io_then (console_error
               ''Buy action requires: marketId, outcomeId, value, and optionally minShares'')
               (process_exit 1)
           else io_return (parsedArgs
                  \<lparr>marketId := Some (args ! 2), outcomeId := Some (args ! 3),
                   value' := Some (args ! 4), minShares := Some (or_default args 5 ''0'')\<rparr>))
        else if action = ''sell'' then
          (if length args < 5 then
             io_then (console_error
               ''Sell action requires: marketId, outcomeId, value, and optionally maxShares'')
               (process_exit 1)
           else io_return (parsedArgs
                  \<lparr>marketId := Some (args ! 2), outcomeId := Some (args ! 3),
                   value' := Some (args ! 4),
                   maxShares := Some (or_default args 5 (bigint_toString MaxUint256))\<rparr>))
        else if action = ''claimWinnings'' then
          (if length args < 3 then
             io_then (console_error ''ClaimWinnings action requires: marketId'') (process_exit 1)
           else io_return (parsedArgs\<lparr>marketId := Some (args ! 2)\<rparr>))
        else
          io_then (console_error (''Unknown action: '' @ action))
         (io_then (console_error ''Valid actions: buy, sell, claimWinnings'')
           (process_exit 1)))"

subsection \<open>Main\<close>

text \<open>\<open>if (args.marketId)\<close>: a field that is absent or the empty string is falsy.\<close>

definition truthy :: "string option \<Rightarrow> bool" where
  "truthy v = (case v of None \<Rightarrow> False | Some s \<Rightarrow> s \<noteq> [])"

text \<open>
  The non-null assertion \<open>args.marketId!\<close> checks nothing at run time: an absent field is
  passed on as \<open>undefined\<close>. \<open>parseArguments\<close> sets every field that the action at hand
  reads.
\<close>

definition bang :: "string option \<Rightarrow> string" where
  "bang v = (case v of None \<Rightarrow> ''undefined'' | Some s \<Rightarrow> s)"

definition main :: "config \<Rightarrow> 'w rpc \<Rightarrow> string list \<Rightarrow> ('w, unit) io" where
  "main cfg rpc argv =
     try_catch
       (io_bind (parseArguments argv) (\<lambda>args.
        io_bind (readABI rpc) (\<lambda>abi.
        io_bind (readERC20ABI rpc) (\<lambda>erc20Abi.
        io_bind (setupEthers rpc (privateKey args) (RPC_URL cfg)) (\<lambda>(provider, signer).
        io_bind (createContract rpc (CONTRACT_ADDRESS cfg) abi signer) (\<lambda>contract.
        io_bind (createContract rpc (ERC20_TOKEN_ADDRESS cfg) erc20Abi signer) (\<lambda>tokenContract.
        io_then (console_log (''Contract address: '' @ CONTRACT_ADDRESS cfg))
       (io_then (console_log (''Token address: '' @ ERC20_TOKEN_ADDRESS cfg @ newline))
       (io_bind (getTokenInfo rpc tokenContract) (\<lambda>tokenInfo.
        io_then (console_log (''Token: '' @ name tokenInfo @ '' ('' @ symbol tokenInfo @ '')''))
       (io_then (console_log (''Decimals: '' @ nat_toString (decimals tokenInfo) @ newline))
       (io_then (if truthy (marketId args) then
                   io_then (getUserShares rpc contract tokenInfo (bang (marketId args)) (address signer))
                           (console_log (''---'' @ newline))
                 else io_return ())
       (io_bind (if action args = ''buy'' then
                   executeBuy rpc cfg contract tokenContract tokenInfo (bang (marketId args))
                     (bang (outcomeId args)) (bang (value' args)) (bang (minShares args))
                     (address signer)
                 else if action args = ''sell'' then
                   executeSell rpc contract tokenInfo (bang (marketId args))
                     (bang (outcomeId args)) (bang (value' args)) (bang (maxShares args))
                 else if action args = ''claimWinnings'' then
                   executeClaimWinnings rpc contract (bang (marketId args))
                 else io_throw (''Unknown action: '' @ action args)) (\<lambda>receipt.
        io_then (console_log (newline @ ''---'' @ newline))
       (io_then (if truthy (marketId args) then
                   io_then (getUserShares rpc contract tokenInfo (bang (marketId args)) (address signer))
                           (io_return ())
                 else io_return ())
       (console_log (newline @ ''Action completed successfully! '' @ check_mark)))))))))))))))))
       (\<lambda>msg. io_then (console_error (newline @ ''Action failed! '' @ cross_mark))
                (io_then (console_error (''Error: '' @ msg)) (process_exit 1)))"

text \<open>
  The whole run: the module's constants are resolved first, then \<open>main()\<close> is called. A
  run that returns from \<open>main\<close> ends with code 0.
\<close>

definition program :: "(string \<Rightarrow> string option) \<Rightarrow> 'w rpc \<Rightarrow> string list \<Rightarrow> ('w, unit) io" where
  "program env rpc argv = io_bind (load_config env) (\<lambda>cfg. main cfg rpc argv)"

definition exit_code :: "abort + unit \<Rightarrow> nat" where
  "exit_code r = (case r of Inr _ \<Rightarrow> 0 | Inl (Exit n) \<Rightarrow> n | Inl (Throw _) \<Rightarrow> 1)"

definition start :: "'w \<Rightarrow> 'w state" where
  "start w = \<lparr>world = w, trace = [], console = []\<rparr>"

section \<open>Traces and properties of runs\<close>

type_synonym entry = "request \<times> (string + resp)"

text \<open>The requests an action makes when run from a state, with their answers.\<close>

definition new_trace :: "('w, 'a) io \<Rightarrow> 'w state \<Rightarrow> entry list" where
  "new_trace m st = drop (length (trace st)) (trace (snd (m st)))"

definition is_send :: "request \<Rightarrow> bool" where
  "is_send rq = (case rq of Send c m as ov \<Rightarrow> True | _ \<Rightarrow> False)"

text \<open>Whatever the world answers, the requests of \<open>m\<close> satisfy \<open>Q\<close>.\<close>

definition emits :: "(entry list \<Rightarrow> bool) \<Rightarrow> ('w, 'a) io \<Rightarrow> bool" where
  "emits Q m = (\<forall>st. \<exists>tr. trace (snd (m st)) = trace st @ tr \<and> Q tr)"

definition appendable :: "(entry list \<Rightarrow> bool) \<Rightarrow> bool" where
  "appendable Q = (Q [] \<and> (\<forall>a b. Q a \<longrightarrow> Q b \<longrightarrow> Q (a @ b)))"

text \<open>Run from \<open>st\<close>, the action \<open>m\<close> first makes the requests \<open>pre\<close>, with these answers.\<close>

definition begins :: "entry list \<Rightarrow> ('w, 'a) io \<Rightarrow> 'w state \<Rightarrow> bool" where
  "begins pre m st = (\<exists>rest. trace (snd (m st)) = trace st @ pre @ rest)"

text \<open>
  Run from a state whose trace has \<open>C\<close>, the action returns (it neither throws nor exits),
  with a result and a trace that have \<open>D\<close>.
\<close>

definition returns :: "(entry list \<Rightarrow> bool) \<Rightarrow> ('w, 'a) io \<Rightarrow> ('a \<Rightarrow> entry list \<Rightarrow> bool) \<Rightarrow> bool" where
  "returns C m D = (\<forall>st. C (trace st) \<longrightarrow> (\<exists>x st'. m st = (Inr x, st') \<and> D x (trace st')))"

definition upward :: "(entry list \<Rightarrow> bool) \<Rightarrow> bool" where
  "upward C = (\<forall>a b. C a \<longrightarrow> C (a @ b))"

text \<open>The trace extends \<open>t0\<close>, and what was added has \<open>C\<close>.\<close>

definition since :: "entry list \<Rightarrow> (entry list \<Rightarrow> bool) \<Rightarrow> entry list \<Rightarrow> bool" where
  "since t0 C tr = (\<exists>new. tr = t0 @ new \<and> C new)"


subsection \<open>Gas limits\<close>

text \<open>
  The gas limit as the code computes it, \<open>gasEstimate * BigInt(120) / BigInt(100)\<close> (the
  division of big integers truncates), and as the spec words it, \<open>ceil(estimate * 1.2)\<close>.
\<close>

definition code_gas_limit :: "nat \<Rightarrow> nat" where
  "code_gas_limit estimate = estimate * 120 div 100"

definition spec_gas_limit :: "nat \<Rightarrow> int" where
  "spec_gas_limit estimate = \<lceil>real estimate * 1.2\<rceil>"

text \<open>
  An entry is the gas estimate that a submission \<open>c.m(as, ov)\<close> was computed from: the
  estimate of the same call, answered with \<open>g\<close>, and the limit of \<open>ov\<close> is \<open>g\<close> plus the
  buffer.
\<close>

definition estimate_matches :: "entry \<Rightarrow> string \<Rightarrow> string \<Rightarrow> arg list \<Rightarrow> overrides \<Rightarrow> bool" where
  "estimate_matches e c m as ov =
     (case e of
        (EstimateGas c' m' as', Inr (Uint g)) \<Rightarrow>
          c' = c \<and> m' = m \<and> as' = as \<and> gasLimit ov = code_gas_limit g
      | _ \<Rightarrow> False)"

text \<open>
  Every submission in a trace comes two requests after its gas estimate (the fee data is
  read in between) and carries the buffered limit.
\<close>

definition buffered :: "entry list \<Rightarrow> bool" where
  "buffered tr =
     (\<forall>i<length tr.
        case fst (tr ! i) of
          Send c m as ov \<Rightarrow> 2 \<le> i \<and> estimate_matches (tr ! (i - 2)) c m as ov
        | _ \<Rightarrow> True)"

subsection \<open>The requests of a sale and of a purchase\<close>

definition sell_request :: "string \<Rightarrow> string \<Rightarrow> string \<Rightarrow> string \<Rightarrow> string \<Rightarrow> request \<Rightarrow> bool" where
  "sell_request contract m oc v mx rq =
     (case rq of
        EstimateGas c meth as \<Rightarrow> c = contract \<and> meth = ''sell'' \<and> as = [Str m, Str oc, Str v, Str mx]
      | GetFeeData \<Rightarrow> True
      | Send c meth as ov \<Rightarrow> c = contract \<and> meth = ''sell'' \<and> as = [Str m, Str oc, Str v, Str mx]
      | Wait h \<Rightarrow> True
      | _ \<Rightarrow> False)"

text \<open>A request that calls \<open>buy\<close> passes \<open>(marketId, outcomeId, minShares, value)\<close>.\<close>

definition buy_order :: "string \<Rightarrow> string \<Rightarrow> string \<Rightarrow> string \<Rightarrow> request \<Rightarrow> bool" where
  "buy_order m oc ms v rq =
     (case rq of
        EstimateGas c meth as \<Rightarrow> (if meth = ''buy'' then as = [Str m, Str oc, Str ms, Str v] else True)
      | Send c meth as ov \<Rightarrow> (if meth = ''buy'' then as = [Str m, Str oc, Str ms, Str v] else True)
      | _ \<Rightarrow> True)"

subsection \<open>The balance check of a purchase\<close>

text \<open>
  The requests that \<open>executeBuy\<close> makes after its balance check: the allowance read, any
  gas estimate and any submission.
\<close>

definition past_balance_check :: "request \<Rightarrow> bool" where
  "past_balance_check rq =
     (case rq of
        Call c meth as \<Rightarrow> meth = ''allowance''
      | EstimateGas c meth as \<Rightarrow> True
      | Send c meth as ov \<Rightarrow> True
      | _ \<Rightarrow> False)"

text \<open>
  A balance read of the token \<open>token\<close> that was answered with a balance of \<open>amount\<close> or
  more.
\<close>

definition covering_read :: "string \<Rightarrow> int \<Rightarrow> entry \<Rightarrow> bool" where
  "covering_read token amount e =
     (case e of
        (Call c meth as, Inr (Uint b)) \<Rightarrow> c = token \<and> meth = ''balanceOf'' \<and> amount \<le> int b
      | _ \<Rightarrow> False)"

text \<open>
  A trace in which no request past the balance check comes before a balance read that
  covers \<open>amount\<close>.
\<close>

fun guarded :: "string \<Rightarrow> int \<Rightarrow> entry list \<Rightarrow> bool" where
  "guarded token amount [] = True"
| "guarded token amount (e # es) =
     (if covering_read token amount e then True
      else if past_balance_check (fst e) then False
      else guarded token amount es)"

text \<open>
  Run from a state whose trace has \<open>C\<close>, the action throws, with a message that has \<open>E\<close>.
\<close>

definition raises :: "(entry list \<Rightarrow> bool) \<Rightarrow> ('w, 'a) io \<Rightarrow> (string \<Rightarrow> bool) \<Rightarrow> bool" where
  "raises C m E = (\<forall>st. C (trace st) \<longrightarrow> (\<exists>msg st'. m st = (Inl (Throw msg), st') \<and> E msg))"

subsection \<open>Worlds that answer\<close>

text \<open>
  Properties of a world, each about the requests of one part of a run. In a world that
  \<open>connects\<close> for a configuration, the two ABI files are read, the provider at the
  configured URL, the wallet and the proxies of the two configured contracts are built,
  and the native balance and the metadata of the configured token are answered in the
  shape their caller decodes.
\<close>

definition connects :: "'w rpc \<Rightarrow> config \<Rightarrow> bool" where
  "connects rpc cfg =
     (\<forall>w.
        (\<exists>abi w'. rpc w (ReadABI ''../contracts/PredictionMarketV3_4.json'') = (Inr (Abi abi), w'))
      \<and> (\<exists>abi w'. rpc w (ReadABI ''../contracts/ERC20.json'') = (Inr (Abi abi), w'))
      \<and> (\<exists>v w'. rpc w (NewProvider (RPC_URL cfg)) = (Inr v, w'))
      \<and> (\<forall>k. \<exists>a w'. rpc w (NewWallet k) = (Inr (Address a), w'))
      \<and> (\<forall>a. \<exists>n w'. rpc w (GetBalance a) = (Inr (Uint n), w'))
      \<and> (\<forall>abi. \<exists>v w'. rpc w (NewContract (CONTRACT_ADDRESS cfg) abi) = (Inr v, w'))
      \<and> (\<forall>abi. \<exists>v w'. rpc w (NewContract (ERC20_TOKEN_ADDRESS cfg) abi) = (Inr v, w'))
      \<and> (\<exists>n w'. rpc w (Call (ERC20_TOKEN_ADDRESS cfg) ''decimals'' []) = (Inr (Uint n), w'))
      \<and> (\<exists>s w'. rpc w (Call (ERC20_TOKEN_ADDRESS cfg) ''symbol'' []) = (Inr (Text s), w'))
      \<and> (\<exists>s w'. rpc w (Call (ERC20_TOKEN_ADDRESS cfg) ''name'' []) = (Inr (Text s), w')))"

text \<open>
  A world \<open>transacts\<close> the method \<open>meth\<close> of the contract \<open>c\<close> when the gas estimates of
  its calls and the fee data are answered, its submissions are accepted and receipts
  arrive.
\<close>

definition transacts :: "'w rpc \<Rightarrow> string \<Rightarrow> string \<Rightarrow> bool" where
  "transacts rpc c meth =
     (\<forall>w.
        (\<exists>p w'. rpc w GetFeeData = (Inr (FeeData p), w'))
      \<and> (\<forall>as. \<exists>g w'. rpc w (EstimateGas c meth as) = (Inr (Uint g), w'))
      \<and> (\<forall>as ov. \<exists>h w'. rpc w (Send c meth as ov) = (Inr (TxResponse h), w'))
      \<and> (\<forall>h. \<exists>b g w'. rpc w (Wait h) = (Inr (Receipt b g), w')))"

text \<open>
  The two reads of the token \<open>token\<close> that only a purchase makes: the balance is answered
  and covers \<open>funds\<close>, and the allowance is answered, whoever the holder and the spender.
\<close>

definition funded :: "'w rpc \<Rightarrow> string \<Rightarrow> int \<Rightarrow> bool" where
  "funded rpc token funds =
     (\<forall>w.
        (\<forall>as. \<exists>n w'. rpc w (Call token ''balanceOf'' as) = (Inr (Uint n), w') \<and> funds \<le> int n)
      \<and> (\<forall>as. \<exists>n w'. rpc w (Call token ''allowance'' as) = (Inr (Uint n), w')))"

text \<open>A world in which the balance of the token is answered and is less than \<open>amount\<close>.\<close>

definition short_of :: "'w rpc \<Rightarrow> string \<Rightarrow> int \<Rightarrow> bool" where
  "short_of rpc token amount =
     (\<forall>w as. \<exists>n w'. rpc w (Call token ''balanceOf'' as) = (Inr (Uint n), w') \<and> int n < amount)"


text \<open>A trace in which a transaction calling \<open>meth\<close> was submitted and then confirmed.\<close>

definition confirmed :: "string \<Rightarrow> entry list \<Rightarrow> bool" where
  "confirmed meth tr =
     (\<exists>c as ov h b g. (Send c meth as ov, Inr (TxResponse h)) \<in> set tr
        \<and> (Wait h, Inr (Receipt b g)) \<in> set tr)"

text \<open>The same, for the call \<open>c.meth(as)\<close>: the contract and the arguments are fixed too.\<close>

definition confirmed_call :: "string \<Rightarrow> string \<Rightarrow> arg list \<Rightarrow> entry list \<Rightarrow> bool" where
  "confirmed_call c meth as tr =
     (\<exists>ov h b g. (Send c meth as ov, Inr (TxResponse h)) \<in> set tr
        \<and> (Wait h, Inr (Receipt b g)) \<in> set tr)"


section \<open>A stub chain\<close>

text \<open>
  A chain for running the program on concrete inputs: fixed token metadata, a token balance
  and an allowance, a gas estimate and a position read that may each fail. Its state is the
  number of transactions submitted so far.
\<close>

record stub =
  stub_balance :: nat
  stub_allowance :: nat
  stub_estimate :: "string + nat"
  stub_position :: "string + nat \<times> nat list"

definition stub_call :: "stub \<Rightarrow> string \<Rightarrow> string + resp" where
  "stub_call p m =
     (if m = ''decimals'' then Inr (Uint 6)
      else if m = ''symbol'' then Inr (Text ''USDC'')
      else if m = ''name'' then Inr (Text ''USD Coin'')
      else if m = ''balanceOf'' then Inr (Uint (stub_balance p))
      else if m = ''allowance'' then Inr (Uint (stub_allowance p))
      else if m = ''getUserMarketShares'' then
        (case stub_position p of Inl e \<Rightarrow> Inl e | Inr (l, ss) \<Rightarrow> Inr (Shares l ss))
      else Inl ''no such method'')"

fun stub_rpc :: "stub \<Rightarrow> nat rpc" where
  "stub_rpc p w (NewProvider u) = (Inr Done, w)"
| "stub_rpc p w (NewWallet k) = (Inr (Address ''0xUser''), w)"
| "stub_rpc p w (NewContract a abi) = (Inr Done, w)"
| "stub_rpc p w (ReadABI f) = (Inr (Abi ''[]''), w)"
| "stub_rpc p w (GetBalance a) = (Inr (Uint 1000000000000000000), w)"
| "stub_rpc p w GetFeeData = (Inr (FeeData (Some 30000000000)), w)"
| "stub_rpc p w (Call c m as) = (stub_call p m, w)"
| "stub_rpc p w (EstimateGas c m as) =
     (case stub_estimate p of Inl e \<Rightarrow> Inl e | Inr g \<Rightarrow> Inr (Uint g), w)"
| "stub_rpc p w (Send c m as ov) = (Inr (TxResponse ''0xabc''), Suc w)"
| "stub_rpc p w (Wait h) = (Inr (Receipt 42 21000), w)"

definition usdc :: TokenInfo where
  "usdc = \<lparr>decimals = 6, symbol = ''USDC'', name = ''USD Coin''\<rparr>"

definition stub_cfg :: config where
  "stub_cfg = \<lparr>RPC_URL = ''http://localhost:8545'', CONTRACT_ADDRESS = ''0xMarket'',
               ERC20_TOKEN_ADDRESS = ''0xToken''\<rparr>"

text \<open>Balance 5 and allowance 5, a gas estimate of 21001, and a position read that reverts.\<close>

definition stub0 :: stub where
  "stub0 = \<lparr>stub_balance = 5, stub_allowance = 5, stub_estimate = Inr 21001,
            stub_position = Inl ''execution reverted''\<rparr>"

section \<open>Facts about the building blocks\<close>

lemmas io_defs = io_return_def io_bind_def io_then_def io_throw_def process_exit_def
  try_catch_def console_log_def console_error_def

lemmas as_defs = as_uint_def as_text_def as_address_def as_abi_def as_fee_def as_tx_def
  as_receipt_def as_shares_def

subsection \<open>Decimal digits\<close>

lemma digit_val_digit_char: "d < 10 \<Longrightarrow> digit_val 10 (digit_char d) = Some d"
proof -
  assume "d < 10"
  then have "d \<in> {0, 1, 2, 3, 4, 5, 6, 7, 8, 9}" by auto
  then show ?thesis by (auto simp: digit_val_def digit_char_def)
qed

lemma digit_char_not_special:
  "d < 10 \<Longrightarrow> digit_char d \<noteq> CHR ''.'' \<and> digit_char d \<noteq> CHR ''-''"
proof -
  assume "d < 10"
  then have "d \<in> {0, 1, 2, 3, 4, 5, 6, 7, 8, 9}" by auto
  then show ?thesis by (auto simp: digit_char_def)
qed

lemma nat_toString_small: "n < 10 \<Longrightarrow> nat_toString n = [digit_char n]"
  by (simp add: nat_toString.simps)

lemma nat_toString_large:
  "\<not> n < 10 \<Longrightarrow> nat_toString n = nat_toString (n div 10) @ [digit_char (n mod 10)]"
  by (subst nat_toString.simps) simp

lemma nat_toString_snoc:
  "0 < n \<Longrightarrow> d < 10 \<Longrightarrow> nat_toString (10 * n + d) = nat_toString n @ [digit_char d]"
  by (subst nat_toString.simps) simp

lemma read_digits_snoc:
  "read_digits b (s @ [c]) = b * read_digits b s + the (digit_val b c)"
  by (simp add: read_digits_def)

lemma read_nat_toString: "read_digits 10 (nat_toString n) = n"
proof (induction n rule: nat_toString.induct)
  case (1 n)
  show ?case
  proof (cases "n < 10")
    case True
    then show ?thesis
      by (simp add: nat_toString_small read_digits_def digit_val_digit_char)
  next
    case False
    with 1 show ?thesis
      by (simp add: nat_toString_large read_digits_snoc digit_val_digit_char)
  qed
qed

lemma digits_nat_toString: "list_all (is_digit 10) (nat_toString n)"
proof (induction n rule: nat_toString.induct)
  case (1 n)
  show ?case
  proof (cases "n < 10")
    case True
    then show ?thesis
      by (simp add: nat_toString_small is_digit_def digit_val_digit_char)
  next
    case False
    with 1 show ?thesis
      by (simp add: nat_toString_large is_digit_def digit_val_digit_char)
  qed
qed

lemma nat_toString_nonempty: "nat_toString n \<noteq> []"
  by (subst nat_toString.simps) simp

text \<open>The decimal string of a number given by its digits, most significant first.\<close>

lemma nat_toString_of_digits:
  "ds \<noteq> [] \<Longrightarrow> list_all (\<lambda>d. d < 10) ds \<Longrightarrow> hd ds \<noteq> 0 \<Longrightarrow>
     0 < foldl (\<lambda>a d. 10 * a + d) 0 ds
     \<and> nat_toString (foldl (\<lambda>a d. 10 * a + d) 0 ds) = map digit_char ds"
proof (induction ds rule: rev_induct)
  case Nil
  then show ?case by simp
next
  case (snoc d ds)
  show ?case
  proof (cases "ds = []")
    case True
    with snoc.prems show ?thesis by (simp add: nat_toString_small)
  next
    case False
    with snoc have "0 < foldl (\<lambda>a d. 10 * a + d) 0 ds"
      and "nat_toString (foldl (\<lambda>a d. 10 * a + d) 0 ds) = map digit_char ds"
      and "d < 10" by simp_all
    then show ?thesis by (simp add: nat_toString_snoc)
  qed
qed

lemma MaxUint256_toString:
  "bigint_toString MaxUint256 =
     ''115792089237316195423570985008687907853269984665640564039457584007913129639935''"
proof -
  have "nat MaxUint256 = foldl (\<lambda>a d. 10 * a + d) 0
    [1,1,5,7,9,2,0,8,9,2,3,7,3,1,6,1,9,5,4,2,3,5,7,0,9,8,5,0,0,8,6,8,7,9,0,7,8,5,3,2,
     6,9,9,8,4,6,6,5,6,4,0,5,6,4,0,3,9,4,5,7,5,8,4,0,0,7,9,1,3,1,2,9,6,3,9,9,3,5]"
    by (simp add: MaxUint256_def)
  moreover have "0 \<le> MaxUint256" by (simp add: MaxUint256_def)
  ultimately show ?thesis
    using nat_toString_of_digits [of
      "[1,1,5,7,9,2,0,8,9,2,3,7,3,1,6,1,9,5,4,2,3,5,7,0,9,8,5,0,0,8,6,8,7,9,0,7,8,5,3,2,
        6,9,9,8,4,6,6,5,6,4,0,5,6,4,0,3,9,4,5,7,5,8,4,0,0,7,9,1,3,1,2,9,6,3,9,9,3,5]"]
    by (simp add: bigint_toString_def digit_char_def)
qed

section \<open>The argument parser\<close>

lemma parseArguments_claimWinnings:
  assumes "args ! 0 = ''claimWinnings''" and "3 \<le> length args"
  shows "parseArguments args st =
     (Inr \<lparr>action = ''claimWinnings'', privateKey = args ! 1, marketId = Some (args ! 2),
           outcomeId = None, value' = None, minShares = None, maxShares = None\<rparr>, st)"
  using assms by (simp add: parseArguments_def io_defs Let_def)

lemma parseArguments_take3:
  assumes "args ! 0 = ''claimWinnings''" and "3 \<le> length args"
  shows "parseArguments args st = parseArguments (take 3 args) st"
proof -
  from assms have "take 3 args ! 0 = ''claimWinnings''" "3 \<le> length (take 3 args)"
    "take 3 args ! 1 = args ! 1" "take 3 args ! 2 = args ! 2"
    by simp_all
  then show ?thesis
    using parseArguments_claimWinnings [of "take 3 args" st]
      parseArguments_claimWinnings [OF assms, of st]
    by simp
qed

text \<open>
  Claim C5, as amended. With an action and a private key given, \<open>buy\<close> and \<open>sell\<close> with
  fewer than three further parameters end the process with code 1 and a message on the
  error stream that names the parameters the action requires, and with three or more they
  are accepted; \<open>claimWinnings\<close> with no further parameter ends the process likewise, and
  with one or more it is accepted: the result holds the action, the private key and the
  first parameter as the market, and nothing else, and the parser, \<open>main\<close> and the whole
  program behave on the vector as they do on its first three elements, so that every
  further parameter is ignored (the parser sets no upper bound on the number of parameters,
  for any action).
\<close>

theorem arity_enforced:
  assumes "2 \<le> length args"
  shows "(args ! 0 = ''buy'' \<longrightarrow>
           (if length args < 5
            then parseArguments args st = (Inl (Exit 1), st\<lparr>console := console st @
                   [Stderr ''Buy action requires: marketId, outcomeId, value, and optionally minShares'']\<rparr>)
            else parseArguments args st =
                   (Inr \<lparr>action = ''buy'', privateKey = args ! 1, marketId = Some (args ! 2),
                         outcomeId = Some (args ! 3), value' = Some (args ! 4),
                         minShares = Some (or_default args 5 ''0''), maxShares = None\<rparr>, st)))
       \<and> (args ! 0 = ''sell'' \<longrightarrow>
           (if length args < 5
            then parseArguments args st = (Inl (Exit 1), st\<lparr>console := console st @
                   [Stderr ''Sell action requires: marketId, outcomeId, value, and optionally maxShares'']\<rparr>)
            else parseArguments args st =
                   (Inr \<lparr>action = ''sell'', privateKey = args ! 1, marketId = Some (args ! 2),
                         outcomeId = Some (args ! 3), value' = Some (args ! 4), minShares = None,
                         maxShares = Some (or_default args 5 (bigint_toString MaxUint256))\<rparr>, st)))
       \<and> (args ! 0 = ''claimWinnings'' \<longrightarrow>
           (if length args < 3
            then parseArguments args st = (Inl (Exit 1), st\<lparr>console := console st @
                   [Stderr ''ClaimWinnings action requires: marketId'']\<rparr>)
            else parseArguments args st =
                   (Inr \<lparr>action = ''claimWinnings'', privateKey = args ! 1, marketId = Some (args ! 2),
                         outcomeId = None, value' = None, minShares = None, maxShares = None\<rparr>, st)
               \<and> parseArguments args st = parseArguments (take 3 args) st
               \<and> main cfg rpc args st = main cfg rpc (take 3 args) st
               \<and> program env rpc args st = program env rpc (take 3 args) st))"
proof (intro conjI impI)
  assume "args ! 0 = ''buy''"
  with assms show "if length args < 5
     then parseArguments args st = (Inl (Exit 1), st\<lparr>console := console st @
            [Stderr ''Buy action requires: marketId, outcomeId, value, and optionally minShares'']\<rparr>)
     else parseArguments args st =
            (Inr \<lparr>action = ''buy'', privateKey = args ! 1, marketId = Some (args ! 2),
                  outcomeId = Some (args ! 3), value' = Some (args ! 4),
                  minShares = Some (or_default args 5 ''0''), maxShares = None\<rparr>, st)"
    by (simp add: parseArguments_def io_defs Let_def)
next
  assume "args ! 0 = ''sell''"
  with assms show "if length args < 5
     then parseArguments args st = (Inl (Exit 1), st\<lparr>console := console st @
            [Stderr ''Sell action requires: marketId, outcomeId, value, and optionally maxShares'']\<rparr>)
     else parseArguments args st =
            (Inr \<lparr>action = ''sell'', privateKey = args ! 1, marketId = Some (args ! 2),
                  outcomeId = Some (args ! 3), value' = Some (args ! 4), minShares = None,
                  maxShares = Some (or_default args 5 (bigint_toString MaxUint256))\<rparr>, st)"
    by (simp add: parseArguments_def io_defs Let_def)
next
  assume cw: "args ! 0 = ''claimWinnings''"
  show "if length args < 3
     then parseArguments args st = (Inl (Exit 1), st\<lparr>console := console st @
            [Stderr ''ClaimWinnings action requires: marketId'']\<rparr>)
     else parseArguments args st =
            (Inr \<lparr>action = ''claimWinnings'', privateKey = args ! 1, marketId = Some (args ! 2),
                  outcomeId = None, value' = None, minShares = None, maxShares = None\<rparr>, st)
        \<and> parseArguments args st = parseArguments (take 3 args) st
        \<and> main cfg rpc args st = main cfg rpc (take 3 args) st
        \<and> program env rpc args st = program env rpc (take 3 args) st"
  proof (cases "length args < 3")
    case True
    with assms cw show ?thesis
      by (simp add: parseArguments_def io_defs Let_def)
  next
    case False
    then have len: "3 \<le> length args" by simp
    have "\<And>s :: 'a state. parseArguments args s = parseArguments (take 3 args) s"
      using cw len by (rule parseArguments_take3)
    then have p: "parseArguments args = (parseArguments (take 3 args) :: ('a, ParsedArguments) io)"
      by (rule ext)
    then have "main cfg rpc args = main cfg rpc (take 3 args)" for cfg :: config
      by (simp add: main_def)
    with p False parseArguments_claimWinnings [OF cw len, of st] show ?thesis
      by (simp add: program_def)
  qed
qed

theorem arity_enforced_witness:
  "parseArguments [''buy'', ''0xkey'', ''7'', ''0''] (start (0::nat)) =
     (Inl (Exit 1), \<lparr>world = 0, trace = [], console =
        [Stderr ''Buy action requires: marketId, outcomeId, value, and optionally minShares'']\<rparr>)
   \<and> parseArguments [''sell'', ''0xkey''] (start (0::nat)) =
     (Inl (Exit 1), \<lparr>world = 0, trace = [], console =
        [Stderr ''Sell action requires: marketId, outcomeId, value, and optionally maxShares'']\<rparr>)
   \<and> parseArguments [''claimWinnings'', ''0xkey''] (start (0::nat)) =
     (Inl (Exit 1), \<lparr>world = 0, trace = [], console =
        [Stderr ''ClaimWinnings action requires: marketId'']\<rparr>)
   \<and> parseArguments [''claimWinnings'', ''0xkey'', ''7'', ''8'', ''9''] (start (0::nat)) =
     (Inr \<lparr>action = ''claimWinnings'', privateKey = ''0xkey'', marketId = Some ''7'',
           outcomeId = None, value' = None, minShares = None, maxShares = None\<rparr>, start 0)
   \<and> main stub_cfg (stub_rpc stub0) [''claimWinnings'', ''0xkey'', ''7'', ''8'', ''9''] (start 0) =
     main stub_cfg (stub_rpc stub0) [''claimWinnings'', ''0xkey'', ''7''] (start 0)"
  using arity_enforced [of "[''buy'', ''0xkey'', ''7'', ''0'']" "start 0" stub_cfg "stub_rpc stub0" "\<lambda>_. None"]
    arity_enforced [of "[''sell'', ''0xkey'']" "start 0" stub_cfg "stub_rpc stub0" "\<lambda>_. None"]
    arity_enforced [of "[''claimWinnings'', ''0xkey'']" "start 0" stub_cfg "stub_rpc stub0" "\<lambda>_. None"]
    arity_enforced [of "[''claimWinnings'', ''0xkey'', ''7'', ''8'', ''9'']" "start 0" stub_cfg
      "stub_rpc stub0" "\<lambda>_. None"]
  by (simp add: start_def)

text \<open>
  Claim C5 as stated fails in its last part: \<open>claimWinnings\<close> does not require exactly one
  parameter. With two parameters after the private key the invocation is accepted, and the
  second is ignored.
\<close>

theorem claimWinnings_extra_parameter:
  "parseArguments [''claimWinnings'', ''0xkey'', ''7'', ''extra''] (start ()) =
     (Inr \<lparr>action = ''claimWinnings'', privateKey = ''0xkey'', marketId = Some ''7'',
           outcomeId = None, value' = None, minShares = None, maxShares = None\<rparr>, start ())"
  by (simp add: parseArguments_def io_defs Let_def)

text \<open>
  Claim C6. A \<open>buy\<close> invocation with its three required parameters and no \<open>minShares\<close>
  parses with \<open>minShares\<close> the string \<open>0\<close>; a \<open>sell\<close> invocation with no \<open>maxShares\<close>
  parses with \<open>maxShares\<close> the decimal string of \<open>2 ^ 256 - 1\<close>.
\<close>

theorem share_bound_defaults:
  assumes "length args = 5"
  shows "(args ! 0 = ''buy'' \<longrightarrow>
           (\<exists>p. parseArguments args st = (Inr p, st) \<and> minShares p = Some ''0''))
       \<and> (args ! 0 = ''sell'' \<longrightarrow>
           (\<exists>p. parseArguments args st = (Inr p, st)
              \<and> maxShares p = Some (bigint_toString (2 ^ 256 - 1))
              \<and> maxShares p = Some
                  ''115792089237316195423570985008687907853269984665640564039457584007913129639935''))"
proof -
  have "bigint_toString (2 ^ 256 - 1) =
      ''115792089237316195423570985008687907853269984665640564039457584007913129639935''"
    using MaxUint256_toString by (simp only: MaxUint256_def)
  with assms show ?thesis
    by (simp add: parseArguments_def io_defs Let_def or_default_def MaxUint256_def)
qed

theorem share_bound_defaults_witness:
  "(\<exists>p. parseArguments [''buy'', ''0xkey'', ''7'', ''1'', ''1000000''] (start ()) = (Inr p, start ())
      \<and> minShares p = Some ''0'')
   \<and> (\<exists>p. parseArguments [''sell'', ''0xkey'', ''7'', ''1'', ''1000000''] (start ()) = (Inr p, start ())
      \<and> maxShares p = Some
          ''115792089237316195423570985008687907853269984665640564039457584007913129639935'')"
  using share_bound_defaults [of "[''buy'', ''0xkey'', ''7'', ''1'', ''1000000'']" "start ()"]
    share_bound_defaults [of "[''sell'', ''0xkey'', ''7'', ''1'', ''1000000'']" "start ()"]
  by auto

lemma take6_agree:
  assumes "take 6 args = take 6 args'"
  shows "min 6 (length args) = min 6 (length args')"
    and "\<And>i. i < 6 \<Longrightarrow> i < length args \<Longrightarrow> args ! i = args' ! i"
proof -
  from assms have "length (take 6 args) = length (take 6 args')" by simp
  then show l: "min 6 (length args) = min 6 (length args')" by (simp add: min.commute)
  fix i assume i: "i < 6" "i < length args"
  then have "take 6 args ! i = args ! i" by simp
  moreover from i l have "i < length args'" by (simp add: min_def split: if_splits)
  with i have "take 6 args' ! i = args' ! i" by simp
  ultimately show "args ! i = args' ! i" using assms by simp
qed

lemma parseArguments_take6:
  assumes "take 6 args = take 6 args'"
  shows "parseArguments args st = parseArguments args' st"
proof -
  note t = take6_agree [OF assms]
  have len: "\<And>k. k \<le> 6 \<Longrightarrow> (length args < k) = (length args' < k)"
    using t(1) by (auto simp: min_def split: if_splits)
  have nth: "\<And>i. i < 6 \<Longrightarrow> i < length args \<Longrightarrow> args ! i = args' ! i"
    by (rule t(2))
  show ?thesis
  proof (cases "length args < 2")
    case True
    with len [of 2] show ?thesis by (simp add: parseArguments_def)
  next
    case False
    with len [of 2] have l2: "\<not> length args' < 2" by simp
    from False have "0 < length args" "1 < length args" by auto
    then have a0: "args ! 0 = args' ! 0" and a1: "args ! 1 = args' ! 1"
      using nth [of 0] nth [of 1] by simp_all
    show ?thesis
    proof (cases "length args < 3")
      case True
      with len [of 3] len [of 5] have "length args' < 3" "length args < 5" "length args' < 5"
        by simp_all
      with True False l2 a0 a1 show ?thesis
        by (simp add: parseArguments_def Let_def)
    next
      case l3: False
      with len [of 3] have l3': "\<not> length args' < 3" by simp
      from l3 have "2 < length args" by auto
      then have a2: "args ! 2 = args' ! 2" using nth [of 2] by simp
      show ?thesis
      proof (cases "length args < 5")
        case True
        with len [of 5] have "length args' < 5" by simp
        with True False l2 l3 l3' a0 a1 a2 show ?thesis
          by (simp add: parseArguments_def Let_def)
      next
        case l5: False
        with len [of 5] have l5': "\<not> length args' < 5" by simp
        from l5 have "3 < length args" "4 < length args" by auto
        then have a: "args ! 3 = args' ! 3" "args ! 4 = args' ! 4"
          using nth [of 3] nth [of 4] by simp_all
        have d: "\<And>d. or_default args 5 d = or_default args' 5 d"
          using len [of 6] nth [of 5] by (auto simp add: or_default_def)
        from l5 l5' l3 l3' False l2 a0 a1 a2 a d show ?thesis
          by (simp add: parseArguments_def Let_def)
      qed
    qed
  qed
qed

lemma require_env_quiet:
  "\<exists>r s'. require_env env var ex st = (r, s') \<and> trace s' = trace st \<and> world s' = world st
     \<and> (case r of Inl a \<Rightarrow> a = Exit 1 | Inr v \<Rightarrow> True)"
  by (simp add: require_env_def io_defs Let_def split: option.splits)

lemma load_config_quiet:
  "\<exists>r s'. load_config env st = (r, s') \<and> trace s' = trace st \<and> world s' = world st
     \<and> (case r of Inl a \<Rightarrow> a = Exit 1 | Inr v \<Rightarrow> True)"
proof -
  obtain r1 s1 where 1: "require_env env ''RPC_URL'' ''https://your-rpc-endpoint.com'' st = (r1, s1)"
    "trace s1 = trace st" "world s1 = world st" "case r1 of Inl a \<Rightarrow> a = Exit 1 | Inr v \<Rightarrow> True"
    using require_env_quiet by blast
  obtain r2 s2 where 2: "require_env env ''CONTRACT_ADDRESS'' ''0xYourContractAddress...'' s1 = (r2, s2)"
    "trace s2 = trace s1" "world s2 = world s1" "case r2 of Inl a \<Rightarrow> a = Exit 1 | Inr v \<Rightarrow> True"
    using require_env_quiet by blast
  obtain r3 s3 where 3: "require_env env ''ERC20_TOKEN_ADDRESS'' ''0xYourTokenAddress...'' s2 = (r3, s3)"
    "trace s3 = trace s2" "world s3 = world s2" "case r3 of Inl a \<Rightarrow> a = Exit 1 | Inr v \<Rightarrow> True"
    using require_env_quiet by blast
  from 1 2 3 show ?thesis
    by (auto simp: load_config_def io_bind_def io_return_def split: sum.splits)
qed

text \<open>
  Claim C9. When the action keyword is none of \<open>buy\<close>, \<open>sell\<close> and \<open>claimWinnings\<close>, the
  argument parser ends the process with code 1, and so do \<open>main\<close> and the whole program,
  without one request to the outside: no ABI file is read, no provider, wallet or contract
  proxy is built and the node is not called (the trace and the world are as before).
\<close>

theorem unknown_action_exits:
  assumes "args ! 0 \<noteq> ''buy''" "args ! 0 \<noteq> ''sell''" "args ! 0 \<noteq> ''claimWinnings''"
  shows "fst (parseArguments args st) = Inl (Exit 1)
       \<and> fst (main cfg rpc args st) = Inl (Exit 1)
       \<and> trace (snd (main cfg rpc args st)) = trace st
       \<and> world (snd (main cfg rpc args st)) = world st
       \<and> fst (program env rpc args st) = Inl (Exit 1)
       \<and> trace (snd (program env rpc args st)) = trace st
       \<and> world (snd (program env rpc args st)) = world st
       \<and> exit_code (fst (program env rpc args st)) = 1"
proof -
  have p: "\<And>s :: 'a state. \<exists>s'. parseArguments args s = (Inl (Exit 1), s')
             \<and> trace s' = trace s \<and> world s' = world s"
    using assms by (simp add: parseArguments_def io_defs Let_def)
  have m: "\<And>(s :: 'a state) cfg. \<exists>s'. main cfg rpc args s = (Inl (Exit 1), s')
             \<and> trace s' = trace s \<and> world s' = world s"
  proof -
    fix s :: "'a state" and cfg :: config
    from p obtain s' where "parseArguments args s = (Inl (Exit 1), s')"
      "trace s' = trace s" "world s' = world s"
      by blast
    then show "\<exists>s'. main cfg rpc args s = (Inl (Exit 1), s') \<and> trace s' = trace s \<and> world s' = world s"
      by (simp add: main_def try_catch_def io_bind_def)
  qed
  obtain rc sc where c: "load_config env st = (rc, sc)" "trace sc = trace st" "world sc = world st"
     "case rc of Inl a \<Rightarrow> a = Exit 1 | Inr v \<Rightarrow> True"
    using load_config_quiet by blast
  have g: "fst (program env rpc args st) = Inl (Exit 1)
       \<and> trace (snd (program env rpc args st)) = trace st
       \<and> world (snd (program env rpc args st)) = world st"
  proof (cases rc)
    case (Inl a)
    with c show ?thesis by (simp add: program_def io_bind_def)
  next
    case (Inr cfg')
    from m [where s = sc and cfg = cfg'] c Inr show ?thesis
      by (auto simp: program_def io_bind_def)
  qed
  from p [of st] m [where s = st and cfg = cfg] g show ?thesis
    by (auto simp: exit_code_def)
qed

theorem unknown_action_exits_witness:
  "main stub_cfg (stub_rpc stub0) [''transfer'', ''0xkey'', ''7''] (start 0) =
     (Inl (Exit 1), \<lparr>world = 0, trace = [], console =
        [Stderr ''Unknown action: transfer'', Stderr ''Valid actions: buy, sell, claimWinnings'']\<rparr>)
   \<and> trace (snd (program (\<lambda>_. None) (stub_rpc stub0) [''transfer'', ''0xkey'', ''7''] (start 0))) = []"
proof -
  have "main stub_cfg (stub_rpc stub0) [''transfer'', ''0xkey'', ''7''] (start 0) =
     (Inl (Exit 1), \<lparr>world = 0, trace = [], console =
        [Stderr ''Unknown action: transfer'', Stderr ''Valid actions: buy, sell, claimWinnings'']\<rparr>)"
    by (simp add: main_def parseArguments_def io_defs Let_def start_def)
  then show ?thesis
    using unknown_action_exits [of "[''transfer'', ''0xkey'', ''7'']" "start 0" stub_cfg "stub_rpc stub0" "\<lambda>_. None"]
    by (simp add: start_def)
qed

text \<open>
  Claim C10. For \<open>buy\<close> and \<open>sell\<close>, two argument vectors that agree on their first six
  elements (action, private key, market, outcome, value and the optional bound on shares)
  parse to the same result, and \<open>main\<close> and the whole program behave the same on them: same
  outcome, same requests, same output, from every state and in every world.
\<close>

theorem trailing_arguments_ignored:
  assumes "args ! 0 = ''buy'' \<or> args ! 0 = ''sell''"
    and "take 6 args = take 6 args'"
  shows "parseArguments args st = parseArguments args' st
       \<and> main cfg rpc args st = main cfg rpc args' st
       \<and> program env rpc args st = program env rpc args' st"
proof -
  have "\<And>s :: 'a state. parseArguments args s = parseArguments args' s"
    using assms(2) by (rule parseArguments_take6)
  then have p: "parseArguments args = (parseArguments args' :: ('a, ParsedArguments) io)"
    by (rule ext)
  then have "main cfg rpc args = main cfg rpc args'" for cfg :: config
    by (simp add: main_def)
  with p show ?thesis by (simp add: program_def)
qed

theorem trailing_arguments_ignored_witness:
  "parseArguments [''buy'', ''0xkey'', ''7'', ''1'', ''1000000'', ''3'', ''x'', ''y''] (start (0::nat))
     = parseArguments [''buy'', ''0xkey'', ''7'', ''1'', ''1000000'', ''3''] (start 0)
   \<and> main stub_cfg (stub_rpc stub0) [''buy'', ''0xkey'', ''7'', ''1'', ''1000000'', ''3'', ''x'', ''y''] (start 0)
     = main stub_cfg (stub_rpc stub0) [''buy'', ''0xkey'', ''7'', ''1'', ''1000000'', ''3''] (start 0)"
  using trailing_arguments_ignored
    [of "[''buy'', ''0xkey'', ''7'', ''1'', ''1000000'', ''3'', ''x'', ''y'']"
        "[''buy'', ''0xkey'', ''7'', ''1'', ''1000000'', ''3'']" "start 0" stub_cfg "stub_rpc stub0"
        "\<lambda>_. None"]
  by simp

section \<open>Requests of composed actions\<close>

lemma emitsI: "(\<And>st. \<exists>tr. trace (snd (m st)) = trace st @ tr \<and> Q tr) \<Longrightarrow> emits Q m"
  by (simp add: emits_def)

lemma emits_new_trace: "emits Q m \<Longrightarrow> Q (new_trace m st)"
  unfolding emits_def new_trace_def
proof -
  assume "\<forall>st. \<exists>tr. trace (snd (m st)) = trace st @ tr \<and> Q tr"
  then obtain tr where "trace (snd (m st)) = trace st @ tr" "Q tr" by blast
  then show "Q (drop (length (trace st)) (trace (snd (m st))))" by simp
qed

lemma emits_silent:
  "appendable Q \<Longrightarrow> (\<And>st. trace (snd (m st)) = trace st) \<Longrightarrow> emits Q m"
  by (simp add: emits_def appendable_def)

lemma emits_return: "appendable Q \<Longrightarrow> emits Q (io_return x)"
  by (rule emits_silent) (simp_all add: io_return_def)

lemma emits_throw: "appendable Q \<Longrightarrow> emits Q (io_throw e)"
  by (rule emits_silent) (simp_all add: io_throw_def)

lemma emits_exit: "appendable Q \<Longrightarrow> emits Q (process_exit n)"
  by (rule emits_silent) (simp_all add: process_exit_def)

lemma emits_log: "appendable Q \<Longrightarrow> emits Q (console_log s)"
  by (rule emits_silent) (simp_all add: console_log_def)

lemma emits_error: "appendable Q \<Longrightarrow> emits Q (console_error s)"
  by (rule emits_silent) (simp_all add: console_error_def)

lemma emits_lift: "appendable Q \<Longrightarrow> emits Q (lift r)"
  by (rule emits_silent) (simp_all add: lift_def io_throw_def io_return_def split: sum.splits)

lemma emits_as:
  assumes "appendable Q"
  shows "emits Q (as_uint r)" "emits Q (as_text r)" "emits Q (as_address r)" "emits Q (as_abi r)"
    "emits Q (as_fee r)" "emits Q (as_tx r)" "emits Q (as_receipt r)" "emits Q (as_shares r)"
  by (rule emits_silent [OF assms],
      simp add: as_defs io_throw_def io_return_def split: resp.splits)+

lemma emits_perform: "(\<And>r. Q [(rq, r)]) \<Longrightarrow> emits Q (perform rpc rq)"
  by (simp add: emits_def perform_def split: prod.splits)

lemma emits_bind:
  assumes Q: "appendable Q" and m: "emits Q m" and f: "\<And>x. emits Q (f x)"
  shows "emits Q (io_bind m f)"
proof (rule emitsI)
  fix st
  from m obtain tr where tr: "trace (snd (m st)) = trace st @ tr" "Q tr"
    unfolding emits_def by blast
  show "\<exists>tr. trace (snd (io_bind m f st)) = trace st @ tr \<and> Q tr"
  proof (cases "m st")
    case (Pair r st')
    show ?thesis
    proof (cases r)
      case (Inl e)
      with Pair tr show ?thesis by (auto simp: io_bind_def)
    next
      case (Inr x)
      from f obtain tr' where tr': "trace (snd (f x st')) = trace st' @ tr'" "Q tr'"
        unfolding emits_def by blast
      from Q tr tr' have "Q (tr @ tr')" by (simp add: appendable_def)
      with Pair Inr tr tr' show ?thesis by (auto simp: io_bind_def)
    qed
  qed
qed

lemma emits_then:
  "appendable Q \<Longrightarrow> emits Q m \<Longrightarrow> emits Q k \<Longrightarrow> emits Q (io_then m k)"
  by (simp add: io_then_def emits_bind)

lemma emits_try:
  assumes Q: "appendable Q" and m: "emits Q m" and h: "\<And>e. emits Q (h e)"
  shows "emits Q (try_catch m h)"
proof (rule emitsI)
  fix st
  from m obtain tr where tr: "trace (snd (m st)) = trace st @ tr" "Q tr"
    unfolding emits_def by blast
  show "\<exists>tr. trace (snd (try_catch m h st)) = trace st @ tr \<and> Q tr"
  proof (cases "m st")
    case (Pair r st')
    show ?thesis
    proof (cases r)
      case (Inr x)
      with Pair tr show ?thesis by (auto simp: try_catch_def)
    next
      case (Inl a)
      show ?thesis
      proof (cases a)
        case (Exit n)
        with Inl Pair tr show ?thesis by (auto simp: try_catch_def)
      next
        case (Throw e)
        from h obtain tr' where tr': "trace (snd (h e st')) = trace st' @ tr'" "Q tr'"
          unfolding emits_def by blast
        from Q tr tr' have "Q (tr @ tr')" by (simp add: appendable_def)
        with Pair Inl Throw tr tr' show ?thesis by (auto simp: try_catch_def)
      qed
    qed
  qed
qed

lemma emits_settle: "emits Q m \<Longrightarrow> emits Q (io_settle m)"
proof (rule emitsI)
  fix st
  assume "emits Q m"
  then obtain tr where tr: "trace (snd (m st)) = trace st @ tr" "Q tr"
    unfolding emits_def by blast
  then show "\<exists>tr. trace (snd (io_settle m st)) = trace st @ tr \<and> Q tr"
    by (auto simp: io_settle_def split: prod.splits sum.splits abort.splits)
qed

lemma emits_if: "emits Q a \<Longrightarrow> emits Q b \<Longrightarrow> emits Q (if c then a else b)"
  by simp

lemma emits_case_prod: "(\<And>a b. emits Q (f a b)) \<Longrightarrow> emits Q (case p of (a, b) \<Rightarrow> f a b)"
  by (cases p) simp

lemmas emits_intros = emits_return emits_throw emits_exit emits_log emits_error emits_lift
  emits_as emits_bind emits_then emits_try emits_settle emits_if emits_case_prod

subsection \<open>Buffered traces\<close>

lemma buffered_Nil: "buffered []"
  by (simp add: buffered_def)

lemma buffered_single: "\<not> is_send rq \<Longrightarrow> buffered [(rq, r)]"
  by (auto simp: buffered_def is_send_def split: request.splits)

lemma buffered_append:
  assumes a: "buffered a" and b: "buffered b"
  shows "buffered (a @ b)"
  unfolding buffered_def
proof (intro allI impI)
  fix i assume i: "i < length (a @ b)"
  show "case fst ((a @ b) ! i) of
          Send c m as ov \<Rightarrow> 2 \<le> i \<and> estimate_matches ((a @ b) ! (i - 2)) c m as ov
        | _ \<Rightarrow> True"
  proof (cases "i < length a")
    case True
    with a have "case fst (a ! i) of
          Send c m as ov \<Rightarrow> 2 \<le> i \<and> estimate_matches (a ! (i - 2)) c m as ov
        | _ \<Rightarrow> True"
      by (simp add: buffered_def)
    with True show ?thesis
      by (auto simp: nth_append split: request.splits)
  next
    case False
    define j where "j = i - length a"
    from False i have j: "j < length b" "i = length a + j" by (auto simp: j_def)
    with b have "case fst (b ! j) of
          Send c m as ov \<Rightarrow> 2 \<le> j \<and> estimate_matches (b ! (j - 2)) c m as ov
        | _ \<Rightarrow> True"
      by (simp add: buffered_def)
    with j show ?thesis
      by (auto simp: nth_append split: request.splits)
  qed
qed

lemma appendable_buffered: "appendable buffered"
  by (simp add: appendable_def buffered_Nil buffered_append)

lemma buffered_block:
  "buffered [(EstimateGas c m as, Inr (Uint g)), (GetFeeData, r),
             (Send c m as \<lparr>gasLimit = g * 120 div 100, gasPrice = p\<rparr>, r')]"
  by (simp add: buffered_def All_less_Suc estimate_matches_def code_gas_limit_def
      numeral_3_eq_3)

text \<open>The pattern of every submission: estimate, fee data, two lines of output, submit.\<close>

lemma emits_gas_block:
  assumes k: "\<And>tx. emits buffered (k tx)"
  shows "emits buffered
     (io_bind (io_bind (perform rpc (EstimateGas c m as)) as_uint) (\<lambda>gasEstimate.
      io_bind (io_bind (perform rpc GetFeeData) as_fee) (\<lambda>gasPrice.
      io_then (console_log (l1 gasEstimate))
     (io_then (console_log (l2 gasPrice))
     (io_bind (io_bind (perform rpc
                 (Send c m as \<lparr>gasLimit = gasEstimate * 120 div 100, gasPrice = gasPrice\<rparr>)) as_tx)
        k)))))"
proof (rule emitsI)
  fix st :: "'a state"
  let ?m = "io_bind (io_bind (perform rpc (EstimateGas c m as)) as_uint) (\<lambda>gasEstimate.
      io_bind (io_bind (perform rpc GetFeeData) as_fee) (\<lambda>gasPrice.
      io_then (console_log (l1 gasEstimate))
     (io_then (console_log (l2 gasPrice))
     (io_bind (io_bind (perform rpc
                 (Send c m as \<lparr>gasLimit = gasEstimate * 120 div 100, gasPrice = gasPrice\<rparr>)) as_tx)
        k))))"
  obtain r1 w1 where 1: "rpc (world st) (EstimateGas c m as) = (r1, w1)" by fastforce
  obtain r2 w2 where 2: "rpc w1 GetFeeData = (r2, w2)" by fastforce
  have e1: "buffered [(EstimateGas c m as, r1)]" by (simp add: buffered_single is_send_def)
  have e2: "buffered [(EstimateGas c m as, r1), (GetFeeData, r2)]"
    using buffered_append [OF e1 buffered_single [of GetFeeData r2]] by (simp add: is_send_def)
  show "\<exists>tr. trace (snd (?m st)) = trace st @ tr \<and> buffered tr"
  proof (cases "\<exists>g. r1 = Inr (Uint g)")
    case False
    with 1 have "trace (snd (?m st)) = trace st @ [(EstimateGas c m as, r1)]"
      by (auto simp: io_defs perform_def as_uint_def split: sum.splits resp.splits)
    with e1 show ?thesis by blast
  next
    case True
    then obtain g where g: "r1 = Inr (Uint g)" by blast
    show ?thesis
    proof (cases "\<exists>p. r2 = Inr (FeeData p)")
      case False
      with 1 2 g have "trace (snd (?m st)) = trace st @ [(EstimateGas c m as, r1), (GetFeeData, r2)]"
        by (auto simp: io_defs perform_def as_uint_def as_fee_def split: sum.splits resp.splits)
      with e2 show ?thesis by blast
    next
      case True
      then obtain p where p: "r2 = Inr (FeeData p)" by blast
      let ?send = "Send c m as \<lparr>gasLimit = g * 120 div 100, gasPrice = p\<rparr>"
      obtain r3 w3 where 3: "rpc w2 ?send = (r3, w3)" by fastforce
      let ?pre = "[(EstimateGas c m as, r1), (GetFeeData, r2), (?send, r3)]"
      have e3: "buffered ?pre" unfolding g by (rule buffered_block)
      show ?thesis
      proof (cases "\<exists>h. r3 = Inr (TxResponse h)")
        case False
        with 1 2 3 g p have "trace (snd (?m st)) = trace st @ ?pre"
          by (auto simp: io_defs perform_def as_uint_def as_fee_def as_tx_def
              split: sum.splits resp.splits)
        with e3 show ?thesis by blast
      next
        case True
        then obtain h where h: "r3 = Inr (TxResponse h)" by blast
        define st3 where "st3 = st\<lparr>console := console st @ [Stdout (l1 g), Stdout (l2 p)],
           world := w3, trace := trace st @ ?pre\<rparr>"
        from 1 2 3 g p h have run: "?m st = k h st3"
          by (simp add: io_defs perform_def as_uint_def as_fee_def as_tx_def st3_def)
        from k obtain tr where tr: "trace (snd (k h st3)) = trace st3 @ tr" "buffered tr"
          unfolding emits_def by blast
        from e3 tr(2) have "buffered (?pre @ tr)" by (rule buffered_append)
        with run tr(1) show ?thesis by (auto simp: st3_def)
      qed
    qed
  qed
qed

lemmas buffered_intros =
  emits_gas_block emits_intros [where Q = buffered] appendable_buffered

lemma buffered_perform: "\<not> is_send rq \<Longrightarrow> emits buffered (perform rpc rq)"
  by (rule emits_perform) (rule buffered_single)

lemma buffered_approve:
  "emits buffered (checkAndApprove rpc tokenContract spender amount user ti)"
  unfolding checkAndApprove_def
  by (intro buffered_intros buffered_perform) (simp_all add: is_send_def)

lemma buffered_buy:
  "emits buffered (executeBuy rpc cfg contract tokenContract ti m oc v ms user)"
  unfolding executeBuy_def
  by (intro buffered_intros buffered_perform buffered_approve) (simp_all add: is_send_def)

lemma buffered_sell: "emits buffered (executeSell rpc contract ti m oc v mx)"
  unfolding executeSell_def
  by (intro buffered_intros buffered_perform) (simp_all add: is_send_def)

lemma buffered_claim: "emits buffered (executeClaimWinnings rpc contract m)"
  unfolding executeClaimWinnings_def
  by (intro buffered_intros buffered_perform) (simp_all add: is_send_def)

subsection \<open>The first requests of an action\<close>

lemma appendable_True: "appendable (\<lambda>_. True)"
  by (simp add: appendable_def)

lemmas grows_intros = emits_intros [where Q = "\<lambda>_. True"] appendable_True

lemma grows_perform: "emits (\<lambda>_. True) (perform rpc rq)"
  by (rule emits_perform) simp

lemma grows_approve: "emits (\<lambda>_. True) (checkAndApprove rpc tokenContract spender amount user ti)"
  unfolding checkAndApprove_def
  by (intro grows_intros grows_perform)

lemma begins_new_trace: "begins pre m st \<Longrightarrow> \<exists>rest. new_trace m st = pre @ rest"
  by (auto simp: begins_def new_trace_def)

lemma begins_grows: "emits (\<lambda>_. True) m \<Longrightarrow> begins [] m st"
  by (simp add: emits_def begins_def)

lemma begins_bind_left:
  assumes m: "begins pre m st" and f: "\<And>x. emits (\<lambda>_. True) (f x)"
  shows "begins pre (io_bind m f) st"
proof (cases "m st")
  case (Pair r st')
  from m Pair obtain rest where rest: "trace st' = trace st @ pre @ rest"
    by (auto simp: begins_def)
  show ?thesis
  proof (cases r)
    case (Inl e)
    with Pair rest show ?thesis by (auto simp: begins_def io_bind_def)
  next
    case (Inr x)
    from f obtain tr where "trace (snd (f x st')) = trace st' @ tr"
      unfolding emits_def by blast
    with Pair Inr rest show ?thesis by (auto simp: begins_def io_bind_def)
  qed
qed

lemma begins_then_left:
  "begins pre m st \<Longrightarrow> emits (\<lambda>_. True) k \<Longrightarrow> begins pre (io_then m k) st"
  by (simp add: io_then_def begins_bind_left)

lemma begins_try:
  assumes m: "begins pre m st" and h: "\<And>e. emits (\<lambda>_. True) (h e)"
  shows "begins pre (try_catch m h) st"
proof (cases "m st")
  case (Pair r st')
  from m Pair obtain rest where rest: "trace st' = trace st @ pre @ rest"
    by (auto simp: begins_def)
  show ?thesis
  proof (cases r)
    case (Inr x)
    with Pair rest show ?thesis by (auto simp: begins_def try_catch_def)
  next
    case (Inl a)
    show ?thesis
    proof (cases a)
      case (Exit n)
      with Pair Inl rest show ?thesis by (auto simp: begins_def try_catch_def)
    next
      case (Throw e)
      from h obtain tr where "trace (snd (h e st')) = trace st' @ tr"
        unfolding emits_def by blast
      with Pair Inl Throw rest show ?thesis by (auto simp: begins_def try_catch_def)
    qed
  qed
qed

lemma begins_then_log:
  "begins pre k (st\<lparr>console := console st @ [Stdout s]\<rparr>) \<Longrightarrow> begins pre (io_then (console_log s) k) st"
  by (simp add: begins_def io_then_def io_bind_def console_log_def)

lemma begins_bind_lift:
  "v = Inr x \<Longrightarrow> begins pre (f x) st \<Longrightarrow> begins pre (io_bind (lift v) f) st"
  by (simp add: begins_def io_bind_def lift_def io_return_def)

lemma begins_then_skip:
  "m = io_return x \<Longrightarrow> begins pre k st \<Longrightarrow> begins pre (io_then m k) st"
  by (simp add: begins_def io_then_def io_bind_def io_return_def)

lemma begins_then_run:
  assumes "m st = (Inr x, st1)" and "trace st1 = trace st @ [e]" and "begins pre k st1"
  shows "begins (e # pre) (io_then m k) st"
  using assms by (auto simp: begins_def io_then_def io_bind_def)

lemma begins_request:
  assumes "rpc (world st) rq = (Inr v, w1)" and "dec v = io_return x"
    and "begins pre (f x) (st\<lparr>world := w1, trace := trace st @ [(rq, Inr v)]\<rparr>)"
  shows "begins ((rq, Inr v) # pre) (io_bind (io_bind (perform rpc rq) dec) f) st"
  using assms by (simp add: begins_def io_bind_def perform_def io_return_def)

lemma begins_perform: "world st = w \<Longrightarrow> begins [(rq, fst (rpc w rq))] (perform rpc rq) st"
  by (auto simp: begins_def perform_def split: prod.splits)

lemma begins_request_any:
  assumes "world st = w" and "\<And>r. emits (\<lambda>_. True) (dec r)" and "\<And>x. emits (\<lambda>_. True) (f x)"
  shows "begins [(rq, fst (rpc w rq))] (io_bind (io_bind (perform rpc rq) dec) f) st"
  by (intro begins_bind_left begins_perform assms)

lemma begins_approve:
  "world st = w \<Longrightarrow>
   begins [(Call tokenContract ''allowance'' [Str user, Str spender],
            fst (rpc w (Call tokenContract ''allowance'' [Str user, Str spender])))]
     (checkAndApprove rpc tokenContract spender amount user ti) st"
  unfolding checkAndApprove_def
  apply (rule begins_try)
   apply (rule begins_then_log)
   apply (rule begins_request_any)
     apply simp
    apply (intro grows_intros grows_perform)+
  done

lemma buy_proceeds:
  assumes amount: "BigInt v = Inr amount"
    and balance: "rpc (world st) (Call tokenContract ''balanceOf'' [Str user]) = (Inr (Uint b), w1)"
    and enough: "amount \<le> int b"
  shows "begins [(Call tokenContract ''balanceOf'' [Str user], Inr (Uint b)),
                 (Call tokenContract ''allowance'' [Str user, Str (CONTRACT_ADDRESS cfg)],
                  fst (rpc w1 (Call tokenContract ''allowance'' [Str user, Str (CONTRACT_ADDRESS cfg)])))]
     (executeBuy rpc cfg contract tokenContract ti m oc v ms user) st"
  unfolding executeBuy_def
  apply (rule begins_try)
   apply (rule begins_then_log)+
   apply (rule begins_bind_lift [OF amount])
   apply (rule begins_then_log)+
   apply (rule begins_request [where x = b])
     apply (simp add: balance)
    apply (simp add: as_uint_def)
   apply (rule begins_then_log)
   apply (rule begins_then_skip [where x = "()"])
    apply (insert enough, simp) [1]
   apply (rule begins_then_left)
    apply (rule begins_approve)
    apply simp
   apply (intro grows_intros grows_perform)+
  done

subsection \<open>The requests of the actions\<close>

lemma appendable_list_all: "appendable (list_all P)"
  by (simp add: appendable_def)

lemma list_all_perform: "(\<And>r. P (rq, r)) \<Longrightarrow> emits (list_all P) (perform rpc rq)"
  by (rule emits_perform) simp

lemmas list_all_intros = emits_intros [where Q = "list_all P" for P] appendable_list_all

lemma sell_requests:
  "emits (list_all (\<lambda>e. sell_request contract m oc v mx (fst e)))
     (executeSell rpc contract ti m oc v mx)"
  unfolding executeSell_def
  by (intro list_all_intros list_all_perform) (simp_all add: sell_request_def)

lemma approve_order:
  "emits (list_all (\<lambda>e. buy_order m oc ms v (fst e)))
     (checkAndApprove rpc tokenContract spender amount user ti)"
  unfolding checkAndApprove_def
  by (intro list_all_intros list_all_perform) (simp_all add: buy_order_def)

lemma buy_requests:
  "emits (list_all (\<lambda>e. buy_order m oc ms v (fst e)))
     (executeBuy rpc cfg contract tokenContract ti m oc v ms user)"
  unfolding executeBuy_def
  by (intro list_all_intros list_all_perform approve_order) (simp_all add: buy_order_def)

lemma sell_begins:
  assumes amount: "BigInt v = Inr amount"
  shows "begins [(EstimateGas contract ''sell'' [Str m, Str oc, Str v, Str mx],
                  fst (rpc (world st) (EstimateGas contract ''sell'' [Str m, Str oc, Str v, Str mx])))]
     (executeSell rpc contract ti m oc v mx) st"
  unfolding executeSell_def
  apply (rule begins_try)
   apply (rule begins_then_log)+
   apply (rule begins_bind_lift [OF amount])
   apply (rule begins_then_log)+
   apply (rule begins_request_any)
     apply simp
    apply (intro grows_intros grows_perform)+
  done

lemma approve_begins:
  assumes a: "rpc (world st) (Call tokenContract ''allowance'' [Str user, Str spender]) = (Inr (Uint a), w1)"
    and less: "int a < r"
    and g: "rpc w1 (EstimateGas tokenContract ''approve'' [Str spender, Big r]) = (Inr (Uint g), w2)"
    and p: "rpc w2 GetFeeData = (Inr (FeeData p), w3)"
  shows "begins
     [(Call tokenContract ''allowance'' [Str user, Str spender], Inr (Uint a)),
      (EstimateGas tokenContract ''approve'' [Str spender, Big r], Inr (Uint g)),
      (GetFeeData, Inr (FeeData p)),
      (Send tokenContract ''approve'' [Str spender, Big r]
         \<lparr>gasLimit = g * 120 div 100, gasPrice = p\<rparr>,
       fst (rpc w3 (Send tokenContract ''approve'' [Str spender, Big r]
         \<lparr>gasLimit = g * 120 div 100, gasPrice = p\<rparr>)))]
     (checkAndApprove rpc tokenContract spender r user ti) st"
  unfolding checkAndApprove_def
  apply (rule begins_try)
   apply (rule begins_then_log)
   apply (rule begins_request [where x = a])
     apply (simp add: a)
    apply (simp add: as_uint_def)
   apply (rule begins_then_log)+
   apply (simp only: less if_True)
   apply (rule begins_then_log)
   apply (rule begins_request [where x = g])
     apply (simp add: g)
    apply (simp add: as_uint_def)
   apply (rule begins_request [where x = p])
     apply (simp add: p)
    apply (simp add: as_fee_def)
   apply (rule begins_then_log)+
   apply (rule begins_request_any)
     apply simp
    apply (intro grows_intros grows_perform)+
  done

lemma approve_sufficient:
  assumes a: "rpc (world st) (Call tokenContract ''allowance'' [Str user, Str spender]) = (Inr (Uint a), w1)"
    and enough: "r \<le> int a"
  shows "checkAndApprove rpc tokenContract spender r user ti st =
     (Inr (), st\<lparr>world := w1,
        trace := trace st @ [(Call tokenContract ''allowance'' [Str user, Str spender], Inr (Uint a))],
        console := console st @
          [Stdout (''Checking '' @ symbol ti @ '' allowance...''),
           Stdout (''Current allowance: '' @ formatTokenAmount (int a) (decimals ti) @ '' '' @ symbol ti),
           Stdout (''Required amount: '' @ formatTokenAmount r (decimals ti) @ '' '' @ symbol ti),
           Stdout (check_mark @ '' Sufficient allowance already exists.'' @ newline)]\<rparr>)"
  using assms by (simp add: checkAndApprove_def io_defs perform_def as_uint_def)

lemma buy_insufficient:
  assumes amount: "BigInt v = Inr amount"
    and balance: "rpc (world st) (Call tokenContract ''balanceOf'' [Str user]) = (Inr (Uint b), w1)"
    and short: "int b < amount"
  shows "executeBuy rpc cfg contract tokenContract ti m oc v ms user st =
     (Inl (Throw (''Insufficient '' @ symbol ti @ '' balance. Required: ''
                     @ formatTokenAmount amount (decimals ti) @ '', Available: ''
                     @ formatTokenAmount (int b) (decimals ti))),
      st\<lparr>world := w1,
         trace := trace st @ [(Call tokenContract ''balanceOf'' [Str user], Inr (Uint b))],
         console := console st @
           [Stdout ''Executing buy:'',
            Stdout (''  Market ID: '' @ m),
            Stdout (''  Outcome ID: '' @ oc),
            Stdout (''  Value: '' @ formatTokenAmount amount (decimals ti) @ '' '' @ symbol ti),
            Stdout (''  Min Shares: '' @ ms @ newline),
            Stdout (symbol ti @ '' balance: '' @ formatTokenAmount (int b) (decimals ti) @ '' '' @ symbol ti),
            Stderr (''Error executing buy: '' @ ''Insufficient '' @ symbol ti @ '' balance. Required: ''
                     @ formatTokenAmount amount (decimals ti) @ '', Available: ''
                     @ formatTokenAmount (int b) (decimals ti))]\<rparr>)"
  using assms by (simp add: executeBuy_def io_defs perform_def as_uint_def lift_def)

text \<open>The head of the common tail: with the estimate and the fee data answered, the submission.\<close>

lemma begins_submission:
  assumes g: "rpc (world st) (EstimateGas c meth as) = (Inr (Uint g), w1)"
    and p: "rpc w1 GetFeeData = (Inr (FeeData p), w2)"
    and k: "\<And>tx. emits (\<lambda>_. True) (k tx)"
  shows "begins
     [(EstimateGas c meth as, Inr (Uint g)),
      (GetFeeData, Inr (FeeData p)),
      (Send c meth as \<lparr>gasLimit = g * 120 div 100, gasPrice = p\<rparr>,
       fst (rpc w2 (Send c meth as \<lparr>gasLimit = g * 120 div 100, gasPrice = p\<rparr>)))]
     (io_bind (io_bind (perform rpc (EstimateGas c meth as)) as_uint) (\<lambda>gasEstimate.
      io_bind (io_bind (perform rpc GetFeeData) as_fee) (\<lambda>gasPrice.
      io_then (console_log (l1 gasEstimate))
     (io_then (console_log (l2 gasPrice))
     (io_bind (io_bind (perform rpc
                 (Send c meth as \<lparr>gasLimit = gasEstimate * 120 div 100, gasPrice = gasPrice\<rparr>)) as_tx)
        k))))) st"
  apply (rule begins_request [where x = g])
    apply (simp add: g)
   apply (simp add: as_uint_def)
  apply (rule begins_request [where x = p])
    apply (simp add: p)
   apply (simp add: as_fee_def)
  apply (rule begins_then_log)+
  apply (rule begins_request_any)
    apply simp
   apply (intro grows_intros grows_perform)
  apply (rule k)
  done

lemma sell_submits:
  assumes amount: "BigInt v = Inr amount"
    and g: "rpc (world st) (EstimateGas contract ''sell'' [Str m, Str oc, Str v, Str mx]) = (Inr (Uint g), w1)"
    and p: "rpc w1 GetFeeData = (Inr (FeeData p), w2)"
  shows "begins
     [(EstimateGas contract ''sell'' [Str m, Str oc, Str v, Str mx], Inr (Uint g)),
      (GetFeeData, Inr (FeeData p)),
      (Send contract ''sell'' [Str m, Str oc, Str v, Str mx]
         \<lparr>gasLimit = g * 120 div 100, gasPrice = p\<rparr>,
       fst (rpc w2 (Send contract ''sell'' [Str m, Str oc, Str v, Str mx]
         \<lparr>gasLimit = g * 120 div 100, gasPrice = p\<rparr>)))]
     (executeSell rpc contract ti m oc v mx) st"
  unfolding executeSell_def
  apply (rule begins_try)
   apply (rule begins_then_log)+
   apply (rule begins_bind_lift [OF amount])
   apply (rule begins_then_log)+
   apply (rule begins_submission)
     apply (simp add: g)
    apply (rule p)
   apply (intro grows_intros grows_perform)+
  done

lemma buy_submits:
  assumes amount: "BigInt v = Inr amount"
    and b: "rpc (world st) (Call tokenContract ''balanceOf'' [Str user]) = (Inr (Uint b), w1)"
    and enough: "amount \<le> int b"
    and a: "rpc w1 (Call tokenContract ''allowance'' [Str user, Str (CONTRACT_ADDRESS cfg)])
              = (Inr (Uint a), w2)"
    and allowed: "amount \<le> int a"
    and g: "rpc w2 (EstimateGas contract ''buy'' [Str m, Str oc, Str ms, Str v]) = (Inr (Uint g), w3)"
    and p: "rpc w3 GetFeeData = (Inr (FeeData p), w4)"
  shows "begins
     [(Call tokenContract ''balanceOf'' [Str user], Inr (Uint b)),
      (Call tokenContract ''allowance'' [Str user, Str (CONTRACT_ADDRESS cfg)], Inr (Uint a)),
      (EstimateGas contract ''buy'' [Str m, Str oc, Str ms, Str v], Inr (Uint g)),
      (GetFeeData, Inr (FeeData p)),
      (Send contract ''buy'' [Str m, Str oc, Str ms, Str v]
         \<lparr>gasLimit = g * 120 div 100, gasPrice = p\<rparr>,
       fst (rpc w4 (Send contract ''buy'' [Str m, Str oc, Str ms, Str v]
         \<lparr>gasLimit = g * 120 div 100, gasPrice = p\<rparr>)))]
     (executeBuy rpc cfg contract tokenContract ti m oc v ms user) st"
  unfolding executeBuy_def
  apply (rule begins_try)
   apply (rule begins_then_log)+
   apply (rule begins_bind_lift [OF amount])
   apply (rule begins_then_log)+
   apply (rule begins_request [where x = b])
     apply (simp add: b)
    apply (simp add: as_uint_def)
   apply (rule begins_then_log)
   apply (rule begins_then_skip [where x = "()"])
    apply (insert enough, simp) [1]
   apply (rule begins_then_run)
     apply (rule approve_sufficient [where a = a and ?w1.0 = w2])
      apply (simp add: a)
     apply (rule allowed)
    apply simp
   apply (rule begins_submission)
     apply (simp add: g)
    apply (rule p)
   apply (intro grows_intros grows_perform)+
  done

section \<open>Runs that return\<close>

lemma returnsI:
  "(\<And>st. C (trace st) \<Longrightarrow> \<exists>x st'. m st = (Inr x, st') \<and> D x (trace st')) \<Longrightarrow> returns C m D"
  by (simp add: returns_def)

lemma returnsD:
  "returns C m D \<Longrightarrow> C (trace st) \<Longrightarrow> \<exists>x st'. m st = (Inr x, st') \<and> D x (trace st')"
  by (simp add: returns_def)

lemma returns_weaken:
  "returns C m D \<Longrightarrow> (\<And>tr. C' tr \<Longrightarrow> C tr) \<Longrightarrow> (\<And>x tr. D x tr \<Longrightarrow> D' x tr) \<Longrightarrow> returns C' m D'"
  unfolding returns_def by blast

lemma returns_post:
  "returns C m D \<Longrightarrow> (\<And>x tr. D x tr \<Longrightarrow> D' x tr) \<Longrightarrow> returns C m D'"
  unfolding returns_def by blast

lemma returns_pure: "(G \<Longrightarrow> returns C m D) \<Longrightarrow> returns (\<lambda>tr. G \<and> C tr) m D"
  unfolding returns_def by blast

lemma returns_return: "returns C (io_return x) (\<lambda>_. C)"
  by (simp add: returns_def io_return_def)

lemma returns_log: "returns C (console_log s) (\<lambda>_. C)"
  by (simp add: returns_def console_log_def)

lemma returns_lift: "v = Inr x \<Longrightarrow> returns C (lift v) (\<lambda>y tr. y = x \<and> C tr)"
  by (simp add: returns_def lift_def io_return_def)

lemma returns_bind:
  assumes m: "returns C (m :: ('w, 'a) io) D" and f: "\<And>x. returns (D x) (f x) E"
  shows "returns C (io_bind m f) E"
proof (rule returnsI)
  fix st :: "'w state" assume "C (trace st)"
  with m obtain x st' where 1: "m st = (Inr x, st')" "D x (trace st')"
    by (blast dest: returnsD)
  with f [of x] obtain y st'' where "f x st' = (Inr y, st'')" "E y (trace st'')"
    by (blast dest: returnsD)
  with 1 show "\<exists>x st'. io_bind m f st = (Inr x, st') \<and> E x (trace st')"
    by (simp add: io_bind_def)
qed

lemma returns_then:
  "returns C m (\<lambda>_. D) \<Longrightarrow> returns D k E \<Longrightarrow> returns C (io_then m k) E"
  unfolding io_then_def by (rule returns_bind)

lemma returns_try: "returns C m D \<Longrightarrow> returns C (try_catch m h) D"
  unfolding returns_def try_catch_def by fastforce

lemma returns_settle: "returns C m D \<Longrightarrow> returns C (io_settle m) (\<lambda>r tr. \<exists>x. r = Inr x \<and> D x tr)"
  unfolding returns_def io_settle_def by fastforce

lemma returns_request:
  assumes up: "upward C"
    and ok: "\<And>w. \<exists>v w' x. rpc w rq = (Inr v, w') \<and> dec v = io_return x \<and> G x"
  shows "returns C (io_bind (perform rpc rq) dec) (\<lambda>x tr. G x \<and> C tr)"
proof (rule returnsI)
  fix st :: "'a state" assume C: "C (trace st)"
  from ok [of "world st"] obtain v w' x
    where "rpc (world st) rq = (Inr v, w')" "dec v = io_return x" "G x" by blast
  moreover from up C have "C (trace st @ [(rq, Inr v)])" by (simp add: upward_def)
  ultimately show "\<exists>x st'. io_bind (perform rpc rq) dec st = (Inr x, st') \<and> G x \<and> C (trace st')"
    by (simp add: io_bind_def perform_def io_return_def)
qed

lemma returns_plain:
  assumes up: "upward C"
    and ok: "\<And>w. \<exists>v w'. rpc w rq = (Inr v, w')"
  shows "returns C (perform rpc rq) (\<lambda>x. C)"
proof (rule returnsI)
  fix st :: "'a state" assume C: "C (trace st)"
  from ok [of "world st"] obtain v w' where "rpc (world st) rq = (Inr v, w')" by blast
  moreover from up C have "C (trace st @ [(rq, Inr v)])" by (simp add: upward_def)
  ultimately show "\<exists>x st'. perform rpc rq st = (Inr x, st') \<and> C (trace st')"
    by (simp add: perform_def)
qed

lemma upward_since: "upward C \<Longrightarrow> upward (since t0 C)"
  unfolding upward_def since_def by (metis append.assoc)

lemma upward_True: "upward (\<lambda>_. True)"
  by (simp add: upward_def)

lemma upward_mem: "upward (\<lambda>tr. e \<in> set tr)"
  by (simp add: upward_def)

lemma upward_confirmed: "upward (confirmed meth)"
  unfolding upward_def confirmed_def
  by (metis Un_iff set_append)


lemma upward_conj: "upward A \<Longrightarrow> upward B \<Longrightarrow> upward (\<lambda>tr. A tr \<and> B tr)"
  by (simp add: upward_def)

subsection \<open>Answers, decoded\<close>

lemma connects_at:
  assumes "connects rpc cfg"
  shows "\<exists>v w'. rpc w (NewProvider (RPC_URL cfg)) = (Inr v, w')"
    and "\<exists>v w'. rpc w (NewContract (CONTRACT_ADDRESS cfg) abi) = (Inr v, w')"
    and "\<exists>v w'. rpc w (NewContract (ERC20_TOKEN_ADDRESS cfg) abi) = (Inr v, w')"
    and "\<exists>v w' x. rpc w (NewWallet k) = (Inr v, w') \<and> as_address v = io_return x \<and> True"
    and "\<exists>v w' x. rpc w (ReadABI ''../contracts/PredictionMarketV3_4.json'') = (Inr v, w')
           \<and> as_abi v = io_return x \<and> True"
    and "\<exists>v w' x. rpc w (ReadABI ''../contracts/ERC20.json'') = (Inr v, w')
           \<and> as_abi v = io_return x \<and> True"
    and "\<exists>v w' x. rpc w (GetBalance a) = (Inr v, w') \<and> as_uint v = io_return x \<and> True"
    and "\<exists>v w' x. rpc w (Call (ERC20_TOKEN_ADDRESS cfg) ''decimals'' []) = (Inr v, w')
           \<and> as_uint v = io_return x \<and> True"
    and "\<exists>v w' x. rpc w (Call (ERC20_TOKEN_ADDRESS cfg) ''symbol'' []) = (Inr v, w')
           \<and> as_text v = io_return x \<and> True"
    and "\<exists>v w' x. rpc w (Call (ERC20_TOKEN_ADDRESS cfg) ''name'' []) = (Inr v, w')
           \<and> as_text v = io_return x \<and> True"
proof -
  from assms have h:
    "\<exists>abi w'. rpc w (ReadABI ''../contracts/PredictionMarketV3_4.json'') = (Inr (Abi abi), w')"
    "\<exists>abi w'. rpc w (ReadABI ''../contracts/ERC20.json'') = (Inr (Abi abi), w')"
    "\<exists>v w'. rpc w (NewProvider (RPC_URL cfg)) = (Inr v, w')"
    "\<And>k. \<exists>a w'. rpc w (NewWallet k) = (Inr (Address a), w')"
    "\<And>a. \<exists>n w'. rpc w (GetBalance a) = (Inr (Uint n), w')"
    "\<And>abi. \<exists>v w'. rpc w (NewContract (CONTRACT_ADDRESS cfg) abi) = (Inr v, w')"
    "\<And>abi. \<exists>v w'. rpc w (NewContract (ERC20_TOKEN_ADDRESS cfg) abi) = (Inr v, w')"
    "\<exists>n w'. rpc w (Call (ERC20_TOKEN_ADDRESS cfg) ''decimals'' []) = (Inr (Uint n), w')"
    "\<exists>s w'. rpc w (Call (ERC20_TOKEN_ADDRESS cfg) ''symbol'' []) = (Inr (Text s), w')"
    "\<exists>s w'. rpc w (Call (ERC20_TOKEN_ADDRESS cfg) ''name'' []) = (Inr (Text s), w')"
    by (simp_all add: connects_def)
  from h(3) show "\<exists>v w'. rpc w (NewProvider (RPC_URL cfg)) = (Inr v, w')" .
  from h(6) show "\<exists>v w'. rpc w (NewContract (CONTRACT_ADDRESS cfg) abi) = (Inr v, w')" .
  from h(7) show "\<exists>v w'. rpc w (NewContract (ERC20_TOKEN_ADDRESS cfg) abi) = (Inr v, w')" .
  from h(4) [of k] show "\<exists>v w' x. rpc w (NewWallet k) = (Inr v, w') \<and> as_address v = io_return x \<and> True"
    by (auto simp: as_address_def)
  from h(1) show "\<exists>v w' x. rpc w (ReadABI ''../contracts/PredictionMarketV3_4.json'') = (Inr v, w')
           \<and> as_abi v = io_return x \<and> True"
    by (auto simp: as_abi_def)
  from h(2) show "\<exists>v w' x. rpc w (ReadABI ''../contracts/ERC20.json'') = (Inr v, w')
           \<and> as_abi v = io_return x \<and> True"
    by (auto simp: as_abi_def)
  from h(5) [of a] show "\<exists>v w' x. rpc w (GetBalance a) = (Inr v, w') \<and> as_uint v = io_return x \<and> True"
    by (auto simp: as_uint_def)
  from h(8) show "\<exists>v w' x. rpc w (Call (ERC20_TOKEN_ADDRESS cfg) ''decimals'' []) = (Inr v, w')
           \<and> as_uint v = io_return x \<and> True"
    by (auto simp: as_uint_def)
  from h(9) show "\<exists>v w' x. rpc w (Call (ERC20_TOKEN_ADDRESS cfg) ''symbol'' []) = (Inr v, w')
           \<and> as_text v = io_return x \<and> True"
    by (auto simp: as_text_def)
  from h(10) show "\<exists>v w' x. rpc w (Call (ERC20_TOKEN_ADDRESS cfg) ''name'' []) = (Inr v, w')
           \<and> as_text v = io_return x \<and> True"
    by (auto simp: as_text_def)
qed

lemma transacts_at:
  assumes "transacts rpc c m"
  shows "\<exists>v w' x. rpc w GetFeeData = (Inr v, w') \<and> as_fee v = io_return x \<and> True"
    and "\<exists>v w' x. rpc w (EstimateGas c m as) = (Inr v, w') \<and> as_uint v = io_return x \<and> True"
    and "\<exists>h w'. rpc w (Send c m as ov) = (Inr (TxResponse h), w')"
    and "\<exists>b g w'. rpc w (Wait h) = (Inr (Receipt b g), w')"
    and "\<exists>v w' x. rpc w (Send c m as ov) = (Inr v, w') \<and> as_tx v = io_return x \<and> True"
    and "\<exists>v w' x. rpc w (Wait h) = (Inr v, w') \<and> as_receipt v = io_return x \<and> True"
proof -
  from assms have t:
    "\<exists>p w'. rpc w GetFeeData = (Inr (FeeData p), w')"
    "\<And>as. \<exists>g w'. rpc w (EstimateGas c m as) = (Inr (Uint g), w')"
    "\<And>as ov. \<exists>h w'. rpc w (Send c m as ov) = (Inr (TxResponse h), w')"
    "\<And>h. \<exists>b g w'. rpc w (Wait h) = (Inr (Receipt b g), w')"
    by (simp_all add: transacts_def)
  from t(1) show "\<exists>v w' x. rpc w GetFeeData = (Inr v, w') \<and> as_fee v = io_return x \<and> True"
    by (auto simp: as_fee_def)
  from t(2) [of as]
  show "\<exists>v w' x. rpc w (EstimateGas c m as) = (Inr v, w') \<and> as_uint v = io_return x \<and> True"
    by (auto simp: as_uint_def)
  from t(3) show "\<exists>h w'. rpc w (Send c m as ov) = (Inr (TxResponse h), w')" .
  from t(4) show "\<exists>b g w'. rpc w (Wait h) = (Inr (Receipt b g), w')" .
  from t(3) [of as ov]
  show "\<exists>v w' x. rpc w (Send c m as ov) = (Inr v, w') \<and> as_tx v = io_return x \<and> True"
    by (auto simp: as_tx_def)
  from t(4) [of h] obtain b g w' where "rpc w (Wait h) = (Inr (Receipt b g), w')" by blast
  then have "rpc w (Wait h) = (Inr (Receipt b g), w') \<and> as_receipt (Receipt b g) = io_return (b, g) \<and> True"
    by (simp add: as_receipt_def)
  then show "\<exists>v w' x. rpc w (Wait h) = (Inr v, w') \<and> as_receipt v = io_return x \<and> True"
    by blast
qed

lemma funded_at:
  assumes "funded rpc token funds"
  shows "\<exists>v w' x. rpc w (Call token ''balanceOf'' as) = (Inr v, w') \<and> as_uint v = io_return x \<and> funds \<le> int x"
    and "\<exists>v w' x. rpc w (Call token ''allowance'' as) = (Inr v, w') \<and> as_uint v = io_return x \<and> True"
proof -
  from assms have f:
    "\<And>as. \<exists>n w'. rpc w (Call token ''balanceOf'' as) = (Inr (Uint n), w') \<and> funds \<le> int n"
    "\<And>as. \<exists>n w'. rpc w (Call token ''allowance'' as) = (Inr (Uint n), w')"
    by (simp_all add: funded_def)
  from f(1) [of as]
  show "\<exists>v w' x. rpc w (Call token ''balanceOf'' as) = (Inr v, w') \<and> as_uint v = io_return x \<and> funds \<le> int x"
    by (auto simp: as_uint_def)
  from f(2) [of as]
  show "\<exists>v w' x. rpc w (Call token ''allowance'' as) = (Inr v, w') \<and> as_uint v = io_return x \<and> True"
    by (auto simp: as_uint_def)
qed

lemma returns_ask:
  assumes "upward C" and "\<And>w. \<exists>v w' x. rpc w rq = (Inr v, w') \<and> dec v = io_return x \<and> True"
  shows "returns C (io_bind (perform rpc rq) dec) (\<lambda>_. C)"
  apply (rule returns_post)
   apply (rule returns_request [where G = "\<lambda>_. True"])
    apply (rule assms(1))
   apply (rule assms(2))
  apply simp
  done

lemma returns_ex: "(\<And>x. G x \<Longrightarrow> returns C m D) \<Longrightarrow> returns (\<lambda>tr. \<exists>x. G x \<and> C tr) m D"
  unfolding returns_def by blast

lemma returns_if: "(c \<Longrightarrow> returns C a D) \<Longrightarrow> (\<not> c \<Longrightarrow> returns C b D) \<Longrightarrow> returns C (if c then a else b) D"
  by simp


lemma returns_readABI:
  assumes c: "connects rpc cfg" and up: "upward C"
  shows "returns C (readABI rpc) (\<lambda>_. C)" "returns C (readERC20ABI rpc) (\<lambda>_. C)"
  unfolding readABI_def readERC20ABI_def
   apply (rule returns_try, rule returns_ask, rule up, rule connects_at(5) [OF c])
  apply (rule returns_try, rule returns_ask, rule up, rule connects_at(6) [OF c])
  done

lemma returns_setupEthers:
  assumes c: "connects rpc cfg" and up: "upward C"
  shows "returns C (setupEthers rpc k (RPC_URL cfg)) (\<lambda>_. C)"
  unfolding setupEthers_def
  apply (rule returns_try)
  apply (rule returns_bind)
   apply (rule returns_plain, rule up, rule connects_at(1) [OF c])
  apply (rule returns_bind)
   apply (rule returns_ask, rule up, rule connects_at(4) [OF c])
  apply (rule returns_then, rule returns_log)+
  apply (rule returns_bind)
   apply (rule returns_ask, rule up, rule connects_at(7) [OF c])
  apply (rule returns_then, rule returns_log)
  apply (rule returns_return)
  done

lemma returns_createContract:
  assumes c: "connects rpc cfg" and up: "upward C"
  shows "returns C (createContract rpc (CONTRACT_ADDRESS cfg) abi signer)
           (\<lambda>x tr. x = CONTRACT_ADDRESS cfg \<and> C tr)"
    and "returns C (createContract rpc (ERC20_TOKEN_ADDRESS cfg) abi signer)
           (\<lambda>x tr. x = ERC20_TOKEN_ADDRESS cfg \<and> C tr)"
  unfolding createContract_def
   apply (rule returns_try)
   apply (rule returns_then)
    apply (rule returns_plain, rule up, rule connects_at(2) [OF c])
   apply (simp add: returns_def io_return_def)
  apply (rule returns_try)
  apply (rule returns_then)
   apply (rule returns_plain, rule up, rule connects_at(3) [OF c])
  apply (simp add: returns_def io_return_def)
  done

lemma returns_settled:
  assumes "upward C" and "\<And>w. \<exists>v w' x. rpc w rq = (Inr v, w') \<and> dec v = io_return x \<and> True"
  shows "returns C (io_settle (io_bind (perform rpc rq) dec)) (\<lambda>r tr. \<exists>x. r = Inr x \<and> C tr)"
  apply (rule returns_settle)
  apply (rule returns_ask)
   apply (rule assms(1))
  apply (rule assms(2))
  done

lemma returns_getTokenInfo:
  assumes c: "connects rpc cfg" and up: "upward C"
  shows "returns C (getTokenInfo rpc (ERC20_TOKEN_ADDRESS cfg)) (\<lambda>_. C)"
  unfolding getTokenInfo_def
  apply (rule returns_try)
  apply (rule returns_bind)
   apply (rule returns_settled, rule up, rule connects_at(8) [OF c])
  apply (rule returns_ex)
  apply (rule returns_bind)
   apply (rule returns_settled, rule up, rule connects_at(9) [OF c])
  apply (rule returns_ex)
  apply (rule returns_bind)
   apply (rule returns_settled, rule up, rule connects_at(10) [OF c])
  apply (rule returns_ex)
  apply (rule returns_bind, erule returns_lift, rule returns_pure)+
  apply (rule returns_return)
  done

lemma returns_checkAndApprove:
  assumes t: "transacts rpc tokenContract ''approve''" and f: "funded rpc tokenContract funds"
    and up: "upward C"
  shows "returns C (checkAndApprove rpc tokenContract spender amount user ti) (\<lambda>_. C)"
  unfolding checkAndApprove_def
  apply (rule returns_try)
  apply (rule returns_then, rule returns_log)
  apply (rule returns_bind)
   apply (rule returns_ask, rule up, rule funded_at(2) [OF f])
  apply (rule returns_then, rule returns_log)+
  apply (rule returns_if)
   apply (rule returns_then, rule returns_log)
   apply (rule returns_bind)
    apply (rule returns_ask, rule up, rule transacts_at(2) [OF t])
   apply (rule returns_bind)
    apply (rule returns_ask, rule up, rule transacts_at(1) [OF t])
   apply (rule returns_then, rule returns_log)+
   apply (rule returns_bind)
    apply (rule returns_ask, rule up, rule transacts_at(5) [OF t])
   apply (rule returns_then, rule returns_log)
   apply (rule returns_bind)
    apply (rule returns_ask, rule up, rule transacts_at(6) [OF t])
   apply (rule returns_then, rule returns_log)
   apply (rule returns_log)
  apply (rule returns_log)
  done

text \<open>Submission and confirmation, recorded against the trace at the start of the run.\<close>

lemma returns_send:
  assumes t: "transacts rpc c meth" and up: "upward C"
  shows "returns (since t0 C) (io_bind (perform rpc (Send c meth as ov)) as_tx)
           (\<lambda>h. since t0 (\<lambda>new. C new \<and> (Send c meth as ov, Inr (TxResponse h)) \<in> set new))"
proof (rule returnsI)
  fix st :: "'a state" assume "since t0 C (trace st)"
  then obtain new where new: "trace st = t0 @ new" "C new" by (auto simp: since_def)
  from transacts_at(3) [OF t, of "world st" as ov] obtain tx w'
    where "rpc (world st) (Send c meth as ov) = (Inr (TxResponse tx), w')" by blast
  moreover from up new have "C (new @ [(Send c meth as ov, Inr (TxResponse tx))])"
    by (simp add: upward_def)
  ultimately show "\<exists>x st'. io_bind (perform rpc (Send c meth as ov)) as_tx st = (Inr x, st')
      \<and> since t0 (\<lambda>new. C new \<and> (Send c meth as ov, Inr (TxResponse x)) \<in> set new) (trace st')"
    using new
    by (auto simp: io_bind_def perform_def as_tx_def io_return_def since_def)
qed

lemma returns_wait:
  assumes t: "transacts rpc c meth" and up: "upward C"
  shows "returns (since t0 (\<lambda>new. C new \<and> (Send c meth as ov, Inr (TxResponse tx)) \<in> set new))
           (io_bind (perform rpc (Wait tx)) as_receipt)
           (\<lambda>_. since t0 (\<lambda>new. C new \<and> confirmed_call c meth as new))"
proof (rule returnsI)
  fix st :: "'a state"
  assume "since t0 (\<lambda>new. C new \<and> (Send c meth as ov, Inr (TxResponse tx)) \<in> set new) (trace st)"
  then obtain new where new: "trace st = t0 @ new" "C new"
    "(Send c meth as ov, Inr (TxResponse tx)) \<in> set new" by (auto simp: since_def)
  from transacts_at(4) [OF t, of "world st" tx] obtain b g w'
    where w: "rpc (world st) (Wait tx) = (Inr (Receipt b g), w')" by blast
  from up new have "C (new @ [(Wait tx, Inr (Receipt b g))])"
    by (simp add: upward_def)
  moreover from new(3) have "confirmed_call c meth as (new @ [(Wait tx, Inr (Receipt b g))])"
    unfolding confirmed_call_def by (intro exI [of _ ov] exI [of _ tx] exI [of _ b] exI [of _ g]) simp
  ultimately show "\<exists>x st'. io_bind (perform rpc (Wait tx)) as_receipt st = (Inr x, st')
      \<and> since t0 (\<lambda>new. C new \<and> confirmed_call c meth as new) (trace st')"
    using new w
    by (auto simp: io_bind_def perform_def as_receipt_def io_return_def since_def)
qed


lemma upward_confirmed_call: "upward (confirmed_call c meth as)"
  unfolding upward_def confirmed_call_def
  by (metis Un_iff set_append)

lemma upward_and_mem: "upward C \<Longrightarrow> upward (\<lambda>new. C new \<and> e \<in> set new)"
  by (simp add: upward_def)

lemma upward_and_confirmed: "upward C \<Longrightarrow> upward (\<lambda>new. C new \<and> confirmed meth new)"
  using upward_confirmed [of meth] by (simp add: upward_def)

text \<open>The common tail of the three actions: estimate, fee data, submit, wait.\<close>

lemma returns_transaction:
  assumes t: "transacts rpc c meth" and up: "upward C"
  shows "returns (since t0 C)
     (io_bind (io_bind (perform rpc (EstimateGas c meth as)) as_uint) (\<lambda>gasEstimate.
      io_bind (io_bind (perform rpc GetFeeData) as_fee) (\<lambda>gasPrice.
      io_then (console_log (l1 gasEstimate))
     (io_then (console_log (l2 gasPrice))
     (io_bind (io_bind (perform rpc
                 (Send c meth as \<lparr>gasLimit = gasEstimate * 120 div 100, gasPrice = gasPrice\<rparr>)) as_tx)
        (\<lambda>tx.
      io_then (console_log (l3 tx))
     (io_bind (io_bind (perform rpc (Wait tx)) as_receipt) (\<lambda>receipt.
      io_then (console_log (l4 receipt))
     (io_then (console_log (l5 receipt))
     (io_return receipt))))))))))
     (\<lambda>_. since t0 (\<lambda>new. C new \<and> confirmed_call c meth as new))"
  apply (rule returns_bind)
   apply (rule returns_ask, rule upward_since [OF up], rule transacts_at(2) [OF t])
  apply (rule returns_bind)
   apply (rule returns_ask, rule upward_since [OF up], rule transacts_at(1) [OF t])
  apply (rule returns_then, rule returns_log)+
  apply (rule returns_bind)
   apply (rule returns_send [OF t up])
  apply (rule returns_then, rule returns_log)
  apply (rule returns_bind)
   apply (rule returns_wait [OF t up])
  apply (rule returns_then, rule returns_log)+
  apply (rule returns_return)
  done

lemma returns_sell:
  assumes t: "transacts rpc contract ''sell''" and up: "upward C" and amount: "BigInt v = Inr amount"
  shows "returns (since t0 C) (executeSell rpc contract ti m oc v mx)
           (\<lambda>_. since t0 (\<lambda>new. C new
              \<and> confirmed_call contract ''sell'' [Str m, Str oc, Str v, Str mx] new))"
  unfolding executeSell_def
  apply (rule returns_try)
  apply (rule returns_then, rule returns_log)+
  apply (rule returns_bind, rule returns_lift [OF amount], rule returns_pure)
  apply (rule returns_then, rule returns_log)+
  apply (rule returns_transaction [OF t up])
  done


lemma returns_buy:
  assumes t: "transacts rpc contract ''buy''" and ta: "transacts rpc tokenContract ''approve''"
    and f: "funded rpc tokenContract funds" and up: "upward C"
    and amount: "BigInt v = Inr funds"
  shows "returns (since t0 C) (executeBuy rpc cfg contract tokenContract ti m oc v ms user)
           (\<lambda>_. since t0 (\<lambda>new. C new
              \<and> confirmed_call contract ''buy'' [Str m, Str oc, Str ms, Str v] new))"
  unfolding executeBuy_def
  apply (rule returns_try)
  apply (rule returns_then, rule returns_log)+
  apply (rule returns_bind, rule returns_lift [OF amount], rule returns_pure)
  apply (rule returns_then, rule returns_log)+
  apply (rule returns_bind)
   apply (rule returns_request, rule upward_since [OF up], rule funded_at(1) [OF f])
  apply (rule returns_pure)
  apply (rule returns_then, rule returns_log)
  apply (rule returns_then)
   apply (simp, rule returns_return)
  apply (rule returns_then)
   apply (rule returns_checkAndApprove [OF ta f upward_since [OF up]])
  apply (rule returns_transaction [OF t up])
  done



lemma returns_getUserShares_any:
  assumes up: "upward C"
  shows "returns (since t0 C) (getUserShares rpc contract ti m user) (\<lambda>v. since t0 C)"
proof (rule returnsI)
  fix st :: "'a state" assume "since t0 C (trace st)"
  then obtain new where new: "trace st = t0 @ new" "C new" by (auto simp: since_def)
  let ?rq = "Call contract ''getUserMarketShares'' [Str m, Str user]"
  obtain r w' where r: "rpc (world st) ?rq = (r, w')" by fastforce
  from up new have c: "C (new @ [(?rq, r)])" by (simp add: upward_def)
  have "\<exists>x st'. getUserShares rpc contract ti m user st = (Inr x, st')
      \<and> trace st' = trace st @ [(?rq, r)]"
    using r
    by (auto simp: getUserShares_def io_defs perform_def as_shares_def split: sum.splits resp.splits)
  with new c show "\<exists>x st'. getUserShares rpc contract ti m user st = (Inr x, st')
      \<and> since t0 C (trace st')"
    by (auto simp: since_def)
qed




subsection \<open>The last line of output\<close>








section \<open>Gas limits\<close>

lemma buffered_getUserShares: "emits buffered (getUserShares rpc contract ti m user)"
  unfolding getUserShares_def
  by (intro buffered_intros buffered_perform) (simp_all add: is_send_def)

lemma buffered_setup:
  "emits buffered (parseArguments argv)"
  "emits buffered (readABI rpc)"
  "emits buffered (readERC20ABI rpc)"
  "emits buffered (setupEthers rpc k url)"
  "emits buffered (createContract rpc a abi signer)"
  "emits buffered (getTokenInfo rpc tokenContract)"
  unfolding parseArguments_def readABI_def readERC20ABI_def setupEthers_def createContract_def
    getTokenInfo_def Let_def
  by (intro buffered_intros buffered_perform, simp_all add: is_send_def)+

lemma buffered_main: "emits buffered (main cfg rpc argv)"
  unfolding main_def
  by (intro buffered_intros buffered_setup buffered_getUserShares buffered_buy buffered_sell
      buffered_claim)

lemma buffered_program: "emits buffered (program env rpc argv)"
  unfolding program_def load_config_def require_env_def Let_def
  by (intro buffered_intros buffered_main) (auto split: option.splits intro!: buffered_intros)

lemma code_gas_limit_floor: "int (code_gas_limit g) = \<lfloor>real g * 1.2\<rfloor>"
proof -
  have "real g * 1.2 = real (g * 120) / real 100" by simp
  then have "\<lfloor>real g * 1.2\<rfloor> = \<lfloor>real (g * 120) / real 100\<rfloor>" by (simp only:)
  also have "\<dots> = int (g * 120 div 100)" by (rule floor_divide_of_nat_eq)
  finally show ?thesis by (simp add: code_gas_limit_def)
qed

lemma gas_limit_div5: "code_gas_limit g = g * 6 div 5"
proof -
  have "g * 120 div 100 = (20 * (g * 6)) div (20 * 5)" by simp
  also have "\<dots> = g * 6 div 5" by (rule div_mult_mult1) simp
  finally show ?thesis by (simp add: code_gas_limit_def)
qed

lemma ceiling_eq_floor_int: "(- (- (a::int) div 5) = a div 5) = (5 dvd a)"
  by presburger

lemma dvd_times_6: "((5::nat) dvd g * 6) = (5 dvd g)"
proof -
  have "coprime (5::nat) 6" by (simp add: coprime_Suc_right_nat [of 5, simplified] numeral_eq_Suc)
  then show ?thesis by (simp add: coprime_dvd_mult_left_iff)
qed

lemma ceiling_iff_multiple: "(spec_gas_limit g = int (code_gas_limit g)) = (5 dvd g)"
proof -
  have "real g * 1.2 = real_of_int (int g * 6) / real_of_int 5" by simp
  then have "spec_gas_limit g = \<lceil>real_of_int (int g * 6) / real_of_int 5\<rceil>"
    unfolding spec_gas_limit_def by (simp only:)
  also have "\<dots> = - (- (int g * 6) div 5)" by (rule ceiling_divide_eq_div)
  finally have s: "spec_gas_limit g = - (- (int g * 6) div 5)" .
  have c: "int (code_gas_limit g) = int g * 6 div 5"
    by (simp add: gas_limit_div5 zdiv_int)
  have "(5 dvd int g * 6) = (5 dvd g * 6)"
    using int_dvd_int_iff [of 5 "g * 6"] by simp
  with s c ceiling_eq_floor_int [of "int g * 6"] dvd_times_6 [of g] show ?thesis by simp
qed

lemmas run_defs = io_defs perform_def as_defs lift_def start_def stub0_def stub_call_def
  usdc_def stub_cfg_def

lemmas eval_BigInt = trim_def skip_space.simps white_space_def all_digits_def is_digit_def
  digit_val_def read_digits_def prefixed_def

lemma BigInt_examples:
  "BigInt [CHR 0xC2, CHR 0xA0, CHR ''5''] = Inr 5"
  "BigInt ([CHR 0xEF, CHR 0xBB, CHR 0xBF] @ '' 12'' @ [CHR 0xE2, CHR 0x80, CHR 0xA8, CHR 0x0A]) = Inr 12"
  "BigInt ''0x1F'' = Inr 31"
  "BigInt ''-7'' = Inr (- 7)"
  "BigInt ''+007'' = Inr 7"
  "BigInt '' '' = Inr 0"
  "BigInt [] = Inr 0"
  "BigInt ''1.5'' = Inl ''Cannot convert 1.5 to a BigInt''"
  "BigInt ''-0x10'' = Inl ''Cannot convert -0x10 to a BigInt''"
  "BigInt ''1 2'' = Inl ''Cannot convert 1 2 to a BigInt''"
  "BigInt [CHR 0xC2, CHR 0x85, CHR ''5''] =
     Inl (''Cannot convert '' @ [CHR 0xC2, CHR 0x85, CHR ''5''] @ '' to a BigInt'')"
  unfolding BigInt_def Let_def by (simp_all add: eval_BigInt)

lemma BigInt_10: "BigInt ''10'' = Inr 10"
  unfolding BigInt_def Let_def
  by (simp add: trim_def skip_space.simps white_space_def all_digits_def is_digit_def digit_val_def
      read_digits_def)

lemma BigInt_5: "BigInt ''5'' = Inr 5"
  unfolding BigInt_def Let_def
  by (simp add: trim_def skip_space.simps white_space_def all_digits_def is_digit_def digit_val_def
      read_digits_def)

text \<open>
  Claim C3, as amended. In every run of \<open>checkAndApprove\<close>, \<open>executeBuy\<close>,
  \<open>executeSell\<close> and \<open>executeClaimWinnings\<close>, and so of \<open>main\<close> and of the program, each
  submitted transaction comes two requests after the gas estimate of the same call with the
  same arguments (the fee data is read in between), and its gas limit is that estimate times
  120 divided by 100 in integers: the floor of \<open>estimate * 1.2\<close>, which is the ceiling only
  when the estimate is a multiple of 5.
\<close>

theorem gas_limit_is_floor:
  "buffered (new_trace (checkAndApprove rpc tokenContract spender amount user ti) st)
   \<and> buffered (new_trace (executeBuy rpc cfg contract tokenContract ti m oc v ms user) st)
   \<and> buffered (new_trace (executeSell rpc contract ti m oc v mx) st)
   \<and> buffered (new_trace (executeClaimWinnings rpc contract m) st)
   \<and> buffered (new_trace (main cfg rpc argv) st)
   \<and> buffered (new_trace (program env rpc argv) st)
   \<and> int (code_gas_limit g) = \<lfloor>real g * 1.2\<rfloor>
   \<and> (spec_gas_limit g = int (code_gas_limit g)) = (5 dvd g)"
  by (intro conjI emits_new_trace buffered_approve buffered_buy buffered_sell buffered_claim
      buffered_main buffered_program code_gas_limit_floor ceiling_iff_multiple)

theorem gas_limit_is_floor_witness:
  "buffered
     [(EstimateGas ''0xMarket'' ''claimWinnings'' [Str ''7''], Inr (Uint 21001)),
      (GetFeeData, Inr (FeeData (Some 30000000000))),
      (Send ''0xMarket'' ''claimWinnings'' [Str ''7'']
         \<lparr>gasLimit = 25201, gasPrice = Some 30000000000\<rparr>, Inr (TxResponse ''0xabc'')),
      (Wait ''0xabc'', Inr (Receipt 42 21000))]
   \<and> int (code_gas_limit 21001) = \<lfloor>real 21001 * 1.2\<rfloor>
   \<and> code_gas_limit 21001 = 25201"
proof -
  have "new_trace (executeClaimWinnings (stub_rpc stub0) ''0xMarket'' ''7'') (start 0) =
     [(EstimateGas ''0xMarket'' ''claimWinnings'' [Str ''7''], Inr (Uint 21001)),
      (GetFeeData, Inr (FeeData (Some 30000000000))),
      (Send ''0xMarket'' ''claimWinnings'' [Str ''7'']
         \<lparr>gasLimit = 25201, gasPrice = Some 30000000000\<rparr>, Inr (TxResponse ''0xabc'')),
      (Wait ''0xabc'', Inr (Receipt 42 21000))]"
    by (simp add: new_trace_def executeClaimWinnings_def run_defs)
  then show ?thesis
    using gas_limit_is_floor [where rpc = "stub_rpc stub0" and contract = "''0xMarket''" and m = "''7''"
        and st = "start 0" and g = 21001]
    by (simp add: code_gas_limit_def)
qed

text \<open>
  Claim C3 as stated fails: with a gas estimate of 21001 the limit submitted is 25201, and
  \<open>ceil(21001 * 1.2)\<close> is 25202.
\<close>

theorem gas_limit_not_ceiling:
  "new_trace (executeClaimWinnings (stub_rpc stub0) ''0xMarket'' ''7'') (start 0) =
     [(EstimateGas ''0xMarket'' ''claimWinnings'' [Str ''7''], Inr (Uint 21001)),
      (GetFeeData, Inr (FeeData (Some 30000000000))),
      (Send ''0xMarket'' ''claimWinnings'' [Str ''7'']
         \<lparr>gasLimit = 25201, gasPrice = Some 30000000000\<rparr>, Inr (TxResponse ''0xabc'')),
      (Wait ''0xabc'', Inr (Receipt 42 21000))]
   \<and> spec_gas_limit 21001 = 25202"
  by (simp add: new_trace_def executeClaimWinnings_def run_defs spec_gas_limit_def)

section \<open>Selling\<close>

lemma stub_connects: "connects (stub_rpc p) cfg"
  by (simp add: connects_def stub_call_def)

lemma stub_transacts: "transacts (stub_rpc stub0) c meth"
  by (simp add: transacts_def stub0_def)

lemma stub_funded: "funded (stub_rpc stub0) token 5"
  by (simp add: funded_def stub_call_def stub0_def)

lemma stub_short: "short_of (stub_rpc stub0) token 10"
  by (simp add: short_of_def stub_call_def stub0_def)


lemma returns_new_trace:
  assumes "returns (since (trace st) (\<lambda>_. True)) m (\<lambda>_. since (trace st) (\<lambda>new. True \<and> D new))"
  shows "(\<exists>x st'. m st = (Inr x, st')) \<and> D (new_trace m st)"
proof -
  have "since (trace st) (\<lambda>_. True) (trace st)" by (simp add: since_def)
  with assms obtain x st' where "m st = (Inr x, st')"
    "since (trace st) (\<lambda>new. True \<and> D new) (trace st')"
    by (blast dest: returnsD)
  then show ?thesis by (auto simp: since_def new_trace_def)
qed

lemma sell_goes_through:
  assumes "BigInt v = Inr amount" and "transacts rpc contract ''sell''"
  shows "(\<exists>x st'. executeSell rpc contract ti m oc v mx st = (Inr x, st'))
       \<and> confirmed_call contract ''sell'' [Str m, Str oc, Str v, Str mx]
            (new_trace (executeSell rpc contract ti m oc v mx) st)"
  by (rule returns_new_trace, rule returns_sell [OF assms(2) upward_True assms(1)])

lemma buy_goes_through:
  assumes "BigInt v = Inr amount" and "transacts rpc contract ''buy''"
    and "transacts rpc tokenContract ''approve''" and "funded rpc tokenContract amount"
  shows "(\<exists>x st'. executeBuy rpc cfg contract tokenContract ti m oc v ms user st = (Inr x, st'))
       \<and> confirmed_call contract ''buy'' [Str m, Str oc, Str ms, Str v]
            (new_trace (executeBuy rpc cfg contract tokenContract ti m oc v ms user) st)"
  by (rule returns_new_trace, rule returns_buy [OF assms(2) assms(3) assms(4) upward_True assms(1)])

text \<open>
  Claim C8. Whatever the world answers, \<open>executeSell\<close> makes no request but the gas
  estimate of \<open>sell(marketId, outcomeId, value, maxShares)\<close>, the read of the fee data,
  the submission of \<open>sell\<close> with the same arguments in the same order, and the wait for
  its receipt: it reads no balance and no allowance and approves nothing. In \<open>executeBuy\<close>,
  every request that calls \<open>buy\<close> passes \<open>(marketId, outcomeId, minShares, value)\<close>.

  And these calls are made. Where \<open>value\<close> is an integer: the first request of
  \<open>executeSell\<close> is that gas estimate; once the estimate and the fee data are answered
  it submits \<open>sell(marketId, outcomeId, value, maxShares)\<close> with the buffered limit; in a
  world that transacts \<open>sell\<close> it returns with that transaction confirmed, whatever the
  token balance and the allowance are. \<open>executeBuy\<close>, in a world that transacts \<open>buy\<close>
  and the token's \<open>approve\<close> and is funded, returns with
  \<open>buy(marketId, outcomeId, minShares, value)\<close> confirmed; and with a balance
  and an allowance that cover the value, it reads both, estimates the gas of
  \<open>buy(marketId, outcomeId, minShares, value)\<close>, reads the fee data and submits that call.
\<close>

theorem sell_makes_no_checks:
  "list_all (\<lambda>e. sell_request contract m oc v mx (fst e))
     (new_trace (executeSell rpc contract ti m oc v mx) st)
   \<and> list_all (\<lambda>e. buy_order m oc ms v (fst e))
     (new_trace (executeBuy rpc cfg contract tokenContract ti m oc v ms user) st)
   \<and> (BigInt v = Inr amount \<longrightarrow>
        (\<exists>rest. new_trace (executeSell rpc contract ti m oc v mx) st =
           (EstimateGas contract ''sell'' [Str m, Str oc, Str v, Str mx],
            fst (rpc (world st) (EstimateGas contract ''sell'' [Str m, Str oc, Str v, Str mx])))
           # rest)
      \<and> (\<forall>g w1 p w2.
            rpc (world st) (EstimateGas contract ''sell'' [Str m, Str oc, Str v, Str mx])
              = (Inr (Uint g), w1) \<longrightarrow>
            rpc w1 GetFeeData = (Inr (FeeData p), w2) \<longrightarrow>
            (\<exists>rest. new_trace (executeSell rpc contract ti m oc v mx) st =
               [(EstimateGas contract ''sell'' [Str m, Str oc, Str v, Str mx], Inr (Uint g)),
                (GetFeeData, Inr (FeeData p)),
                (Send contract ''sell'' [Str m, Str oc, Str v, Str mx]
                   \<lparr>gasLimit = g * 120 div 100, gasPrice = p\<rparr>,
                 fst (rpc w2 (Send contract ''sell'' [Str m, Str oc, Str v, Str mx]
                   \<lparr>gasLimit = g * 120 div 100, gasPrice = p\<rparr>)))] @ rest))
      \<and> (transacts rpc contract ''sell'' \<longrightarrow>
            (\<exists>x st'. executeSell rpc contract ti m oc v mx st = (Inr x, st'))
            \<and> confirmed_call contract ''sell'' [Str m, Str oc, Str v, Str mx]
                 (new_trace (executeSell rpc contract ti m oc v mx) st))
      \<and> (transacts rpc contract ''buy'' \<and> transacts rpc tokenContract ''approve''
           \<and> funded rpc tokenContract amount \<longrightarrow>
            (\<exists>x st'. executeBuy rpc cfg contract tokenContract ti m oc v ms user st = (Inr x, st'))
            \<and> confirmed_call contract ''buy'' [Str m, Str oc, Str ms, Str v]
                 (new_trace (executeBuy rpc cfg contract tokenContract ti m oc v ms user) st))
      \<and> (\<forall>b w1 a w2 g w3 p w4.
            rpc (world st) (Call tokenContract ''balanceOf'' [Str user]) = (Inr (Uint b), w1) \<longrightarrow>
            amount \<le> int b \<longrightarrow>
            rpc w1 (Call tokenContract ''allowance'' [Str user, Str (CONTRACT_ADDRESS cfg)])
              = (Inr (Uint a), w2) \<longrightarrow>
            amount \<le> int a \<longrightarrow>
            rpc w2 (EstimateGas contract ''buy'' [Str m, Str oc, Str ms, Str v]) = (Inr (Uint g), w3) \<longrightarrow>
            rpc w3 GetFeeData = (Inr (FeeData p), w4) \<longrightarrow>
            (\<exists>rest. new_trace (executeBuy rpc cfg contract tokenContract ti m oc v ms user) st =
               [(Call tokenContract ''balanceOf'' [Str user], Inr (Uint b)),
                (Call tokenContract ''allowance'' [Str user, Str (CONTRACT_ADDRESS cfg)], Inr (Uint a)),
                (EstimateGas contract ''buy'' [Str m, Str oc, Str ms, Str v], Inr (Uint g)),
                (GetFeeData, Inr (FeeData p)),
                (Send contract ''buy'' [Str m, Str oc, Str ms, Str v]
                   \<lparr>gasLimit = g * 120 div 100, gasPrice = p\<rparr>,
                 fst (rpc w4 (Send contract ''buy'' [Str m, Str oc, Str ms, Str v]
                   \<lparr>gasLimit = g * 120 div 100, gasPrice = p\<rparr>)))] @ rest)))"
proof (intro conjI impI allI)
  show "list_all (\<lambda>e. sell_request contract m oc v mx (fst e))
     (new_trace (executeSell rpc contract ti m oc v mx) st)"
    by (rule emits_new_trace [OF sell_requests])
  show "list_all (\<lambda>e. buy_order m oc ms v (fst e))
     (new_trace (executeBuy rpc cfg contract tokenContract ti m oc v ms user) st)"
    by (rule emits_new_trace [OF buy_requests])
next
  assume "BigInt v = Inr amount"
  then show "\<exists>rest. new_trace (executeSell rpc contract ti m oc v mx) st =
           (EstimateGas contract ''sell'' [Str m, Str oc, Str v, Str mx],
            fst (rpc (world st) (EstimateGas contract ''sell'' [Str m, Str oc, Str v, Str mx])))
           # rest"
    using begins_new_trace [OF sell_begins] by fastforce
next
  fix g w1 p w2
  assume "BigInt v = Inr amount"
    and "rpc (world st) (EstimateGas contract ''sell'' [Str m, Str oc, Str v, Str mx]) = (Inr (Uint g), w1)"
    and "rpc w1 GetFeeData = (Inr (FeeData p), w2)"
  then show "\<exists>rest. new_trace (executeSell rpc contract ti m oc v mx) st =
               [(EstimateGas contract ''sell'' [Str m, Str oc, Str v, Str mx], Inr (Uint g)),
                (GetFeeData, Inr (FeeData p)),
                (Send contract ''sell'' [Str m, Str oc, Str v, Str mx]
                   \<lparr>gasLimit = g * 120 div 100, gasPrice = p\<rparr>,
                 fst (rpc w2 (Send contract ''sell'' [Str m, Str oc, Str v, Str mx]
                   \<lparr>gasLimit = g * 120 div 100, gasPrice = p\<rparr>)))] @ rest"
    by (intro begins_new_trace sell_submits)
next
  assume "BigInt v = Inr amount" and "transacts rpc contract ''sell''"
  then show "\<exists>x st'. executeSell rpc contract ti m oc v mx st = (Inr x, st')"
    and "confirmed_call contract ''sell'' [Str m, Str oc, Str v, Str mx]
                 (new_trace (executeSell rpc contract ti m oc v mx) st)"
    using sell_goes_through by blast+
next
  assume "BigInt v = Inr amount" and "transacts rpc contract ''buy'' \<and> transacts rpc tokenContract ''approve''
           \<and> funded rpc tokenContract amount"
  then show "\<exists>x st'. executeBuy rpc cfg contract tokenContract ti m oc v ms user st = (Inr x, st')"
    and "confirmed_call contract ''buy'' [Str m, Str oc, Str ms, Str v]
                 (new_trace (executeBuy rpc cfg contract tokenContract ti m oc v ms user) st)"
    using buy_goes_through by blast+
next
  fix b w1 a w2 g w3 p w4
  assume "BigInt v = Inr amount"
    and "rpc (world st) (Call tokenContract ''balanceOf'' [Str user]) = (Inr (Uint b), w1)"
    and "amount \<le> int b"
    and "rpc w1 (Call tokenContract ''allowance'' [Str user, Str (CONTRACT_ADDRESS cfg)])
              = (Inr (Uint a), w2)"
    and "amount \<le> int a"
    and "rpc w2 (EstimateGas contract ''buy'' [Str m, Str oc, Str ms, Str v]) = (Inr (Uint g), w3)"
    and "rpc w3 GetFeeData = (Inr (FeeData p), w4)"
  then show "\<exists>rest. new_trace (executeBuy rpc cfg contract tokenContract ti m oc v ms user) st =
               [(Call tokenContract ''balanceOf'' [Str user], Inr (Uint b)),
                (Call tokenContract ''allowance'' [Str user, Str (CONTRACT_ADDRESS cfg)], Inr (Uint a)),
                (EstimateGas contract ''buy'' [Str m, Str oc, Str ms, Str v], Inr (Uint g)),
                (GetFeeData, Inr (FeeData p)),
                (Send contract ''buy'' [Str m, Str oc, Str ms, Str v]
                   \<lparr>gasLimit = g * 120 div 100, gasPrice = p\<rparr>,
                 fst (rpc w4 (Send contract ''buy'' [Str m, Str oc, Str ms, Str v]
                   \<lparr>gasLimit = g * 120 div 100, gasPrice = p\<rparr>)))] @ rest"
    by (intro begins_new_trace buy_submits)
qed

text \<open>
  On the stub chain (balance 5, allowance 5): the whole trace of selling 10, and the trace
  of buying 5 with a bound of 3 on the shares.
\<close>

theorem sell_makes_no_checks_witness:
  "new_trace (executeSell (stub_rpc stub0) ''0xMarket'' usdc ''7'' ''1'' ''10'' ''3'') (start 0) =
     [(EstimateGas ''0xMarket'' ''sell'' [Str ''7'', Str ''1'', Str ''10'', Str ''3''], Inr (Uint 21001)),
      (GetFeeData, Inr (FeeData (Some 30000000000))),
      (Send ''0xMarket'' ''sell'' [Str ''7'', Str ''1'', Str ''10'', Str ''3'']
         \<lparr>gasLimit = 25201, gasPrice = Some 30000000000\<rparr>, Inr (TxResponse ''0xabc'')),
      (Wait ''0xabc'', Inr (Receipt 42 21000))]
   \<and> list_all (\<lambda>e. sell_request ''0xMarket'' ''7'' ''1'' ''10'' ''3'' (fst e))
       (new_trace (executeSell (stub_rpc stub0) ''0xMarket'' usdc ''7'' ''1'' ''10'' ''3'') (start 0))
   \<and> confirmed_call ''0xMarket'' ''sell'' [Str ''7'', Str ''1'', Str ''10'', Str ''3'']
       (new_trace (executeSell (stub_rpc stub0) ''0xMarket'' usdc ''7'' ''1'' ''10'' ''3'') (start 0))
   \<and> new_trace (executeBuy (stub_rpc stub0) stub_cfg ''0xMarket'' ''0xToken'' usdc ''7'' ''1'' ''5'' ''3''
         ''0xUser'') (start 0) =
     [(Call ''0xToken'' ''balanceOf'' [Str ''0xUser''], Inr (Uint 5)),
      (Call ''0xToken'' ''allowance'' [Str ''0xUser'', Str ''0xMarket''], Inr (Uint 5)),
      (EstimateGas ''0xMarket'' ''buy'' [Str ''7'', Str ''1'', Str ''3'', Str ''5''], Inr (Uint 21001)),
      (GetFeeData, Inr (FeeData (Some 30000000000))),
      (Send ''0xMarket'' ''buy'' [Str ''7'', Str ''1'', Str ''3'', Str ''5'']
         \<lparr>gasLimit = 25201, gasPrice = Some 30000000000\<rparr>, Inr (TxResponse ''0xabc'')),
      (Wait ''0xabc'', Inr (Receipt 42 21000))]
   \<and> confirmed_call ''0xMarket'' ''buy'' [Str ''7'', Str ''1'', Str ''3'', Str ''5'']
       (new_trace (executeBuy (stub_rpc stub0) stub_cfg ''0xMarket'' ''0xToken'' usdc ''7'' ''1'' ''5'' ''3''
         ''0xUser'') (start 0))"
proof -
  have s: "new_trace (executeSell (stub_rpc stub0) ''0xMarket'' usdc ''7'' ''1'' ''10'' ''3'') (start 0) =
     [(EstimateGas ''0xMarket'' ''sell'' [Str ''7'', Str ''1'', Str ''10'', Str ''3''], Inr (Uint 21001)),
      (GetFeeData, Inr (FeeData (Some 30000000000))),
      (Send ''0xMarket'' ''sell'' [Str ''7'', Str ''1'', Str ''10'', Str ''3'']
         \<lparr>gasLimit = 25201, gasPrice = Some 30000000000\<rparr>, Inr (TxResponse ''0xabc'')),
      (Wait ''0xabc'', Inr (Receipt 42 21000))]"
    by (simp add: new_trace_def executeSell_def run_defs BigInt_10)
  have b: "new_trace (executeBuy (stub_rpc stub0) stub_cfg ''0xMarket'' ''0xToken'' usdc ''7'' ''1'' ''5'' ''3''
         ''0xUser'') (start 0) =
     [(Call ''0xToken'' ''balanceOf'' [Str ''0xUser''], Inr (Uint 5)),
      (Call ''0xToken'' ''allowance'' [Str ''0xUser'', Str ''0xMarket''], Inr (Uint 5)),
      (EstimateGas ''0xMarket'' ''buy'' [Str ''7'', Str ''1'', Str ''3'', Str ''5''], Inr (Uint 21001)),
      (GetFeeData, Inr (FeeData (Some 30000000000))),
      (Send ''0xMarket'' ''buy'' [Str ''7'', Str ''1'', Str ''3'', Str ''5'']
         \<lparr>gasLimit = 25201, gasPrice = Some 30000000000\<rparr>, Inr (TxResponse ''0xabc'')),
      (Wait ''0xabc'', Inr (Receipt 42 21000))]"
    by (simp add: new_trace_def executeBuy_def checkAndApprove_def run_defs BigInt_5)
  from sell_makes_no_checks [where rpc = "stub_rpc stub0" and contract = "''0xMarket''"
        and ti = usdc and m = "''7''" and oc = "''1''" and v = "''10''" and mx = "''3''"
        and st = "start 0" and amount = 10]
    sell_makes_no_checks [where rpc = "stub_rpc stub0" and contract = "''0xMarket''"
        and tokenContract = "''0xToken''" and cfg = stub_cfg and user = "''0xUser''"
        and ti = usdc and m = "''7''" and oc = "''1''" and v = "''5''" and ms = "''3''"
        and st = "start 0" and amount = 5]
    stub_transacts stub_funded
  have "list_all (\<lambda>e. sell_request ''0xMarket'' ''7'' ''1'' ''10'' ''3'' (fst e))
       (new_trace (executeSell (stub_rpc stub0) ''0xMarket'' usdc ''7'' ''1'' ''10'' ''3'') (start 0))"
    and "confirmed_call ''0xMarket'' ''sell'' [Str ''7'', Str ''1'', Str ''10'', Str ''3'']
       (new_trace (executeSell (stub_rpc stub0) ''0xMarket'' usdc ''7'' ''1'' ''10'' ''3'') (start 0))"
    and "confirmed_call ''0xMarket'' ''buy'' [Str ''7'', Str ''1'', Str ''3'', Str ''5'']
       (new_trace (executeBuy (stub_rpc stub0) stub_cfg ''0xMarket'' ''0xToken'' usdc ''7'' ''1'' ''5'' ''3''
         ''0xUser'') (start 0))"
    by (simp_all only: BigInt_10 BigInt_5 simp_thms)
  with s b show ?thesis by (simp only: simp_thms)
qed

section \<open>Buying\<close>

lemma guarded_quiet: "list_all (\<lambda>e. \<not> past_balance_check (fst e)) tr \<Longrightarrow> guarded token amount tr"
  by (induction tr) simp_all

lemma guarded_append: "guarded token amount a \<Longrightarrow> guarded token amount b \<Longrightarrow> guarded token amount (a @ b)"
  by (induction a) (simp_all split: if_splits)

lemma appendable_guarded: "appendable (guarded token amount)"
  by (simp add: appendable_def guarded_append)

lemma quiet_covered:
  "guarded token amount tr \<Longrightarrow> list_all (\<lambda>e. \<not> covering_read token amount e) tr
     \<Longrightarrow> list_all (\<lambda>e. \<not> past_balance_check (fst e)) tr"
  by (induction tr) (simp_all split: if_splits)

lemma emits_bind_pure: "m = io_return x \<Longrightarrow> emits Q (f x) \<Longrightarrow> emits Q (io_bind m f)"
  by (simp add: emits_def io_bind_def io_return_def)

lemma emits_mono: "emits Q m \<Longrightarrow> (\<And>tr. Q tr \<Longrightarrow> Q' tr) \<Longrightarrow> emits Q' m"
  unfolding emits_def by blast

lemma parseArguments_buy:
  assumes "argv ! 0 = ''buy''" and "5 \<le> length argv"
  shows "parseArguments argv =
     io_return \<lparr>action = ''buy'', privateKey = argv ! 1, marketId = Some (argv ! 2),
                outcomeId = Some (argv ! 3), value' = Some (argv ! 4),
                minShares = Some (or_default argv 5 ''0''), maxShares = None\<rparr>"
  using assms by (intro ext) (simp add: parseArguments_def Let_def io_return_def)

text \<open>A bind whose first action can only return \<open>a\<close>.\<close>

lemma emits_bind_result:
  assumes Q: "appendable Q" and m: "emits Q m"
    and r: "\<And>st x st'. m st = (Inr x, st') \<Longrightarrow> x = a"
    and f: "emits Q (f a)"
  shows "emits Q (io_bind m f)"
proof (rule emitsI)
  fix st
  from m obtain tr where tr: "trace (snd (m st)) = trace st @ tr" "Q tr"
    unfolding emits_def by blast
  show "\<exists>tr. trace (snd (io_bind m f st)) = trace st @ tr \<and> Q tr"
  proof (cases "m st")
    case (Pair res st')
    show ?thesis
    proof (cases res)
      case (Inl e)
      with Pair tr show ?thesis by (auto simp: io_bind_def)
    next
      case (Inr x)
      with Pair r have x: "x = a" by blast
      from f obtain tr' where tr': "trace (snd (f a st')) = trace st' @ tr'" "Q tr'"
        unfolding emits_def by blast
      from Q tr tr' have "Q (tr @ tr')" by (simp add: appendable_def)
      with Pair Inr x tr tr' show ?thesis by (auto simp: io_bind_def)
    qed
  qed
qed

lemma createContract_result: "createContract rpc a abi signer st = (Inr x, st') \<Longrightarrow> x = a"
  by (auto simp: createContract_def io_defs perform_def split: prod.splits sum.splits)

text \<open>What \<open>main\<close> asks on a purchase, given what \<open>executeBuy\<close> asks.\<close>

lemma main_buy_emits:
  assumes Q: "appendable Q"
    and one: "\<And>rq r. \<not> past_balance_check rq \<Longrightarrow> Q [(rq, r)]"
    and buy: "argv ! 0 = ''buy''" "5 \<le> length argv"
    and exec: "\<And>contract ti user.
       emits Q (executeBuy rpc cfg contract (ERC20_TOKEN_ADDRESS cfg) ti (argv ! 2) (argv ! 3) (argv ! 4)
                  (or_default argv 5 ''0'') user)"
  shows "emits Q (main cfg rpc argv)"
proof -
  note intros = emits_intros [where Q = Q] Q
  have ask: "emits Q (perform rpc rq)" if "\<not> past_balance_check rq" for rq
    by (rule emits_perform, rule one, rule that)
  have parts:
    "emits Q (readABI rpc)"
    "emits Q (readERC20ABI rpc)"
    "\<And>k url. emits Q (setupEthers rpc k url)"
    "\<And>a abi signer. emits Q (createContract rpc a abi signer)"
    "\<And>tokenContract. emits Q (getTokenInfo rpc tokenContract)"
    "\<And>contract ti m user. emits Q (getUserShares rpc contract ti m user)"
    unfolding readABI_def readERC20ABI_def setupEthers_def createContract_def getTokenInfo_def
      getUserShares_def
    by (intro intros ask, simp_all add: past_balance_check_def)+
  have created: "emits Q (f a) \<Longrightarrow> emits Q (io_bind (createContract rpc a abi signer) f)"
    for f :: "string \<Rightarrow> ('a, 'b) io" and a abi signer
    by (rule emits_bind_result [OF Q parts(4)], erule createContract_result)
  show ?thesis
    unfolding main_def
    apply (rule emits_try [OF Q])
     apply (rule emits_bind_pure [OF parseArguments_buy [OF buy]])
     apply (simp add: bang_def)
     apply (intro created intros parts exec)
    apply (intro intros)
    done
qed


lemma buy_unanswered:
  assumes amount: "BigInt v = Inr amount"
    and r: "rpc (world st) (Call tokenContract ''balanceOf'' [Str user]) = (r, w1)"
    and no: "\<And>b. r \<noteq> Inr (Uint b)"
  shows "trace (snd (executeBuy rpc cfg contract tokenContract ti m oc v ms user st)) =
     trace st @ [(Call tokenContract ''balanceOf'' [Str user], r)]"
  using amount r no
  by (auto simp: executeBuy_def io_defs perform_def as_uint_def lift_def split: sum.splits resp.splits)

lemma guarded_buy:
  assumes amount: "BigInt v = Inr amount"
  shows "emits (guarded tokenContract amount) (executeBuy rpc cfg contract tokenContract ti m oc v ms user)"
proof (rule emitsI)
  fix st :: "'a state"
  let ?rq = "Call tokenContract ''balanceOf'' [Str user]"
  let ?run = "executeBuy rpc cfg contract tokenContract ti m oc v ms user"
  obtain r w1 where r: "rpc (world st) ?rq = (r, w1)" by fastforce
  have quiet: "guarded tokenContract amount [(?rq, r')]" for r'
    by (simp add: past_balance_check_def)
  show "\<exists>tr. trace (snd (?run st)) = trace st @ tr \<and> guarded tokenContract amount tr"
  proof (cases "\<exists>b. r = Inr (Uint b)")
    case False
    then have "trace (snd (?run st)) = trace st @ [(?rq, r)]"
      using buy_unanswered [where rpc = rpc and st = st, OF amount r] by blast
    with quiet show ?thesis by blast
  next
    case True
    then obtain b where b: "rpc (world st) ?rq = (Inr (Uint b), w1)" using r by blast
    show ?thesis
    proof (cases "int b < amount")
      case True
      from buy_insufficient [where rpc = rpc and st = st and cfg = cfg and contract = contract and ti = ti and m = m and oc = oc and ms = ms, OF amount b True]
      have "trace (snd (?run st)) = trace st @ [(?rq, Inr (Uint b))]" by simp
      with quiet show ?thesis by blast
    next
      case False
      then have enough: "amount \<le> int b" by simp
      from buy_proceeds [where rpc = rpc and st = st and cfg = cfg and contract = contract and ti = ti and m = m and oc = oc and ms = ms, OF amount b enough]
      obtain rest where "trace (snd (?run st)) = trace st @ (?rq, Inr (Uint b)) # rest"
        by (auto simp: begins_def)
      moreover from enough have "guarded tokenContract amount ((?rq, Inr (Uint b)) # rest)"
        by (simp add: covering_read_def)
      ultimately show ?thesis by blast
    qed
  qed
qed

lemma quiet_buy:
  assumes amount: "BigInt v = Inr amount" and short: "short_of rpc tokenContract amount"
  shows "emits (list_all (\<lambda>e. \<not> past_balance_check (fst e)))
           (executeBuy rpc cfg contract tokenContract ti m oc v ms user)"
proof (rule emitsI)
  fix st :: "'a state"
  let ?rq = "Call tokenContract ''balanceOf'' [Str user]"
  from short obtain b w1 where b: "rpc (world st) ?rq = (Inr (Uint b), w1)" and less: "int b < amount"
    unfolding short_of_def by blast
  from buy_insufficient [where rpc = rpc and st = st and cfg = cfg and contract = contract and ti = ti and m = m and oc = oc and ms = ms, OF amount b less]
  have "trace (snd (executeBuy rpc cfg contract tokenContract ti m oc v ms user st)) =
      trace st @ [(?rq, Inr (Uint b))]" by simp
  then show "\<exists>tr. trace (snd (executeBuy rpc cfg contract tokenContract ti m oc v ms user st)) = trace st @ tr
      \<and> list_all (\<lambda>e. \<not> past_balance_check (fst e)) tr"
    by (simp add: past_balance_check_def)
qed

subsection \<open>Runs that throw\<close>

lemma raisesD:
  "raises C m E \<Longrightarrow> C (trace st) \<Longrightarrow> \<exists>msg st'. m st = (Inl (Throw msg), st') \<and> E msg"
  by (simp add: raises_def)

lemma raises_bind:
  assumes m: "returns C (m :: ('w, 'a) io) D" and f: "\<And>x. raises (D x) (f x) E"
  shows "raises C (io_bind m f) E"
  unfolding raises_def
proof (intro allI impI)
  fix st :: "'w state" assume "C (trace st)"
  with m obtain x st' where 1: "m st = (Inr x, st')" "D x (trace st')"
    by (blast dest: returnsD)
  with f [of x] obtain msg st'' where "f x st' = (Inl (Throw msg), st'')" "E msg"
    by (blast dest: raisesD)
  with 1 show "\<exists>msg st'. io_bind m f st = (Inl (Throw msg), st') \<and> E msg"
    by (simp add: io_bind_def)
qed

lemma raises_then: "returns C m (\<lambda>_. D) \<Longrightarrow> raises D k E \<Longrightarrow> raises C (io_then m k) E"
  unfolding io_then_def by (rule raises_bind)

lemma raises_bind_left: "raises C m E \<Longrightarrow> raises C (io_bind m f) E"
  unfolding raises_def io_bind_def by fastforce

lemma raises_bind_pure: "m = io_return x \<Longrightarrow> raises C (f x) E \<Longrightarrow> raises C (io_bind m f) E"
  by (simp add: raises_def io_bind_def io_return_def)

lemma raises_pure: "(G \<Longrightarrow> raises C m E) \<Longrightarrow> raises (\<lambda>tr. G \<and> C tr) m E"
  unfolding raises_def by blast

lemma raises_case_prod:
  "(\<And>a b. raises C (f a b) E) \<Longrightarrow> raises C (case p of (a, b) \<Rightarrow> f a b) E"
  by (cases p) simp

text \<open>The handler of \<open>main\<close>: two lines on the error stream, then \<open>process.exit\<close>.\<close>

lemma try_exit:
  assumes "raises C m E" and "C (trace st)"
  shows "\<exists>msg st'. E msg
     \<and> try_catch m (\<lambda>msg. io_then (console_error a)
                       (io_then (console_error (b msg)) (process_exit n))) st = (Inl (Exit n), st')
     \<and> (\<exists>out. console st' = out @ [Stderr a, Stderr (b msg)])"
proof -
  from assms obtain msg st1 where "m st = (Inl (Throw msg), st1)" "E msg"
    by (blast dest: raisesD)
  then show ?thesis
    by (auto simp: io_defs)
qed

lemma raises_buy:
  assumes amount: "BigInt v = Inr amount" and short: "short_of rpc tokenContract amount"
  shows "raises C (executeBuy rpc cfg contract tokenContract ti m oc v ms user)
     (\<lambda>msg. \<exists>(ti :: TokenInfo) b. int b < amount
        \<and> msg = ''Insufficient '' @ symbol ti @ '' balance. Required: ''
                  @ formatTokenAmount amount (decimals ti) @ '', Available: ''
                  @ formatTokenAmount (int b) (decimals ti))"
  unfolding raises_def
proof (intro allI impI)
  fix st :: "'a state"
  let ?rq = "Call tokenContract ''balanceOf'' [Str user]"
  from short obtain b w1 where b: "rpc (world st) ?rq = (Inr (Uint b), w1)" and less: "int b < amount"
    unfolding short_of_def by blast
  let ?M = "''Insufficient '' @ symbol ti @ '' balance. Required: ''
                  @ formatTokenAmount amount (decimals ti) @ '', Available: ''
                  @ formatTokenAmount (int b) (decimals ti)"
  from buy_insufficient [where rpc = rpc and st = st and cfg = cfg and contract = contract and ti = ti and m = m and oc = oc and ms = ms, OF amount b less]
  have "\<exists>st'. executeBuy rpc cfg contract tokenContract ti m oc v ms user st = (Inl (Throw ?M), st')"
    by (rule exI)
  moreover from less have "\<exists>(ti' :: TokenInfo) b'. int b' < amount
        \<and> ?M = ''Insufficient '' @ symbol ti' @ '' balance. Required: ''
                  @ formatTokenAmount amount (decimals ti') @ '', Available: ''
                  @ formatTokenAmount (int b') (decimals ti')"
    by (intro exI [of _ ti] exI [of _ b] conjI refl)
  ultimately
  show "\<exists>msg st'. executeBuy rpc cfg contract tokenContract ti m oc v ms user st = (Inl (Throw msg), st')
      \<and> (\<exists>(ti :: TokenInfo) b. int b < amount
        \<and> msg = ''Insufficient '' @ symbol ti @ '' balance. Required: ''
                  @ formatTokenAmount amount (decimals ti) @ '', Available: ''
                  @ formatTokenAmount (int b) (decimals ti))"
    by blast
qed

lemma main_buy_fails:
  assumes buy: "argv ! 0 = ''buy''" "5 \<le> length argv"
    and amount: "BigInt (argv ! 4) = Inr amount"
    and c: "connects rpc cfg" and short: "short_of rpc (ERC20_TOKEN_ADDRESS cfg) amount"
  shows "\<exists>msg st'. (\<exists>(ti :: TokenInfo) b. int b < amount
        \<and> msg = ''Insufficient '' @ symbol ti @ '' balance. Required: ''
                  @ formatTokenAmount amount (decimals ti) @ '', Available: ''
                  @ formatTokenAmount (int b) (decimals ti))
     \<and> main cfg rpc argv st = (Inl (Exit 1), st')
     \<and> (\<exists>out. console st' = out @ [Stderr (newline @ ''Action failed! '' @ cross_mark),
                                      Stderr (''Error: '' @ msg)])"
proof -
  let ?T = "since (trace st) (\<lambda>_. True)"
  define E where "E = (\<lambda>msg. \<exists>(ti :: TokenInfo) b. int b < amount
        \<and> msg = ''Insufficient '' @ symbol ti @ '' balance. Required: ''
                  @ formatTokenAmount amount (decimals ti) @ '', Available: ''
                  @ formatTokenAmount (int b) (decimals ti))"
  have upT: "upward ?T" by (rule upward_since [OF upward_True])
  have T: "?T (trace st)" by (simp add: since_def)
  have pre: "returns ?T
       (if c then io_then (getUserShares rpc contract ti m user) (console_log l)
        else io_return ()) (\<lambda>_. ?T)" for c contract ti m user l
    by (rule returns_if, rule returns_then, rule returns_getUserShares_any [OF upward_True],
        rule returns_log, rule returns_return)
  have act: "raises ?T (executeBuy rpc cfg contract (ERC20_TOKEN_ADDRESS cfg) ti m oc (argv ! 4) ms user) E"
    for contract ti m oc ms user
    unfolding E_def by (rule raises_buy [OF amount short])
  have "\<exists>msg st'. E msg
     \<and> main cfg rpc argv st = (Inl (Exit 1), st')
     \<and> (\<exists>out. console st' = out @ [Stderr (newline @ ''Action failed! '' @ cross_mark),
                                      Stderr (''Error: '' @ msg)])"
    unfolding main_def
    apply (rule try_exit [where C = ?T])
     apply (rule raises_bind_pure [OF parseArguments_buy [OF buy]])
     apply (simp add: bang_def)
     apply (rule raises_bind, rule returns_readABI(1) [OF c upT])
     apply (rule raises_bind, rule returns_readABI(2) [OF c upT])
     apply (rule raises_bind, rule returns_setupEthers [OF c upT])
     apply (rule raises_case_prod)
     apply (rule raises_bind, rule returns_createContract(1) [OF c upT], rule raises_pure, hypsubst)
     apply (rule raises_bind, rule returns_createContract(2) [OF c upT], rule raises_pure, hypsubst)
     apply (rule raises_then, rule returns_log)+
     apply (rule raises_bind, rule returns_getTokenInfo [OF c upT])
     apply (rule raises_then, rule returns_log)+
     apply (rule raises_then, rule pre)
     apply (rule raises_bind_left)
     apply (rule act)
    apply (rule T)
    done
  then show ?thesis unfolding E_def .
qed

lemmas run_main_defs = main_def parseArguments_def readABI_def readERC20ABI_def setupEthers_def
  createContract_def getTokenInfo_def getUserShares_def io_settle_def truthy_def bang_def
  or_default_def Let_def

text \<open>
  Claim C2. With \<open>value\<close> an integer. In \<open>executeBuy\<close>, once the balance of the signer is
  read: when the balance is less than the value, the action throws the error
  \<open>Insufficient <symbol> balance\<close>, after the balance read and nothing else (no allowance
  read, no gas estimate, no submission; the error is also written to the error stream);
  when the balance is the value or more, the next request is the allowance read of
  \<open>checkAndApprove\<close>. In every world, in \<open>executeBuy\<close> and in the whole run of \<open>main\<close> on
  a \<open>buy\<close> invocation, no allowance read, gas estimate or submission comes before a
  balance read of the token answered with the value or more. And in a world that connects
  and in which the balance of the token (the contract at \<open>ERC20_TOKEN_ADDRESS\<close>) is less
  than the value, the run of \<open>main\<close> on a \<open>buy\<close> invocation ends
  the process with code 1, the last two lines on the error stream being the failure
  banner and the insufficient-balance error, having made no allowance read, no gas estimate
  and no submission.
\<close>

theorem buy_fails_fast:
  assumes amount: "BigInt v = Inr amount"
  shows "(\<forall>b w1.
            rpc (world st) (Call tokenContract ''balanceOf'' [Str user]) = (Inr (Uint b), w1) \<longrightarrow>
            (int b < amount \<longrightarrow>
               executeBuy rpc cfg contract tokenContract ti m oc v ms user st =
                 (Inl (Throw (''Insufficient '' @ symbol ti @ '' balance. Required: ''
                         @ formatTokenAmount amount (decimals ti) @ '', Available: ''
                         @ formatTokenAmount (int b) (decimals ti))),
                  st\<lparr>world := w1,
                     trace := trace st @ [(Call tokenContract ''balanceOf'' [Str user], Inr (Uint b))],
                     console := console st @
                       [Stdout ''Executing buy:'',
                        Stdout (''  Market ID: '' @ m),
                        Stdout (''  Outcome ID: '' @ oc),
                        Stdout (''  Value: '' @ formatTokenAmount amount (decimals ti) @ '' '' @ symbol ti),
                        Stdout (''  Min Shares: '' @ ms @ newline),
                        Stdout (symbol ti @ '' balance: '' @ formatTokenAmount (int b) (decimals ti)
                                @ '' '' @ symbol ti),
                        Stderr (''Error executing buy: '' @ ''Insufficient '' @ symbol ti
                                @ '' balance. Required: '' @ formatTokenAmount amount (decimals ti)
                                @ '', Available: '' @ formatTokenAmount (int b) (decimals ti))]\<rparr>))
          \<and> (amount \<le> int b \<longrightarrow>
               (\<exists>rest. new_trace (executeBuy rpc cfg contract tokenContract ti m oc v ms user) st =
                  [(Call tokenContract ''balanceOf'' [Str user], Inr (Uint b)),
                   (Call tokenContract ''allowance'' [Str user, Str (CONTRACT_ADDRESS cfg)],
                    fst (rpc w1 (Call tokenContract ''allowance'' [Str user, Str (CONTRACT_ADDRESS cfg)])))]
                  @ rest)))
       \<and> guarded tokenContract amount
            (new_trace (executeBuy rpc cfg contract tokenContract ti m oc v ms user) st)
       \<and> (argv ! 0 = ''buy'' \<and> 5 \<le> length argv \<and> argv ! 4 = v \<longrightarrow>
            guarded (ERC20_TOKEN_ADDRESS cfg) amount (new_trace (main cfg rpc argv) st)
          \<and> (connects rpc cfg \<and> short_of rpc (ERC20_TOKEN_ADDRESS cfg) amount \<longrightarrow>
               (\<exists>msg st'.
                  (\<exists>(ti :: TokenInfo) b. int b < amount
                     \<and> msg = ''Insufficient '' @ symbol ti @ '' balance. Required: ''
                         @ formatTokenAmount amount (decimals ti) @ '', Available: ''
                         @ formatTokenAmount (int b) (decimals ti))
                  \<and> main cfg rpc argv st = (Inl (Exit 1), st')
                  \<and> (\<exists>out. console st' = out @ [Stderr (newline @ ''Action failed! '' @ cross_mark),
                                                   Stderr (''Error: '' @ msg)]))
               \<and> exit_code (fst (main cfg rpc argv st)) = 1
               \<and> list_all (\<lambda>e. \<not> past_balance_check (fst e)) (new_trace (main cfg rpc argv) st)))"
proof (intro conjI allI impI)
  fix b w1
  assume b: "rpc (world st) (Call tokenContract ''balanceOf'' [Str user]) = (Inr (Uint b), w1)"
  {
    assume "int b < amount"
    with amount b
    show "executeBuy rpc cfg contract tokenContract ti m oc v ms user st =
                 (Inl (Throw (''Insufficient '' @ symbol ti @ '' balance. Required: ''
                         @ formatTokenAmount amount (decimals ti) @ '', Available: ''
                         @ formatTokenAmount (int b) (decimals ti))),
                  st\<lparr>world := w1,
                     trace := trace st @ [(Call tokenContract ''balanceOf'' [Str user], Inr (Uint b))],
                     console := console st @
                       [Stdout ''Executing buy:'',
                        Stdout (''  Market ID: '' @ m),
                        Stdout (''  Outcome ID: '' @ oc),
                        Stdout (''  Value: '' @ formatTokenAmount amount (decimals ti) @ '' '' @ symbol ti),
                        Stdout (''  Min Shares: '' @ ms @ newline),
                        Stdout (symbol ti @ '' balance: '' @ formatTokenAmount (int b) (decimals ti)
                                @ '' '' @ symbol ti),
                        Stderr (''Error executing buy: '' @ ''Insufficient '' @ symbol ti
                                @ '' balance. Required: '' @ formatTokenAmount amount (decimals ti)
                                @ '', Available: '' @ formatTokenAmount (int b) (decimals ti))]\<rparr>)"
      by (rule buy_insufficient)
  }
  {
    assume "amount \<le> int b"
    with amount b
    show "\<exists>rest. new_trace (executeBuy rpc cfg contract tokenContract ti m oc v ms user) st =
                  [(Call tokenContract ''balanceOf'' [Str user], Inr (Uint b)),
                   (Call tokenContract ''allowance'' [Str user, Str (CONTRACT_ADDRESS cfg)],
                    fst (rpc w1 (Call tokenContract ''allowance'' [Str user, Str (CONTRACT_ADDRESS cfg)])))]
                  @ rest"
      by (intro begins_new_trace buy_proceeds)
  }
next
  show "guarded tokenContract amount
      (new_trace (executeBuy rpc cfg contract tokenContract ti m oc v ms user) st)"
    by (rule emits_new_trace [OF guarded_buy [OF amount]])
next
  assume a: "argv ! 0 = ''buy'' \<and> 5 \<le> length argv \<and> argv ! 4 = v"
  then have buy: "argv ! 0 = ''buy''" "5 \<le> length argv" and amount': "BigInt (argv ! 4) = Inr amount"
    using amount by simp_all
  show "guarded (ERC20_TOKEN_ADDRESS cfg) amount (new_trace (main cfg rpc argv) st)"
    by (rule emits_new_trace, rule main_buy_emits [OF appendable_guarded _ buy],
        simp add: past_balance_check_def, rule guarded_buy [OF amount'])
  assume w: "connects rpc cfg \<and> short_of rpc (ERC20_TOKEN_ADDRESS cfg) amount"
  then have c: "connects rpc cfg" and short: "short_of rpc (ERC20_TOKEN_ADDRESS cfg) amount" by simp_all
  from main_buy_fails [OF buy amount' c short, of st]
  show run: "\<exists>msg st'.
                  (\<exists>(ti :: TokenInfo) b. int b < amount
                     \<and> msg = ''Insufficient '' @ symbol ti @ '' balance. Required: ''
                         @ formatTokenAmount amount (decimals ti) @ '', Available: ''
                         @ formatTokenAmount (int b) (decimals ti))
                  \<and> main cfg rpc argv st = (Inl (Exit 1), st')
                  \<and> (\<exists>out. console st' = out @ [Stderr (newline @ ''Action failed! '' @ cross_mark),
                                                   Stderr (''Error: '' @ msg)])" .
  then obtain st' where "main cfg rpc argv st = (Inl (Exit 1), st')" by blast
  then show "exit_code (fst (main cfg rpc argv st)) = 1"
    by (simp add: exit_code_def)
  show "list_all (\<lambda>e. \<not> past_balance_check (fst e)) (new_trace (main cfg rpc argv) st)"
    by (rule emits_new_trace, rule main_buy_emits [OF appendable_list_all _ buy],
        simp, rule quiet_buy [OF amount' short])
qed

text \<open>
  On the stub chain (balance 5): buying 10 fails after the balance read, in \<open>executeBuy\<close>
  and in the run of \<open>main\<close>, whose requests are listed; buying 5 goes on to the allowance.
\<close>

theorem buy_fails_fast_witness:
  "executeBuy (stub_rpc stub0) stub_cfg ''0xMarket'' ''0xToken'' usdc ''7'' ''1'' ''10'' ''0'' ''0xUser''
       (start 0) =
     (Inl (Throw (''Insufficient USDC balance. Required: '' @ formatTokenAmount 10 6
                  @ '', Available: '' @ formatTokenAmount 5 6)),
      \<lparr>world = 0,
       trace = [(Call ''0xToken'' ''balanceOf'' [Str ''0xUser''], Inr (Uint 5))],
       console =
         [Stdout ''Executing buy:'',
          Stdout ''  Market ID: 7'',
          Stdout ''  Outcome ID: 1'',
          Stdout (''  Value: '' @ formatTokenAmount 10 6 @ '' USDC''),
          Stdout (''  Min Shares: 0'' @ newline),
          Stdout (''USDC balance: '' @ formatTokenAmount 5 6 @ '' USDC''),
          Stderr (''Error executing buy: Insufficient USDC balance. Required: ''
                  @ formatTokenAmount 10 6 @ '', Available: '' @ formatTokenAmount 5 6)]\<rparr>)
   \<and> (\<exists>rest. new_trace
         (executeBuy (stub_rpc stub0) stub_cfg ''0xMarket'' ''0xToken'' usdc ''7'' ''1'' ''5'' ''0'' ''0xUser'')
         (start 0) =
       [(Call ''0xToken'' ''balanceOf'' [Str ''0xUser''], Inr (Uint 5)),
        (Call ''0xToken'' ''allowance'' [Str ''0xUser'', Str ''0xMarket''], Inr (Uint 5))] @ rest)
   \<and> exit_code (fst (main stub_cfg (stub_rpc stub0) [''buy'', ''0xkey'', ''7'', ''1'', ''10''] (start 0))) = 1
   \<and> list_all (\<lambda>e. \<not> past_balance_check (fst e))
        (new_trace (main stub_cfg (stub_rpc stub0) [''buy'', ''0xkey'', ''7'', ''1'', ''10'']) (start 0))
   \<and> new_trace (main stub_cfg (stub_rpc stub0) [''buy'', ''0xkey'', ''7'', ''1'', ''10'']) (start 0) =
       [(ReadABI ''../contracts/PredictionMarketV3_4.json'', Inr (Abi ''[]'')),
        (ReadABI ''../contracts/ERC20.json'', Inr (Abi ''[]'')),
        (NewProvider ''http://localhost:8545'', Inr Done),
        (NewWallet ''0xkey'', Inr (Address ''0xUser'')),
        (GetBalance ''0xUser'', Inr (Uint 1000000000000000000)),
        (NewContract ''0xMarket'' ''[]'', Inr Done),
        (NewContract ''0xToken'' ''[]'', Inr Done),
        (Call ''0xToken'' ''decimals'' [], Inr (Uint 6)),
        (Call ''0xToken'' ''symbol'' [], Inr (Text ''USDC'')),
        (Call ''0xToken'' ''name'' [], Inr (Text ''USD Coin'')),
        (Call ''0xMarket'' ''getUserMarketShares'' [Str ''7'', Str ''0xUser''], Inl ''execution reverted''),
        (Call ''0xToken'' ''balanceOf'' [Str ''0xUser''], Inr (Uint 5))]"
proof -
  have t: "new_trace (main stub_cfg (stub_rpc stub0) [''buy'', ''0xkey'', ''7'', ''1'', ''10'']) (start 0) =
       [(ReadABI ''../contracts/PredictionMarketV3_4.json'', Inr (Abi ''[]'')),
        (ReadABI ''../contracts/ERC20.json'', Inr (Abi ''[]'')),
        (NewProvider ''http://localhost:8545'', Inr Done),
        (NewWallet ''0xkey'', Inr (Address ''0xUser'')),
        (GetBalance ''0xUser'', Inr (Uint 1000000000000000000)),
        (NewContract ''0xMarket'' ''[]'', Inr Done),
        (NewContract ''0xToken'' ''[]'', Inr Done),
        (Call ''0xToken'' ''decimals'' [], Inr (Uint 6)),
        (Call ''0xToken'' ''symbol'' [], Inr (Text ''USDC'')),
        (Call ''0xToken'' ''name'' [], Inr (Text ''USD Coin'')),
        (Call ''0xMarket'' ''getUserMarketShares'' [Str ''7'', Str ''0xUser''], Inl ''execution reverted''),
        (Call ''0xToken'' ''balanceOf'' [Str ''0xUser''], Inr (Uint 5))]"
    by (simp add: new_trace_def run_main_defs executeBuy_def run_defs BigInt_10)
  from buy_fails_fast [where rpc = "stub_rpc stub0" and st = "start 0" and v = "''10''" and amount = 10
      and tokenContract = "''0xToken''" and user = "''0xUser''"
      and cfg = stub_cfg and contract = "''0xMarket''" and ti = usdc and m = "''7''" and oc = "''1''"
      and ms = "''0''" and argv = "[''buy'', ''0xkey'', ''7'', ''1'', ''10'']"]
    buy_fails_fast [where rpc = "stub_rpc stub0" and st = "start 0" and v = "''5''" and amount = 5
      and tokenContract = "''0xToken''" and user = "''0xUser''"
      and cfg = stub_cfg and contract = "''0xMarket''" and ti = usdc and m = "''7''" and oc = "''1''"
      and ms = "''0''" and argv = "[]"]
    stub_connects [of stub0 stub_cfg] stub_short
  have "executeBuy (stub_rpc stub0) stub_cfg ''0xMarket'' ''0xToken'' usdc ''7'' ''1'' ''10'' ''0'' ''0xUser''
       (start 0) =
     (Inl (Throw (''Insufficient USDC balance. Required: '' @ formatTokenAmount 10 6
                  @ '', Available: '' @ formatTokenAmount 5 6)),
      \<lparr>world = 0,
       trace = [(Call ''0xToken'' ''balanceOf'' [Str ''0xUser''], Inr (Uint 5))],
       console =
         [Stdout ''Executing buy:'',
          Stdout ''  Market ID: 7'',
          Stdout ''  Outcome ID: 1'',
          Stdout (''  Value: '' @ formatTokenAmount 10 6 @ '' USDC''),
          Stdout (''  Min Shares: 0'' @ newline),
          Stdout (''USDC balance: '' @ formatTokenAmount 5 6 @ '' USDC''),
          Stderr (''Error executing buy: Insufficient USDC balance. Required: ''
                  @ formatTokenAmount 10 6 @ '', Available: '' @ formatTokenAmount 5 6)]\<rparr>)"
    and "\<exists>rest. new_trace
         (executeBuy (stub_rpc stub0) stub_cfg ''0xMarket'' ''0xToken'' usdc ''7'' ''1'' ''5'' ''0'' ''0xUser'')
         (start 0) =
       [(Call ''0xToken'' ''balanceOf'' [Str ''0xUser''], Inr (Uint 5)),
        (Call ''0xToken'' ''allowance'' [Str ''0xUser'', Str ''0xMarket''], Inr (Uint 5))] @ rest"
    and "exit_code (fst (main stub_cfg (stub_rpc stub0) [''buy'', ''0xkey'', ''7'', ''1'', ''10''] (start 0))) = 1"
    and "list_all (\<lambda>e. \<not> past_balance_check (fst e))
        (new_trace (main stub_cfg (stub_rpc stub0) [''buy'', ''0xkey'', ''7'', ''1'', ''10'']) (start 0))"
    by (simp_all add: BigInt_10 BigInt_5 start_def stub0_def stub_call_def usdc_def stub_cfg_def)
  with t show ?thesis by (simp only: simp_thms)
qed

section \<open>Allowance and approval\<close>

text \<open>
  Claim C1. In \<open>checkAndApprove\<close>, with the allowance \<open>a\<close> read and \<open>r\<close> the amount
  required: when \<open>a < r\<close> the approval is submitted, for the amount \<open>r\<close> and with the
  buffered gas limit, as soon as the gas estimate and the fee data that precede the
  submission have been obtained; when \<open>r \<le> a\<close> the action returns having made no request
  but the allowance read, and reports that the allowance is sufficient; and a run that
  submits a transaction is one where \<open>a < r\<close>.
\<close>

theorem approval_iff_allowance_short:
  assumes a: "rpc (world st) (Call tokenContract ''allowance'' [Str user, Str spender]) = (Inr (Uint a), w1)"
  shows "(int a < r \<longrightarrow>
           (\<forall>g w2 p w3.
              rpc w1 (EstimateGas tokenContract ''approve'' [Str spender, Big r]) = (Inr (Uint g), w2) \<longrightarrow>
              rpc w2 GetFeeData = (Inr (FeeData p), w3) \<longrightarrow>
              (\<exists>rest. new_trace (checkAndApprove rpc tokenContract spender r user ti) st =
                 [(Call tokenContract ''allowance'' [Str user, Str spender], Inr (Uint a)),
                  (EstimateGas tokenContract ''approve'' [Str spender, Big r], Inr (Uint g)),
                  (GetFeeData, Inr (FeeData p)),
                  (Send tokenContract ''approve'' [Str spender, Big r]
                     \<lparr>gasLimit = g * 120 div 100, gasPrice = p\<rparr>,
                   fst (rpc w3 (Send tokenContract ''approve'' [Str spender, Big r]
                     \<lparr>gasLimit = g * 120 div 100, gasPrice = p\<rparr>)))] @ rest)))
       \<and> (r \<le> int a \<longrightarrow>
           checkAndApprove rpc tokenContract spender r user ti st =
             (Inr (), st\<lparr>world := w1,
                trace := trace st @ [(Call tokenContract ''allowance'' [Str user, Str spender], Inr (Uint a))],
                console := console st @
                  [Stdout (''Checking '' @ symbol ti @ '' allowance...''),
                   Stdout (''Current allowance: '' @ formatTokenAmount (int a) (decimals ti) @ '' '' @ symbol ti),
                   Stdout (''Required amount: '' @ formatTokenAmount r (decimals ti) @ '' '' @ symbol ti),
                   Stdout (check_mark @ '' Sufficient allowance already exists.'' @ newline)]\<rparr>))
       \<and> (list_ex (\<lambda>e. is_send (fst e)) (new_trace (checkAndApprove rpc tokenContract spender r user ti) st)
            \<longrightarrow> int a < r)"
proof (intro conjI impI allI)
  fix g w2 p w3
  assume "int a < r"
    and "rpc w1 (EstimateGas tokenContract ''approve'' [Str spender, Big r]) = (Inr (Uint g), w2)"
    and "rpc w2 GetFeeData = (Inr (FeeData p), w3)"
  with a show "\<exists>rest. new_trace (checkAndApprove rpc tokenContract spender r user ti) st =
                 [(Call tokenContract ''allowance'' [Str user, Str spender], Inr (Uint a)),
                  (EstimateGas tokenContract ''approve'' [Str spender, Big r], Inr (Uint g)),
                  (GetFeeData, Inr (FeeData p)),
                  (Send tokenContract ''approve'' [Str spender, Big r]
                     \<lparr>gasLimit = g * 120 div 100, gasPrice = p\<rparr>,
                   fst (rpc w3 (Send tokenContract ''approve'' [Str spender, Big r]
                     \<lparr>gasLimit = g * 120 div 100, gasPrice = p\<rparr>)))] @ rest"
    by (intro begins_new_trace approve_begins)
next
  assume "r \<le> int a"
  with a show "checkAndApprove rpc tokenContract spender r user ti st =
             (Inr (), st\<lparr>world := w1,
                trace := trace st @ [(Call tokenContract ''allowance'' [Str user, Str spender], Inr (Uint a))],
                console := console st @
                  [Stdout (''Checking '' @ symbol ti @ '' allowance...''),
                   Stdout (''Current allowance: '' @ formatTokenAmount (int a) (decimals ti) @ '' '' @ symbol ti),
                   Stdout (''Required amount: '' @ formatTokenAmount r (decimals ti) @ '' '' @ symbol ti),
                   Stdout (check_mark @ '' Sufficient allowance already exists.'' @ newline)]\<rparr>)"
    by (rule approve_sufficient)
next
  assume s: "list_ex (\<lambda>e. is_send (fst e)) (new_trace (checkAndApprove rpc tokenContract spender r user ti) st)"
  show "int a < r"
  proof (rule ccontr)
    assume "\<not> int a < r"
    then have "r \<le> int a" by simp
    with a have "checkAndApprove rpc tokenContract spender r user ti st =
       (Inr (), st\<lparr>world := w1,
          trace := trace st @ [(Call tokenContract ''allowance'' [Str user, Str spender], Inr (Uint a))],
          console := console st @
            [Stdout (''Checking '' @ symbol ti @ '' allowance...''),
             Stdout (''Current allowance: '' @ formatTokenAmount (int a) (decimals ti) @ '' '' @ symbol ti),
             Stdout (''Required amount: '' @ formatTokenAmount r (decimals ti) @ '' '' @ symbol ti),
             Stdout (check_mark @ '' Sufficient allowance already exists.'' @ newline)]\<rparr>)"
      by (rule approve_sufficient)
    with s show False
      by (simp add: new_trace_def is_send_def)
  qed
qed


theorem approval_iff_allowance_short_witness:
  "(\<exists>rest. new_trace (checkAndApprove (stub_rpc stub0) ''0xToken'' ''0xMarket'' 10 ''0xUser'' usdc) (start 0) =
      [(Call ''0xToken'' ''allowance'' [Str ''0xUser'', Str ''0xMarket''], Inr (Uint 5)),
       (EstimateGas ''0xToken'' ''approve'' [Str ''0xMarket'', Big 10], Inr (Uint 21001)),
       (GetFeeData, Inr (FeeData (Some 30000000000))),
       (Send ''0xToken'' ''approve'' [Str ''0xMarket'', Big 10]
          \<lparr>gasLimit = 25201, gasPrice = Some 30000000000\<rparr>, Inr (TxResponse ''0xabc''))] @ rest)
   \<and> checkAndApprove (stub_rpc stub0) ''0xToken'' ''0xMarket'' 5 ''0xUser'' usdc (start 0) =
      (Inr (), \<lparr>world = 0,
         trace = [(Call ''0xToken'' ''allowance'' [Str ''0xUser'', Str ''0xMarket''], Inr (Uint 5))],
         console =
           [Stdout ''Checking USDC allowance...'',
            Stdout (''Current allowance: '' @ formatTokenAmount 5 6 @ '' USDC''),
            Stdout (''Required amount: '' @ formatTokenAmount 5 6 @ '' USDC''),
            Stdout (check_mark @ '' Sufficient allowance already exists.'' @ newline)]\<rparr>)"
  using approval_iff_allowance_short [where rpc = "stub_rpc stub0" and st = "start 0"
      and tokenContract = "''0xToken''" and user = "''0xUser''" and spender = "''0xMarket''"
      and a = 5 and ?w1.0 = 0 and r = 10 and ti = usdc]
    approval_iff_allowance_short [where rpc = "stub_rpc stub0" and st = "start 0"
      and tokenContract = "''0xToken''" and user = "''0xUser''" and spender = "''0xMarket''"
      and a = 5 and ?w1.0 = 0 and r = 5 and ti = usdc]
  by (simp add: start_def stub0_def stub_call_def usdc_def)

section \<open>The position report\<close>




section \<open>Token amounts\<close>

lemma digit_not_special: "is_digit 10 c \<Longrightarrow> c \<noteq> CHR ''.'' \<and> c \<noteq> CHR ''-''"
  by (auto simp: is_digit_def digit_val_def)

lemma nat_toString_no_point: "CHR ''.'' \<notin> set (nat_toString n)"
  using digits_nat_toString [of n] digit_not_special
  by (auto simp: list_all_iff)

lemma nat_toString_hd: "hd (nat_toString n) \<noteq> CHR ''-''"
proof -
  have "hd (nat_toString n) \<in> set (nat_toString n)"
    using nat_toString_nonempty by simp
  with digits_nat_toString [of n] digit_not_special show ?thesis
    by (auto simp: list_all_iff)
qed

lemma length_nat_toString: "0 < d \<Longrightarrow> n < 10 ^ d \<Longrightarrow> length (nat_toString n) \<le> d"
proof (induction n arbitrary: d rule: nat_toString.induct)
  case (1 n)
  show ?case
  proof (cases "n < 10")
    case True
    with "1.prems" show ?thesis by (simp add: nat_toString_small)
  next
    case False
    from "1.prems" obtain e where d: "d = Suc e" by (cases d) auto
    from False "1.prems" d have "0 < e" by (cases e) auto
    moreover from "1.prems" d have "n div 10 < 10 ^ e"
      by (simp add: less_mult_imp_div_less mult.commute)
    ultimately have "length (nat_toString (n div 10)) \<le> e"
      using "1.IH" False by simp
    with False d show ?thesis by (simp add: nat_toString_large)
  qed
qed

lemma strip_trailing_zeros_pads:
  "\<exists>k. s = strip_trailing_zeros s @ replicate k (CHR ''0'')"
proof (induction s rule: strip_trailing_zeros.induct)
  case (1 s)
  show ?case
  proof (cases "1 < length s \<and> last s = CHR ''0''")
    case False
    then have "strip_trailing_zeros s = s" by (subst strip_trailing_zeros.simps) auto
    then show ?thesis by simp
  next
    case True
    then have s: "strip_trailing_zeros s = strip_trailing_zeros (butlast s)"
      by (subst strip_trailing_zeros.simps) simp
    from True have ne: "s \<noteq> []" by auto
    from 1 True obtain k where k: "butlast s = strip_trailing_zeros (butlast s) @ replicate k (CHR ''0'')"
      by blast
    from ne True have e: "butlast s @ [CHR ''0''] = s"
      using append_butlast_last_id [of s] by simp
    have "strip_trailing_zeros s @ replicate (Suc k) (CHR ''0'')
          = (strip_trailing_zeros (butlast s) @ replicate k (CHR ''0'')) @ [CHR ''0'']"
      by (simp add: s replicate_append_same)
    also have "\<dots> = butlast s @ [CHR ''0'']"
      using k by simp
    also have "\<dots> = s" by (rule e)
    finally show ?thesis by metis
  qed
qed

lemma read_digits_leading_zeros:
  "read_digits 10 (replicate k (CHR ''0'') @ s) = read_digits 10 s"
proof -
  have "foldl (\<lambda>a c. 10 * a + the (digit_val 10 c)) 0 (replicate k (CHR ''0'')) = 0"
    by (induction k) (simp_all add: digit_val_def)
  then show ?thesis by (simp add: read_digits_def)
qed

lemma fraction_round_trip:
  assumes d: "0 < d" and f: "f < 10 ^ d"
  shows "list_all (is_digit 10) (strip_trailing_zeros (pad_left d (nat_toString f)))"
    and "drop d (strip_trailing_zeros (pad_left d (nat_toString f))) = []"
    and "read_digits 10 (take d (pad_right d (strip_trailing_zeros (pad_left d (nat_toString f))))) = f"
proof -
  let ?P = "pad_left d (nat_toString f)"
  let ?F = "strip_trailing_zeros ?P"
  from length_nat_toString [OF d f] have lenP: "length ?P = d"
    by (simp add: pad_left_def)
  have "is_digit 10 (CHR ''0'')"
    by (simp add: is_digit_def digit_val_def)
  then have digP: "list_all (is_digit 10) ?P"
    using digits_nat_toString [of f]
    by (auto simp: pad_left_def list_all_iff)
  obtain k where k: "?P = ?F @ replicate k (CHR ''0'')"
    using strip_trailing_zeros_pads [of ?P] by blast
  from k digP show "list_all (is_digit 10) ?F"
    by (metis list_all_append)
  from k lenP have lenF: "length ?F + k = d"
    by (metis length_append length_replicate)
  then show "drop d ?F = []" by simp
  from lenF have "pad_right d ?F = ?F @ replicate k (CHR ''0'')"
    by (auto simp: pad_right_def)
  with k have "pad_right d ?F = ?P" by simp
  with lenP have "take d (pad_right d ?F) = ?P" by simp
  moreover have "read_digits 10 ?P = f"
    by (simp add: pad_left_def read_digits_leading_zeros read_nat_toString)
  ultimately show "read_digits 10 (take d (pad_right d ?F)) = f" by simp
qed

lemma parse_body:
  fixes m d :: nat
  defines "W \<equiv> nat_toString (m div 10 ^ d)"
    and "F \<equiv> strip_trailing_zeros (pad_left d (nat_toString (m mod 10 ^ d)))"
  defines "body \<equiv> (if d = 0 then W else W @ ''.'' @ F)"
  shows "takeWhile (\<lambda>c. c \<noteq> CHR ''.'') body = W"
    and "drop 1 (dropWhile (\<lambda>c. c \<noteq> CHR ''.'') body) = (if d = 0 then [] else F)"
    and "hd body \<noteq> CHR ''-''" and "body \<noteq> []"
proof -
  have np: "\<forall>c \<in> set W. c \<noteq> CHR ''.''"
    using nat_toString_no_point [of "m div 10 ^ d"] by (auto simp: W_def)
  have ne: "W \<noteq> []" by (simp add: W_def nat_toString_nonempty)
  from np show "takeWhile (\<lambda>c. c \<noteq> CHR ''.'') body = W"
    by (simp add: body_def takeWhile_append2)
  from np have "dropWhile (\<lambda>c. c \<noteq> CHR ''.'') body = (if d = 0 then [] else ''.'' @ F)"
    by (simp add: body_def dropWhile_append2)
  then show "drop 1 (dropWhile (\<lambda>c. c \<noteq> CHR ''.'') body) = (if d = 0 then [] else F)"
    by simp
  from ne show "hd body \<noteq> CHR ''-''"
    by (simp add: body_def W_def nat_toString_hd nat_toString_nonempty)
  from ne show "body \<noteq> []" by (simp add: body_def)
qed


lemma parse_formatted_body:
  fixes m d :: nat
  defines "body \<equiv> (if d = 0 then nat_toString (m div 10 ^ d)
      else nat_toString (m div 10 ^ d) @ ''.''
           @ strip_trailing_zeros (pad_left d (nat_toString (m mod 10 ^ d))))"
  shows "parseUnits body d = Inr (int m)"
    and "parseUnits (CHR ''-'' # body) d = Inr (- int m)"
proof -
  let ?W = "nat_toString (m div 10 ^ d)"
  let ?F = "strip_trailing_zeros (pad_left d (nat_toString (m mod 10 ^ d)))"
  note pb = parse_body [where m = m and d = d, folded body_def]
  have W: "list_all (is_digit 10) ?W" "?W \<noteq> []" "read_digits 10 ?W = m div 10 ^ d"
    by (simp_all add: digits_nat_toString nat_toString_nonempty read_nat_toString)
  have rd0: "read_digits 10 [] = 0" by (simp add: read_digits_def)
  have "int (m div 10 ^ d * 10 ^ d + m mod 10 ^ d) = int m"
    by (simp only: div_mult_mod_eq)
  then have ar: "int (m div 10 ^ d) * 10 ^ d + int (m mod 10 ^ d) = int m"
    by (simp only: of_nat_add of_nat_mult of_nat_power of_nat_numeral)
  show "parseUnits body d = Inr (int m)"
  proof (cases "d = 0")
    case True
    with pb W rd0 show ?thesis
      by (simp add: parseUnits_def Let_def pad_right_def)
  next
    case False
    then have d: "0 < d" by simp
    have f: "m mod 10 ^ d < 10 ^ d" by simp
    note fr = fraction_round_trip [OF d f]
    from False pb W fr ar show ?thesis
      by (simp add: parseUnits_def Let_def)
  qed
  show "parseUnits (CHR ''-'' # body) d = Inr (- int m)"
  proof (cases "d = 0")
    case True
    with pb W rd0 show ?thesis
      by (simp add: parseUnits_def Let_def pad_right_def)
  next
    case False
    then have d: "0 < d" by simp
    have f: "m mod 10 ^ d < 10 ^ d" by simp
    note fr = fraction_round_trip [OF d f]
    from False pb W fr ar show ?thesis
      by (simp add: parseUnits_def Let_def)
  qed
qed

subsection \<open>Examples\<close>

lemma replicate_numeral: "replicate (numeral k) x = x # replicate (pred_numeral k) x"
  by (simp add: numeral_eq_Suc)

lemmas eval_digits = nat_toString.simps digit_char_def pad_left_def pad_right_def
  strip_trailing_zeros.simps replicate_numeral is_digit_def digit_val_def read_digits_def

lemma formatUnits_examples:
  "formatUnits 1500000 6 = ''1.5''"
  "formatUnits 10 6 = ''0.00001''"
  "formatUnits 0 18 = ''0.0''"
  "formatUnits 42 0 = ''42''"
  "formatUnits (- 1500000) 6 = ''-1.5''"
  unfolding formatUnits_def Let_def by (simp_all add: eval_digits)

lemma parseUnits_examples:
  "parseUnits ''1.5'' 6 = Inr 1500000"
  "parseUnits ''0.00001'' 6 = Inr 10"
  "parseUnits ''-1.5'' 6 = Inr (- 1500000)"
  "parseUnits ''42'' 0 = Inr 42"
  "parseUnits ''1.2345678'' 6 = Inl ''too many decimals for format''"
  "parseUnits ''1.5x'' 6 = Inl ''invalid FixedNumber string value''"
  "parseUnits [] 6 = Inl ''invalid FixedNumber string value''"
  unfolding parseUnits_def Let_def by (simp_all add: eval_digits)

subsection \<open>The round trip\<close>

text \<open>
  Claim C4. Formatting a base-unit amount with \<open>d\<close> decimals and parsing the string back
  with the same \<open>d\<close> gives the amount again: for every integer \<open>v\<close>, of either sign, and
  every decimal count \<open>d\<close> (so in particular for \<open>d\<close> from 0 to 18),
  \<open>parseTokenAmount (formatTokenAmount v d) d\<close> succeeds with \<open>v\<close>.
\<close>

theorem token_amount_round_trip:
  "parseTokenAmount (formatTokenAmount v d) d = Inr v"
proof -
  let ?m = "nat \<bar>v\<bar>"
  let ?body = "if d = 0 then nat_toString (?m div 10 ^ d)
      else nat_toString (?m div 10 ^ d) @ ''.''
           @ strip_trailing_zeros (pad_left d (nat_toString (?m mod 10 ^ d)))"
  have "formatUnits v d = (if v < 0 then CHR ''-'' # ?body else ?body)"
    by (simp add: formatUnits_def Let_def)
  moreover have "parseUnits ?body d = Inr (int ?m)"
    by (rule parse_formatted_body(1))
  moreover have "parseUnits (CHR ''-'' # ?body) d = Inr (- int ?m)"
    by (rule parse_formatted_body(2))
  ultimately have "parseUnits (formatUnits v d) d = Inr v"
    by (simp del: One_nat_def)
  then show ?thesis
    by (simp add: parseTokenAmount_def formatTokenAmount_def)
qed

end
